theory Spec2Isabelle
  imports Main
begin

section \<open>Python values used by the generator scripts\<close>

text \<open>
  The three scripts under \<^verbatim>\<open>src/\<close> are straight-line Python programs over the
  \<^verbatim>\<open>python-docx\<close> object model. A Python \<^verbatim>\<open>str\<close> is a sequence of Unicode code
  points; most literals of the scripts are Chinese, so a string is a list of code points
  and \<open>u\<close> embeds an ASCII literal.
\<close>

type_synonym str = "nat list"

definition u :: "string \<Rightarrow> str" where
  "u s = map of_char s"

text \<open>The exceptions the modelled calls can raise. \<open>NotModelled\<close> is not a Python
  exception: it marks a call whose python-docx behaviour lies outside this model
  (a merge that spans several rows), so that no theorem speaks about it.\<close>

datatype error = KeyError | ValueError | IndexError | AttributeError | InvalidSpanError | NotModelled

text \<open>Python's \<^verbatim>\<open>xs[i]\<close>: a negative index counts from the end, anything outside
  raises IndexError. \<open>py_index\<close> gives the position that is read.\<close>

definition py_index :: "nat \<Rightarrow> int \<Rightarrow> error + nat" where
  "py_index n i =
     (if 0 \<le> i \<and> i < int n then Inr (nat i)
      else if i < 0 \<and> - int n \<le> i then Inr (nat (int n + i))
      else Inl IndexError)"

text \<open>\<^verbatim>\<open>docx.shared.Pt\<close>: a length in English Metric Units, 12700 to the point.\<close>

definition Pt :: "int \<Rightarrow> int" where
  "Pt points = points * 12700"

text \<open>\<^verbatim>\<open>docx.shared.RGBColor(r, g, b)\<close> checks that each component is in 0..255.\<close>

type_synonym rgb = "int \<times> int \<times> int"

definition RGBColor :: "int \<Rightarrow> int \<Rightarrow> int \<Rightarrow> error + rgb" where
  "RGBColor r g b =
     (if 0 \<le> r \<and> r \<le> 255 \<and> 0 \<le> g \<and> g \<le> 255 \<and> 0 \<le> b \<and> b \<le> 255
      then Inr (r, g, b) else Inl ValueError)"

section \<open>XML elements and qualified names\<close>

text \<open>An \<^verbatim>\<open>lxml\<close> element as far as \<^verbatim>\<open>set_cell_shading\<close> builds one: a tag, the
  attributes in insertion order, the children.\<close>

datatype xml = Element (tag: str) (attrib: "(str \<times> str) list") (children: "xml list")

text \<open>\<^verbatim>\<open>docx.oxml.ns.nsmap\<close>, restricted to the one prefix the scripts use.\<close>

definition nsmap :: "(str \<times> str) list" where
  "nsmap = [(u ''w'', u ''http://schemas.openxmlformats.org/wordprocessingml/2006/main'')]"

text \<open>\<^verbatim>\<open>qn('w:fill')\<close>: split at the colon, look the prefix up, return Clark notation
  \<^verbatim>\<open>{uri}fill\<close>. A tag without exactly one colon fails to unpack (ValueError), an
  unknown prefix is a KeyError.\<close>

definition clark :: "str \<Rightarrow> str \<Rightarrow> str" where
  "clark uri name = u ''{'' @ uri @ u ''}'' @ name"

definition qn :: "str \<Rightarrow> error + str" where
  "qn t =
     (let pre = takeWhile (\<lambda>c. c \<noteq> 58) t; rest = dropWhile (\<lambda>c. c \<noteq> 58) t in
      if rest = [] \<or> 58 \<in> set (tl rest) then Inl ValueError
      else case map_of nsmap pre of
             None \<Rightarrow> Inl KeyError
           | Some uri \<Rightarrow> Inr (clark uri (tl rest)))"

text \<open>The names python-docx itself uses are all in the \<^verbatim>\<open>w\<close> namespace.\<close>

definition w_name :: "string \<Rightarrow> str" where
  "w_name n = clark (u ''http://schemas.openxmlformats.org/wordprocessingml/2006/main'') (u n)"

text \<open>\<^verbatim>\<open>OxmlElement(tag)\<close>: a fresh element under the tag's Clark name.\<close>

definition OxmlElement :: "str \<Rightarrow> error + xml" where
  "OxmlElement t = (case qn t of Inl e \<Rightarrow> Inl e | Inr n \<Rightarrow> Inr (Element n [] []))"

text \<open>\<^verbatim>\<open>element.set(key, value)\<close>: overwrite the attribute or add it at the end.\<close>

fun set_attrib :: "(str \<times> str) list \<Rightarrow> str \<Rightarrow> str \<Rightarrow> (str \<times> str) list" where
  "set_attrib [] k v = [(k, v)]"
| "set_attrib ((k', v') # kvs) k v =
     (if k' = k then (k, v) # kvs else (k', v') # set_attrib kvs k v)"

definition xml_set :: "xml \<Rightarrow> str \<Rightarrow> str \<Rightarrow> xml" where
  "xml_set e k v = Element (tag e) (set_attrib (attrib e) k v) (children e)"

section \<open>The document tree\<close>

text \<open>Run properties (\<^verbatim>\<open>w:rPr\<close>) of a run or a style: the font attributes of
  \<^verbatim>\<open>w:rFonts\<close> when that child exists, bold, size (EMU) and colour.\<close>

record rPr =
  rFonts :: "(str \<times> str) list option"
  bold :: "bool option"
  sz :: "int option"
  color :: "rgb option"

definition new_rPr :: rPr where
  "new_rPr = \<lparr>rFonts = None, bold = None, sz = None, color = None\<rparr>"

datatype wd_break = LINE | PAGE | COLUMN

datatype run_item = RunText str | RunBreak wd_break

record run =
  run_rPr :: "rPr option"
  items :: "run_item list"

datatype wd_align = LEFT | CENTER | RIGHT | JUSTIFY

record para =
  pStyle :: "str option"
  jc :: "wd_align option"
  runs :: "run list"

definition new_p :: para where
  "new_p = \<lparr>pStyle = None, jc = None, runs = []\<rparr>"

text \<open>Cell properties (\<^verbatim>\<open>w:tcPr\<close>): width and horizontal span, which python-docx
  keeps in schema order, then the elements appended to the node by hand.\<close>

record tcPr =
  tcW :: "int option"
  gridSpan :: "nat option"
  appended :: "xml list"

record tc =
  tc_tcPr :: "tcPr option"
  content :: "para list"

record table =
  tblStyle :: "str option"
  gridCols :: "int list"
  trs :: "tc list list"

datatype block = Para para | Tbl table

datatype style_type = PARAGRAPH | CHARACTER | TABLE | LIST

record style =
  style_id :: str
  style_name :: str
  style_type :: style_type
  is_default :: bool
  style_rPr :: "rPr option"

record document =
  styles :: "style list"
  block_width :: int
  body :: "block list"

section \<open>Program state and sequencing\<close>

text \<open>A script owns one document; \<^verbatim>\<open>doc.save\<close> and \<^verbatim>\<open>print\<close> are its only effects on
  the outside, recorded as the list of (path, tree) pairs handed to the serializer and
  the lines printed. The bytes python-docx writes for a tree and the file system are
  outside the repository and are not modelled.\<close>

record py_state =
  docx :: document
  saved :: "(str \<times> document) list"
  stdout :: "str list"

type_synonym 'a py = "py_state \<Rightarrow> error + ('a \<times> py_state)"

definition return :: "'a \<Rightarrow> 'a py" where
  "return x = (\<lambda>s. Inr (x, s))"

definition raise :: "error \<Rightarrow> 'a py" where
  "raise e = (\<lambda>s. Inl e)"

definition bind :: "'a py \<Rightarrow> ('a \<Rightarrow> 'b py) \<Rightarrow> 'b py" where
  "bind m f = (\<lambda>s. case m s of Inl e \<Rightarrow> Inl e | Inr (x, s') \<Rightarrow> f x s')"

definition lift :: "error + 'a \<Rightarrow> 'a py" where
  "lift r = (case r of Inl e \<Rightarrow> raise e | Inr x \<Rightarrow> return x)"

text \<open>A Python \<^verbatim>\<open>for i in range(n): body\<close>.\<close>

fun for_from :: "nat \<Rightarrow> (nat \<Rightarrow> unit py) \<Rightarrow> nat \<Rightarrow> unit py" where
  "for_from i f 0 = return ()"
| "for_from i f (Suc k) = bind (f i) (\<lambda>_. for_from (Suc i) f k)"

definition for_range :: "int \<Rightarrow> (nat \<Rightarrow> unit py) \<Rightarrow> unit py" where
  "for_range n f = for_from 0 f (nat n)"

text \<open>Object references. A script never drops a block, a row of a table or a run, and a
  merge only removes cells to the right of the one it keeps, so positions identify
  objects: a paragraph or table by its index in the body, a cell by table, row and
  position of its \<^verbatim>\<open>w:tc\<close> in the row, a run by paragraph and position, a style by its
  position in the style list.\<close>

datatype doc_ref = DocRef
datatype para_ref = ParaRef nat
datatype table_ref = TableRef nat
datatype cell_ref = CellRef nat nat nat
datatype run_ref = RunRef nat nat
datatype style_ref = StyleRef nat

definition get_doc :: "document py" where
  "get_doc = (\<lambda>s. Inr (docx s, s))"

definition put_doc :: "document \<Rightarrow> unit py" where
  "put_doc d = (\<lambda>s. Inr ((), s\<lparr>docx := d\<rparr>))"

text \<open>Reading and writing through a reference. A reference a script holds is always
  live; the model answers a dangling one with IndexError, a reference to a block of the
  other kind with AttributeError.\<close>

definition get_para :: "para_ref \<Rightarrow> para py" where
  "get_para r = (case r of ParaRef i \<Rightarrow>
     bind get_doc (\<lambda>d.
       if i < length (body d)
       then (case body d ! i of Para p \<Rightarrow> return p | Tbl t \<Rightarrow> raise AttributeError)
       else raise IndexError))"

definition put_para :: "para_ref \<Rightarrow> para \<Rightarrow> unit py" where
  "put_para r p = (case r of ParaRef i \<Rightarrow>
     bind (get_para r) (\<lambda>_.
     bind get_doc (\<lambda>d. put_doc (d\<lparr>body := (body d)[i := Para p]\<rparr>))))"

definition get_table :: "table_ref \<Rightarrow> table py" where
  "get_table r = (case r of TableRef i \<Rightarrow>
     bind get_doc (\<lambda>d.
       if i < length (body d)
       then (case body d ! i of Tbl t \<Rightarrow> return t | Para p \<Rightarrow> raise AttributeError)
       else raise IndexError))"

definition put_table :: "table_ref \<Rightarrow> table \<Rightarrow> unit py" where
  "put_table r t = (case r of TableRef i \<Rightarrow>
     bind (get_table r) (\<lambda>_.
     bind get_doc (\<lambda>d. put_doc (d\<lparr>body := (body d)[i := Tbl t]\<rparr>))))"

definition get_tc :: "cell_ref \<Rightarrow> tc py" where
  "get_tc r = (case r of CellRef t i j \<Rightarrow>
     bind (get_table (TableRef t)) (\<lambda>tbl.
       if i < length (trs tbl) \<and> j < length (trs tbl ! i)
       then return (trs tbl ! i ! j) else raise IndexError))"

definition put_tc :: "cell_ref \<Rightarrow> tc \<Rightarrow> unit py" where
  "put_tc r c = (case r of CellRef t i j \<Rightarrow>
     bind (get_tc r) (\<lambda>_.
     bind (get_table (TableRef t)) (\<lambda>tbl.
     put_table (TableRef t) (tbl\<lparr>trs := (trs tbl)[i := (trs tbl ! i)[j := c]]\<rparr>))))"

definition get_run :: "run_ref \<Rightarrow> run py" where
  "get_run r = (case r of RunRef i k \<Rightarrow>
     bind (get_para (ParaRef i)) (\<lambda>p.
       if k < length (runs p) then return (runs p ! k) else raise IndexError))"

definition put_run :: "run_ref \<Rightarrow> run \<Rightarrow> unit py" where
  "put_run r x = (case r of RunRef i k \<Rightarrow>
     bind (get_run r) (\<lambda>_.
     bind (get_para (ParaRef i)) (\<lambda>p.
     put_para (ParaRef i) (p\<lparr>runs := (runs p)[k := x]\<rparr>))))"

definition get_style :: "style_ref \<Rightarrow> style py" where
  "get_style r = (case r of StyleRef i \<Rightarrow>
     bind get_doc (\<lambda>d.
       if i < length (styles d) then return (styles d ! i) else raise IndexError))"

definition put_style :: "style_ref \<Rightarrow> style \<Rightarrow> unit py" where
  "put_style r st = (case r of StyleRef i \<Rightarrow>
     bind (get_style r) (\<lambda>_.
     bind get_doc (\<lambda>d. put_doc (d\<lparr>styles := (styles d)[i := st]\<rparr>))))"

section \<open>The python-docx calls of the scripts\<close>

text \<open>\<^verbatim>\<open>Document()\<close> opens the library's default template. The template is a file of
  python-docx, not of this repository, so it is a parameter of every script.\<close>

definition Document :: "document \<Rightarrow> doc_ref py" where
  "Document template = bind (put_doc template) (\<lambda>_. return DocRef)"

subsection \<open>Styles\<close>

fun style_index :: "style list \<Rightarrow> str \<Rightarrow> nat option" where
  "style_index [] key = None"
| "style_index (st # sts) key =
     (if style_name st = key then Some 0
      else case style_index sts key of None \<Rightarrow> None | Some i \<Rightarrow> Some (Suc i))"

text \<open>\<^verbatim>\<open>doc.styles[key]\<close>: the style of that name, KeyError when there is none.\<close>

definition styles_getitem :: "doc_ref \<Rightarrow> str \<Rightarrow> style_ref py" where
  "styles_getitem d key =
     bind get_doc (\<lambda>dc.
       case style_index (styles dc) key of
         None \<Rightarrow> raise KeyError
       | Some i \<Rightarrow> return (StyleRef i))"

definition get_or_add :: "rPr option \<Rightarrow> rPr" where
  "get_or_add pr = (case pr of None \<Rightarrow> new_rPr | Some p \<Rightarrow> p)"

text \<open>\<^verbatim>\<open>style.font.name = value\<close> writes the \<^verbatim>\<open>w:ascii\<close> and \<^verbatim>\<open>w:hAnsi\<close> attributes of
  \<^verbatim>\<open>w:rFonts\<close>, adding \<^verbatim>\<open>w:rPr\<close> and \<^verbatim>\<open>w:rFonts\<close> when they are missing.\<close>

definition style_font_name_set :: "style_ref \<Rightarrow> str \<Rightarrow> unit py" where
  "style_font_name_set r v =
     bind (get_style r) (\<lambda>st.
       let pr = get_or_add (style_rPr st);
           fonts = (case rFonts pr of None \<Rightarrow> [] | Some a \<Rightarrow> a);
           fonts' = set_attrib (set_attrib fonts (w_name ''ascii'') v) (w_name ''hAnsi'') v
       in put_style r (st\<lparr>style_rPr := Some (pr\<lparr>rFonts := Some fonts'\<rparr>)\<rparr>))"

text \<open>\<^verbatim>\<open>style.font.size = value\<close>.\<close>

definition style_font_size_set :: "style_ref \<Rightarrow> int \<Rightarrow> unit py" where
  "style_font_size_set r v =
     bind (get_style r) (\<lambda>st.
       put_style r (st\<lparr>style_rPr := Some ((get_or_add (style_rPr st))\<lparr>sz := Some v\<rparr>)\<rparr>))"

text \<open>\<^verbatim>\<open>style._element.rPr.rFonts\<close> is plain attribute access: a missing \<^verbatim>\<open>w:rPr\<close>
  is None, and reading \<^verbatim>\<open>rFonts\<close> from it raises AttributeError. A missing
  \<^verbatim>\<open>w:rFonts\<close> is None in turn, and \<^verbatim>\<open>.set(key, value)\<close> on it raises AttributeError;
  on the element it writes the attribute.\<close>

datatype rfonts_ref = RFontsRef style_ref | RFontsNone

definition style_element_rPr_rFonts :: "style_ref \<Rightarrow> rfonts_ref py" where
  "style_element_rPr_rFonts r =
     bind (get_style r) (\<lambda>st.
       case style_rPr st of
         None \<Rightarrow> raise AttributeError
       | Some pr \<Rightarrow> (case rFonts pr of None \<Rightarrow> return RFontsNone | Some a \<Rightarrow> return (RFontsRef r)))"

definition rFonts_set :: "rfonts_ref \<Rightarrow> str \<Rightarrow> str \<Rightarrow> unit py" where
  "rFonts_set f k v =
     (case f of
        RFontsNone \<Rightarrow> raise AttributeError
      | RFontsRef r \<Rightarrow>
          bind (get_style r) (\<lambda>st.
            case style_rPr st of
              None \<Rightarrow> raise AttributeError
            | Some pr \<Rightarrow>
                (case rFonts pr of
                   None \<Rightarrow> raise AttributeError
                 | Some a \<Rightarrow>
                     put_style r (st\<lparr>style_rPr := Some (pr\<lparr>rFonts := Some (set_attrib a k v)\<rparr>)\<rparr>))))"

text \<open>The style id a paragraph or table stores for a style name: KeyError for an unknown
  name, ValueError for a style of another type, no id at all for the default style of
  the type.\<close>

definition get_style_id :: "str \<Rightarrow> style_type \<Rightarrow> str option py" where
  "get_style_id nm ty =
     bind (styles_getitem DocRef nm) (\<lambda>r.
     bind (get_style r) (\<lambda>st.
       if style_type st \<noteq> ty then raise ValueError
       else if is_default st then return None
       else return (Some (style_id st))))"

subsection \<open>Paragraphs and runs\<close>

text \<open>A new block goes in front of the body's closing section properties, that is
  behind every block already there. The result is its position.\<close>

definition body_append :: "block \<Rightarrow> nat py" where
  "body_append b =
     bind get_doc (\<lambda>d.
     bind (put_doc (d\<lparr>body := body d @ [b]\<rparr>)) (\<lambda>_.
     return (length (body d))))"

text \<open>Setting a run's text. python-docx stores a line feed as a \<^verbatim>\<open>w:br\<close> child and gives
  it back as a line feed when the text is read; here it stays in the text.\<close>

definition run_items :: "str \<Rightarrow> run_item list" where
  "run_items t = (if t = [] then [] else [RunText t])"

text \<open>\<^verbatim>\<open>paragraph.add_run(text)\<close>.\<close>

definition add_run :: "para_ref \<Rightarrow> str \<Rightarrow> run_ref py" where
  "add_run r t = (case r of ParaRef i \<Rightarrow>
     bind (get_para r) (\<lambda>p.
     bind (put_para r (p\<lparr>runs := runs p @ [\<lparr>run_rPr = None, items = run_items t\<rparr>]\<rparr>)) (\<lambda>_.
     return (RunRef i (length (runs p))))))"

text \<open>\<^verbatim>\<open>paragraph.runs[i]\<close>.\<close>

definition runs_getitem :: "para_ref \<Rightarrow> int \<Rightarrow> run_ref py" where
  "runs_getitem r i = (case r of ParaRef n \<Rightarrow>
     bind (get_para r) (\<lambda>p.
     bind (lift (py_index (length (runs p)) i)) (\<lambda>k.
     return (RunRef n k))))"

text \<open>\<^verbatim>\<open>run.bold = value\<close>, \<^verbatim>\<open>run.font.size = value\<close>, \<^verbatim>\<open>run.font.color.rgb = value\<close>.\<close>

definition run_bold_set :: "run_ref \<Rightarrow> bool \<Rightarrow> unit py" where
  "run_bold_set r v =
     bind (get_run r) (\<lambda>x.
       put_run r (x\<lparr>run_rPr := Some ((get_or_add (run_rPr x))\<lparr>bold := Some v\<rparr>)\<rparr>))"

definition run_font_size_set :: "run_ref \<Rightarrow> int \<Rightarrow> unit py" where
  "run_font_size_set r v =
     bind (get_run r) (\<lambda>x.
       put_run r (x\<lparr>run_rPr := Some ((get_or_add (run_rPr x))\<lparr>sz := Some v\<rparr>)\<rparr>))"

definition run_font_color_rgb_set :: "run_ref \<Rightarrow> rgb \<Rightarrow> unit py" where
  "run_font_color_rgb_set r v =
     bind (get_run r) (\<lambda>x.
       put_run r (x\<lparr>run_rPr := Some ((get_or_add (run_rPr x))\<lparr>color := Some v\<rparr>)\<rparr>))"

text \<open>\<^verbatim>\<open>run.add_break(break_type)\<close>.\<close>

definition add_break :: "run_ref \<Rightarrow> wd_break \<Rightarrow> unit py" where
  "add_break r b =
     bind (get_run r) (\<lambda>x. put_run r (x\<lparr>items := items x @ [RunBreak b]\<rparr>))"

text \<open>\<^verbatim>\<open>paragraph.alignment = value\<close> and \<^verbatim>\<open>paragraph.style = name\<close>.\<close>

definition alignment_set :: "para_ref \<Rightarrow> wd_align \<Rightarrow> unit py" where
  "alignment_set r v = bind (get_para r) (\<lambda>p. put_para r (p\<lparr>jc := Some v\<rparr>))"

definition paragraph_style_set :: "para_ref \<Rightarrow> str \<Rightarrow> unit py" where
  "paragraph_style_set r nm =
     bind (get_style_id nm PARAGRAPH) (\<lambda>sid.
     bind (get_para r) (\<lambda>p. put_para r (p\<lparr>pStyle := sid\<rparr>)))"

text \<open>\<^verbatim>\<open>doc.add_paragraph(text='', style=None)\<close>: the paragraph is appended first, then
  gets a run if the text is not empty, then the style if one is given.\<close>

definition add_paragraph :: "doc_ref \<Rightarrow> str \<Rightarrow> str option \<Rightarrow> para_ref py" where
  "add_paragraph d t sty =
     bind (body_append (Para new_p)) (\<lambda>i.
     bind (if t \<noteq> [] then bind (add_run (ParaRef i) t) (\<lambda>_. return ()) else return ()) (\<lambda>_.
     bind (case sty of None \<Rightarrow> return () | Some nm \<Rightarrow> paragraph_style_set (ParaRef i) nm) (\<lambda>_.
     return (ParaRef i))))"

text \<open>\<^verbatim>\<open>doc.add_heading(text='', level=1)\<close>: a paragraph in style Title (level 0) or
  Heading 1 to 9; any other level is a ValueError.\<close>

definition heading_style :: "int \<Rightarrow> str" where
  "heading_style level = (if level = 0 then u ''Title'' else u ''Heading '' @ [nat (48 + level)])"

definition add_heading :: "doc_ref \<Rightarrow> str \<Rightarrow> int \<Rightarrow> para_ref py" where
  "add_heading d t level =
     (if 0 \<le> level \<and> level \<le> 9 then add_paragraph d t (Some (heading_style level))
      else raise ValueError)"

text \<open>\<^verbatim>\<open>doc.add_page_break()\<close>: an empty paragraph whose one run holds a page break.\<close>

definition add_page_break :: "doc_ref \<Rightarrow> para_ref py" where
  "add_page_break d =
     bind (add_paragraph d [] None) (\<lambda>p.
     bind (add_run p []) (\<lambda>r.
     bind (add_break r PAGE) (\<lambda>_.
     return p)))"

subsection \<open>Tables\<close>

text \<open>A new table of \<open>rows\<close> by \<open>cols\<close> cells over \<open>width\<close>: every cell has its width in
  \<^verbatim>\<open>w:tcPr\<close> and one empty paragraph. Python's \<^verbatim>\<open>range\<close> of a negative number is
  empty.\<close>

definition new_tc :: "int \<Rightarrow> tc" where
  "new_tc col_width =
     \<lparr>tc_tcPr = Some \<lparr>tcW = Some col_width, gridSpan = None, appended = []\<rparr>, content = [new_p]\<rparr>"

definition new_tbl :: "int \<Rightarrow> int \<Rightarrow> int \<Rightarrow> table" where
  "new_tbl rows cols width =
     (let col_width = (if cols > 0 then width div cols else 0) in
      \<lparr>tblStyle = None,
       gridCols = replicate (nat cols) col_width,
       trs = replicate (nat rows) (replicate (nat cols) (new_tc col_width))\<rparr>)"

text \<open>\<^verbatim>\<open>doc.add_table(rows, cols)\<close>, the table as wide as the page between its margins.\<close>

definition add_table :: "doc_ref \<Rightarrow> int \<Rightarrow> int \<Rightarrow> table_ref py" where
  "add_table d rows cols =
     bind get_doc (\<lambda>dc.
     bind (body_append (Tbl (new_tbl rows cols (block_width dc)))) (\<lambda>i.
     return (TableRef i)))"

text \<open>\<^verbatim>\<open>table.style = name\<close>.\<close>

definition table_style_set :: "table_ref \<Rightarrow> str \<Rightarrow> unit py" where
  "table_style_set r nm =
     bind (get_style_id nm TABLE) (\<lambda>sid.
     bind (get_table r) (\<lambda>t. put_table r (t\<lparr>tblStyle := sid\<rparr>)))"

text \<open>The number of grid columns a cell spans: 1 unless \<^verbatim>\<open>w:gridSpan\<close> says more.\<close>

definition grid_span :: "tc \<Rightarrow> nat" where
  "grid_span c =
     (case tc_tcPr c of
        None \<Rightarrow> 1
      | Some pr \<Rightarrow> (case gridSpan pr of None \<Rightarrow> 1 | Some n \<Rightarrow> n))"

text \<open>\<^verbatim>\<open>table._cells\<close>: one entry for each position of the layout grid, row by row; a cell
  that spans several columns is repeated.\<close>

fun row_cells :: "nat \<Rightarrow> nat \<Rightarrow> nat \<Rightarrow> tc list \<Rightarrow> cell_ref list" where
  "row_cells t i j [] = []"
| "row_cells t i j (c # cs) = replicate (grid_span c) (CellRef t i j) @ row_cells t i (Suc j) cs"

fun table_cells :: "nat \<Rightarrow> nat \<Rightarrow> tc list list \<Rightarrow> cell_ref list" where
  "table_cells t i [] = []"
| "table_cells t i (r # rs) = row_cells t i 0 r @ table_cells t (Suc i) rs"

text \<open>\<^verbatim>\<open>table.cell(row_idx, col_idx)\<close>: python-docx computes the flat position
  \<^verbatim>\<open>col_idx + row_idx * column_count\<close> and indexes the list of cells with it, so the
  only failure is the IndexError of that list.\<close>

definition table_cell :: "table_ref \<Rightarrow> int \<Rightarrow> int \<Rightarrow> cell_ref py" where
  "table_cell r row_idx col_idx = (case r of TableRef t \<Rightarrow>
     bind (get_table r) (\<lambda>tbl.
       let cells = table_cells t 0 (trs tbl);
           cell_idx = col_idx + row_idx * int (length (gridCols tbl))
       in bind (lift (py_index (length cells) cell_idx)) (\<lambda>k. return (cells ! k))))"

text \<open>\<^verbatim>\<open>cell.text = value\<close> replaces the cell's content by one paragraph with one run;
  the cell properties stay.\<close>

definition cell_text_set :: "cell_ref \<Rightarrow> str \<Rightarrow> unit py" where
  "cell_text_set r t =
     bind (get_tc r) (\<lambda>c.
       put_tc r (c\<lparr>content := [new_p\<lparr>runs := [\<lparr>run_rPr = None, items = run_items t\<rparr>]\<rparr>]\<rparr>))"

text \<open>\<^verbatim>\<open>cell.text\<close> read back: the paragraphs' texts joined by line feeds.\<close>

fun item_text :: "run_item \<Rightarrow> str" where
  "item_text (RunText t) = t"
| "item_text (RunBreak b) = [10]"

definition paragraph_text :: "para \<Rightarrow> str" where
  "paragraph_text p = concat (map (\<lambda>r. concat (map item_text (items r))) (runs p))"

fun join_lines :: "str list \<Rightarrow> str" where
  "join_lines [] = []"
| "join_lines [t] = t"
| "join_lines (t # ts) = t @ [10] @ join_lines ts"

definition tc_text :: "tc \<Rightarrow> str" where
  "tc_text c = join_lines (map paragraph_text (content c))"

text \<open>\<^verbatim>\<open>cell._tc.get_or_add_tcPr()\<close> and \<^verbatim>\<open>.append(element)\<close> on the node it returns.\<close>

definition new_tcPr :: tcPr where
  "new_tcPr = \<lparr>tcW = None, gridSpan = None, appended = []\<rparr>"

definition tc_get_or_add_tcPr :: "tc \<Rightarrow> tcPr" where
  "tc_get_or_add_tcPr c = (case tc_tcPr c of None \<Rightarrow> new_tcPr | Some pr \<Rightarrow> pr)"

definition get_or_add_tcPr :: "cell_ref \<Rightarrow> unit py" where
  "get_or_add_tcPr r =
     bind (get_tc r) (\<lambda>c. put_tc r (c\<lparr>tc_tcPr := Some (tc_get_or_add_tcPr c)\<rparr>))"

definition tcPr_append :: "cell_ref \<Rightarrow> xml \<Rightarrow> unit py" where
  "tcPr_append r e =
     bind (get_tc r) (\<lambda>c.
       case tc_tcPr c of
         None \<Rightarrow> raise AttributeError
       | Some pr \<Rightarrow> put_tc r (c\<lparr>tc_tcPr := Some (pr\<lparr>appended := appended pr @ [e]\<rparr>)\<rparr>))"

subsection \<open>Merging cells of one row\<close>

text \<open>\<^verbatim>\<open>cell.merge(other_cell)\<close> for two cells of the same row, as python-docx's
  \<^verbatim>\<open>CT_Tc.merge\<close> does it: the left one swallows its right neighbours until it spans
  both. A swallowed cell hands its content over unless it is empty (a single paragraph
  without runs), adds its width and its span, and is removed from the row.\<close>

definition is_empty :: "tc \<Rightarrow> bool" where
  "is_empty c = (case content c of [p] \<Rightarrow> runs p = [] | _ \<Rightarrow> False)"

definition remove_trailing_empty_p :: "para list \<Rightarrow> para list" where
  "remove_trailing_empty_p ps =
     (if ps \<noteq> [] \<and> runs (last ps) = [] then butlast ps else ps)"

definition move_content_to :: "tc \<Rightarrow> tc \<Rightarrow> tc" where
  "move_content_to src top_tc =
     (if is_empty src then top_tc
      else top_tc\<lparr>content := remove_trailing_empty_p (content top_tc) @ content src\<rparr>)"

definition width :: "tc \<Rightarrow> int option" where
  "width c = (case tc_tcPr c of None \<Rightarrow> None | Some pr \<Rightarrow> tcW pr)"

definition add_width_of :: "tc \<Rightarrow> tc \<Rightarrow> tc" where
  "add_width_of c other =
     (case (width c, width other) of
        (Some a, Some b) \<Rightarrow>
          if a \<noteq> 0 \<and> b \<noteq> 0
          then c\<lparr>tc_tcPr := Some ((tc_get_or_add_tcPr c)\<lparr>tcW := Some (a + b)\<rparr>)\<rparr>
          else c
      | _ \<Rightarrow> c)"

definition grid_span_set :: "tc \<Rightarrow> nat \<Rightarrow> tc" where
  "grid_span_set c n =
     c\<lparr>tc_tcPr := Some ((tc_get_or_add_tcPr c)\<lparr>gridSpan := (if n > 1 then Some n else None)\<rparr>)\<rparr>"

definition swallow_next_tc :: "tc \<Rightarrow> tc \<Rightarrow> tc" where
  "swallow_next_tc c next_tc =
     (let c1 = move_content_to next_tc c;
          c2 = add_width_of c1 next_tc
      in grid_span_set c2 (grid_span c2 + grid_span next_tc))"

fun span_to_width :: "nat \<Rightarrow> tc \<Rightarrow> tc list \<Rightarrow> error + tc list" where
  "span_to_width grid_width c [] =
     (if grid_span c < grid_width then Inl InvalidSpanError else Inr [c])"
| "span_to_width grid_width c (next_tc # rest) =
     (if grid_span c < grid_width
      then (if grid_span c + grid_span next_tc > grid_width then Inl InvalidSpanError
            else span_to_width grid_width (swallow_next_tc c next_tc) rest)
      else Inr (c # next_tc # rest))"

definition grid_offset :: "tc list \<Rightarrow> nat \<Rightarrow> nat" where
  "grid_offset row j = sum_list (map grid_span (take j row))"

definition merge :: "cell_ref \<Rightarrow> cell_ref \<Rightarrow> cell_ref py" where
  "merge a b = (case (a, b) of (CellRef t i j, CellRef t' i' j') \<Rightarrow>
     if t \<noteq> t' \<or> i \<noteq> i' then raise NotModelled
     else
       bind (get_tc a) (\<lambda>tc_a.
       bind (get_tc b) (\<lambda>tc_b.
       bind (get_table (TableRef t)) (\<lambda>tbl.
         let row = trs tbl ! i;
             left = min (grid_offset row j) (grid_offset row j');
             right = max (grid_offset row j + grid_span tc_a) (grid_offset row j' + grid_span tc_b);
             k = min j j'
         in bind (lift (span_to_width (right - left) (row ! k) (drop (Suc k) row))) (\<lambda>merged.
            bind (put_table (TableRef t) (tbl\<lparr>trs := (trs tbl)[i := take k row @ merged]\<rparr>)) (\<lambda>_.
            return (CellRef t i k)))))))"

subsection \<open>Output\<close>

text \<open>\<^verbatim>\<open>doc.save(path)\<close> hands the tree to the serializer; \<^verbatim>\<open>print(line)\<close>.\<close>

definition save :: "doc_ref \<Rightarrow> str \<Rightarrow> unit py" where
  "save d path = (\<lambda>s. Inr ((), s\<lparr>saved := saved s @ [(path, docx s)]\<rparr>))"

definition print :: "str \<Rightarrow> unit py" where
  "print line = (\<lambda>s. Inr ((), s\<lparr>stdout := stdout s @ [line]\<rparr>))"

section \<open>The scripts\<close>

text \<open>\<^verbatim>\<open>set_cell_shading(cell, color)\<close>, defined alike in the three scripts.\<close>

definition set_cell_shading :: "cell_ref \<Rightarrow> str \<Rightarrow> unit py" where
  "set_cell_shading c color_val =
     bind (lift (OxmlElement (u ''w:shd''))) (\<lambda>shading.
     bind (lift (qn (u ''w:fill''))) (\<lambda>fill.
     bind (return (xml_set shading fill color_val)) (\<lambda>shading.
     bind (get_or_add_tcPr c) (\<lambda>_.
     tcPr_append c shading))))"

subsection \<open>\<^verbatim>\<open>generate_manual.py\<close>\<close>

text \<open>The string literals of the script that are not plain ASCII, as code points;
  \<open>manual_s\<close>\<^emph>\<open>n\<close> is the literal on line \<^emph>\<open>n\<close> of the file.\<close>

definition manual_s24 :: str where
  "manual_s24 =
     [35270, 35273, 26816, 27979, 31995, 32479, 25805, 20316, 25163, 20876]"

definition manual_s27 :: str where
  "manual_s27 =
     [71, 114, 101, 101, 86, 105, 115, 105, 111, 110, 32, 82, 101, 98, 105, 114, 116, 104, 32,
      86, 49, 46, 48, 32, 124, 32, 29616, 22330, 25805, 20316, 25351, 21335]"

definition manual_s35 :: str where
  "manual_s35 =
     [19968, 12289, 30028, 38754, 24635, 35272]"

definition manual_s36 :: str where
  "manual_s36 =
     [36719, 20214, 30028, 38754, 20998, 20026, 22235, 20010, 20027, 35201, 21306, 22495, 65306]"

definition manual_s45 :: str where
  "manual_s45 =
     [39030, 37096, 26639, 65306, 36719, 20214, 21517, 31216, 32, 43, 32, 21151, 33021, 25353,
      38062, 65288, 26085, 24535, 47, 22270, 24211, 47, 35774, 32622, 47, 31383, 21475, 25511,
      21046, 65289]"

definition manual_s49 :: str where
  "manual_s49 =
     [30456, 26426, 30011, 38754, 21306, 22495, 10, 65288, 20027, 26174, 31034, 21306, 65289]"

definition manual_s50 :: str where
  "manual_s50 =
     [29366, 24577, 25351, 31034, 28783, 10, 20170, 26085, 32479, 35745, 10, 25511, 21046,
      38754, 26495]"

definition manual_s51 :: str where
  "manual_s51 =
     [26816, 27979, 35760, 24405, 10, 65288, 23454, 26102, 26085, 24535, 65289]"

definition manual_s56 :: str where
  "manual_s56 =
     [31995, 32479, 26085, 24535, 10, 65288, 29366, 24577, 20449, 24687, 65289]"

definition manual_s61 :: str where
  "manual_s61 =
     [20108, 12289, 24320, 26426, 21551, 21160]"

definition manual_s63 :: str where
  "manual_s63 =
     [31532, 19968, 27493, 65306, 21551, 21160, 36719, 20214]"

definition manual_s64 :: str where
  "manual_s64 =
     [21452, 20987, 26700, 38754, 19978, 30340, 32, 34, 35270, 35273, 26816, 27979, 31995,
      32479, 34, 32, 22270, 26631, 65292, 31561, 24453, 36719, 20214, 21152, 36733, 23436,
      25104, 12290]"

definition manual_s66 :: str where
  "manual_s66 =
     [31532, 20108, 27493, 65306, 26816, 26597, 36830, 25509, 29366, 24577]"

definition manual_s67 :: str where
  "manual_s67 =
     [35266, 23519, 30028, 38754, 20013, 38388, 19978, 26041, 30340, 29366, 24577, 25351, 31034,
      28783, 65306]"

definition manual_s72 :: str where
  "manual_s72 =
     [25351, 31034, 28783]"

definition manual_s73 :: str where
  "manual_s73 =
     [32511, 33394, 20142, 36215]"

definition manual_s74 :: str where
  "manual_s74 =
     [28784, 33394, 29060, 28781]"

definition manual_s79 :: str where
  "manual_s79 =
     [30456, 26426, 36890, 35759]"

definition manual_s80 :: str where
  "manual_s80 =
     [9989, 32, 30456, 26426, 24050, 36830, 25509]"

definition manual_s81 :: str where
  "manual_s81 =
     [10060, 32, 30456, 26426, 26410, 36830, 25509]"

definition manual_s83 :: str where
  "manual_s83 =
     [80, 76, 67, 36890, 35759]"

definition manual_s84 :: str where
  "manual_s84 =
     [9989, 32, 80, 76, 67, 24050, 36830, 25509]"

definition manual_s85 :: str where
  "manual_s85 =
     [10060, 32, 80, 76, 67, 26410, 36830, 25509]"

definition manual_s88 :: str where
  "manual_s88 =
     [22914, 26524, 25351, 31034, 28783, 20026, 28784, 33394, 65306]"

definition manual_s89 :: str where
  "manual_s89 =
     [49, 46, 32, 28857, 20987, 32, 91, 26597, 25214, 30456, 26426, 93, 32, 25353, 38062]"

definition manual_s90 :: str where
  "manual_s90 =
     [50, 46, 32, 28857, 20987, 32, 91, 25171, 24320, 30456, 26426, 93, 32, 25353, 38062]"

definition manual_s91 :: str where
  "manual_s91 =
     [51, 46, 32, 28857, 20987, 32, 91, 36830, 25509, 80, 76, 67, 93, 32, 25353, 38062]"

definition manual_s92 :: str where
  "manual_s92 =
     [52, 46, 32, 22914, 20173, 26080, 27861, 36830, 25509, 65292, 35831, 32852, 31995, 25216,
      26415, 20154, 21592]"

definition manual_s94 :: str where
  "manual_s94 =
     [31532, 19977, 27493, 65306, 30830, 35748, 30011, 38754, 26174, 31034]"

definition manual_s95 :: str where
  "manual_s95 =
     [24038, 20391, 22823, 23631, 24149, 24212, 26174, 31034, 30456, 26426, 27491, 22312, 25293,
      25668, 30340, 30011, 38754, 12290, 22914, 26524, 26174, 31034, 34, 31561, 24453, 20449,
      21495, 34, 65292, 35828, 26126, 30456, 26426, 26410, 27491, 24120, 24037, 20316, 12290]"

definition manual_s98 :: str where
  "manual_s98 =
     [19977, 12289, 26085, 24120, 25805, 20316]"

definition manual_s100 :: str where
  "manual_s100 =
     [51, 46, 49, 32, 33258, 21160, 26816, 27979, 65288, 27491, 24120, 29983, 20135, 27169,
      24335, 65289]"

definition manual_s101 :: str where
  "manual_s101 =
     [24403, 80, 76, 67, 21457, 36865, 35302, 21457, 20449, 21495, 26102, 65292, 31995, 32479,
      20250, 33258, 21160, 23436, 25104, 20197, 19979, 27969, 31243, 65306]"

definition manual_s102 :: str where
  "manual_s102 =
     [49, 46, 32, 33258, 21160, 25293, 29031]"

definition manual_s103 :: str where
  "manual_s103 =
     [50, 46, 32, 65, 73, 20998, 26512, 22270, 29255]"

definition manual_s104 :: str where
  "manual_s104 =
     [51, 46, 32, 26174, 31034, 26816, 27979, 32467, 26524, 65288, 21512, 26684, 32, 25110, 32,
      19981, 21512, 26684, 65289]"

definition manual_s105 :: str where
  "manual_s105 =
     [52, 46, 32, 23558, 32467, 26524, 21453, 39304, 32473, 80, 76, 67]"

definition manual_s106 :: str where
  "manual_s106 =
     [53, 46, 32, 32479, 35745, 25968, 25454, 33258, 21160, 26356, 26032]"

definition manual_s109 :: str where
  "manual_s109 =
     [128161, 32, 25552, 31034, 65306]"

definition manual_s110 :: str where
  "manual_s110 =
     [25805, 20316, 21592, 26080, 38656, 24178, 39044, 65292, 31995, 32479, 20840, 33258, 21160,
      36816, 34892, 12290]"

definition manual_s112 :: str where
  "manual_s112 =
     [51, 46, 50, 32, 25163, 21160, 26816, 27979, 65288, 35843, 35797, 47, 25277, 26816, 27169,
      24335, 65289]"

definition manual_s113 :: str where
  "manual_s113 =
     [22914, 38656, 25163, 21160, 35302, 21457, 19968, 27425, 26816, 27979, 65288, 20363, 22914,
      25442, 29677, 25277, 26816, 65289, 65292, 35831, 28857, 20987, 32, 91, 25163, 21160,
      26816, 27979, 93, 32, 25353, 38062, 12290]"

definition manual_s115 :: str where
  "manual_s115 =
     [51, 46, 51, 32, 25163, 21160, 25918, 34892]"

definition manual_s116 :: str where
  "manual_s116 =
     [33509, 20135, 21697, 34987, 35823, 21028, 20026, 19981, 21512, 26684, 65292, 30830, 35748,
      26080, 38382, 39064, 21518, 65292, 21487, 28857, 20987, 32, 91, 25163, 21160, 25918,
      34892, 93, 32, 25353, 38062, 24378, 21046, 25918, 34892, 12290]"

definition manual_s118 :: str where
  "manual_s118 =
     [9888, 65039, 32, 35880, 24910, 20351, 29992, 65306]"

definition manual_s119 :: str where
  "manual_s119 =
     [25918, 34892, 35760, 24405, 20250, 34987, 31995, 32479, 35760, 24405, 12290]"

definition manual_s121 :: str where
  "manual_s121 =
     [51, 46, 52, 32, 26597, 30475, 20170, 26085, 32479, 35745]"

definition manual_s122 :: str where
  "manual_s122 =
     [30028, 38754, 21491, 20391, 20013, 38388, 21306, 22495, 26174, 31034, 24403, 22825, 30340,
      26816, 27979, 32479, 35745, 65306]"

definition manual_s123 :: str where
  "manual_s123 =
     [8226, 32, 24635, 35745, 65306, 20170, 26085, 26816, 27979, 24635, 25968, 37327]"

definition manual_s124 :: str where
  "manual_s124 =
     [8226, 32, 21512, 26684, 65306, 36890, 36807, 26816, 27979, 30340, 25968, 37327, 65288,
      32511, 33394, 65289]"

definition manual_s125 :: str where
  "manual_s125 =
     [8226, 32, 19981, 21512, 26684, 65306, 26410, 36890, 36807, 26816, 27979, 30340, 25968,
      37327, 65288, 32418, 33394, 65289]"

definition manual_s128 :: str where
  "manual_s128 =
     [22235, 12289, 26597, 30475, 21382, 21490, 35760, 24405]"

definition manual_s130 :: str where
  "manual_s130 =
     [52, 46, 49, 32, 26597, 30475, 26816, 27979, 26085, 24535]"

definition manual_s131 :: str where
  "manual_s131 =
     [49, 46, 32, 28857, 20987, 39030, 37096, 26639, 30340, 32, 128196, 25991, 26723, 22270,
      26631, 65288, 26816, 27979, 26085, 24535, 25353, 38062, 65289]"

definition manual_s132 :: str where
  "manual_s132 =
     [50, 46, 32, 24377, 20986, 31383, 21475, 26174, 31034, 21382, 21490, 26816, 27979, 35760,
      24405]"

definition manual_s133 :: str where
  "manual_s133 =
     [51, 46, 32, 27599, 26465, 35760, 24405, 21253, 21547, 65306, 26816, 27979, 26102, 38388,
      12289, 32467, 26524, 12289, 35814, 24773]"

definition manual_s134 :: str where
  "manual_s134 =
     [52, 46, 32, 28857, 20987, 32, 91, 21047, 26032, 93, 32, 25353, 38062, 21487, 26356, 26032,
      26368, 26032, 25968, 25454]"

definition manual_s136 :: str where
  "manual_s136 =
     [52, 46, 50, 32, 26597, 30475, 19981, 21512, 26684, 22270, 29255]"

definition manual_s137 :: str where
  "manual_s137 =
     [49, 46, 32, 28857, 20987, 39030, 37096, 26639, 30340, 32, 128444, 65039, 22270, 29255,
      22270, 26631, 65288, 22270, 29255, 24211, 25353, 38062, 65289]"

definition manual_s138 :: str where
  "manual_s138 =
     [50, 46, 32, 24038, 20391, 36873, 25321, 26085, 26399]"

definition manual_s139 :: str where
  "manual_s139 =
     [51, 46, 32, 19978, 26041, 36873, 25321, 23567, 26102]"

definition manual_s140 :: str where
  "manual_s140 =
     [52, 46, 32, 28857, 20987, 32553, 30053, 22270, 21487, 25918, 22823, 26597, 30475]"

definition manual_s143 :: str where
  "manual_s143 =
     [20116, 12289, 24120, 35265, 38382, 39064, 22788, 29702]"

definition manual_s145 :: str where
  "manual_s145 =
     [38382, 39064, 49, 65306, 30456, 26426, 30011, 38754, 40657, 23631, 47, 26080, 22270, 20687]"

definition manual_s148 :: str where
  "manual_s148 =
     [26816, 26597, 39033]"

definition manual_s149 :: str where
  "manual_s149 =
     [22788, 29702, 26041, 27861]"

definition manual_s152 :: str where
  "manual_s152 =
     [30456, 26426, 36890, 35759, 25351, 31034, 28783]"

definition manual_s153 :: str where
  "manual_s153 =
     [33509, 20026, 28784, 33394, 65292, 28857, 20987, 32, 91, 26597, 25214, 30456, 26426, 93,
      32, 8594, 32, 91, 25171, 24320, 30456, 26426, 93]"

definition manual_s154 :: str where
  "manual_s154 =
     [30456, 26426, 30005, 28304]"

definition manual_s155 :: str where
  "manual_s155 =
     [26816, 26597, 30456, 26426, 30005, 28304, 32447, 26159, 21542, 26494, 21160]"

definition manual_s156 :: str where
  "manual_s156 =
     [32593, 32447, 36830, 25509]"

definition manual_s157 :: str where
  "manual_s157 =
     [26816, 26597, 30456, 26426, 32593, 32447, 26159, 21542, 25554, 32039]"

definition manual_s161 :: str where
  "manual_s161 =
     [38382, 39064, 50, 65306, 80, 76, 67, 19981, 35302, 21457, 26816, 27979]"

definition manual_s164 :: str where
  "manual_s164 =
     [26816, 26597, 39033]"

definition manual_s165 :: str where
  "manual_s165 =
     [22788, 29702, 26041, 27861]"

definition manual_s168 :: str where
  "manual_s168 =
     [80, 76, 67, 36890, 35759, 25351, 31034, 28783]"

definition manual_s169 :: str where
  "manual_s169 =
     [33509, 20026, 28784, 33394, 65292, 28857, 20987, 32, 91, 36830, 25509, 80, 76, 67, 93]"

definition manual_s170 :: str where
  "manual_s170 =
     [80, 76, 67, 36816, 34892, 29366, 24577]"

definition manual_s171 :: str where
  "manual_s171 =
     [26816, 26597, 80, 76, 67, 26159, 21542, 27491, 24120, 36816, 34892]"

definition manual_s172 :: str where
  "manual_s172 =
     [20449, 21495, 22320, 22336]"

definition manual_s173 :: str where
  "manual_s173 =
     [32852, 31995, 25216, 26415, 20154, 21592, 30830, 35748, 80, 76, 67, 37197, 32622]"

definition manual_s177 :: str where
  "manual_s177 =
     [38382, 39064, 51, 65306, 26816, 27979, 32467, 26524, 19968, 30452, 19981, 21512, 26684]"

definition manual_s178 :: str where
  "manual_s178 =
     [21487, 33021, 21407, 22240, 65306]"

definition manual_s179 :: str where
  "manual_s179 =
     [49, 46, 32, 20135, 21697, 30830, 23454, 26377, 32570, 38519, 32, 8212, 32, 27491, 24120,
      24773, 20917]"

definition manual_s180 :: str where
  "manual_s180 =
     [50, 46, 32, 20809, 28304, 24322, 24120, 32, 8212, 32, 26816, 26597, 20809, 28304, 26159,
      21542, 27491, 24120, 20142, 36215]"

definition manual_s181 :: str where
  "manual_s181 =
     [51, 46, 32, 30456, 26426, 33039, 27745, 32, 8212, 32, 36731, 36731, 25830, 25325, 30456,
      26426, 38236, 22836]"

definition manual_s182 :: str where
  "manual_s182 =
     [52, 46, 32, 38408, 20540, 35774, 32622, 19981, 24403, 32, 8212, 32, 32852, 31995, 25216,
      26415, 20154, 21592, 35843, 25972, 32622, 20449, 24230]"

definition manual_s184 :: str where
  "manual_s184 =
     [38382, 39064, 52, 65306, 36719, 20214, 21345, 39039, 47, 26080, 21709, 24212]"

definition manual_s185 :: str where
  "manual_s185 =
     [49, 46, 32, 31561, 24453, 51, 48, 31186, 65292, 30475, 26159, 21542, 33258, 21160, 24674,
      22797]"

definition manual_s186 :: str where
  "manual_s186 =
     [50, 46, 32, 22914, 26080, 21709, 24212, 65292, 28857, 20987, 21491, 19978, 35282, 32, 91,
      36864, 20986, 31243, 24207, 93, 32, 25353, 38062, 20851, 38381, 36719, 20214]"

definition manual_s187 :: str where
  "manual_s187 =
     [51, 46, 32, 37325, 26032, 21551, 21160, 36719, 20214]"

definition manual_s188 :: str where
  "manual_s188 =
     [52, 46, 32, 22914, 21453, 22797, 20986, 29616, 65292, 32852, 31995, 25216, 26415, 20154,
      21592]"

definition manual_s191 :: str where
  "manual_s191 =
     [20845, 12289, 31383, 21475, 25511, 21046, 25353, 38062]"

definition manual_s192 :: str where
  "manual_s192 =
     [39030, 37096, 26639, 21491, 20391, 26377, 19977, 20010, 31383, 21475, 25511, 21046, 25353,
      38062, 65306]"

definition manual_s195 :: str where
  "manual_s195 =
     [25353, 38062]"

definition manual_s196 :: str where
  "manual_s196 =
     [21151, 33021]"

definition manual_s199 :: str where
  "manual_s199 =
     [10134]"

definition manual_s200 :: str where
  "manual_s200 =
     [26368, 23567, 21270, 31383, 21475]"

definition manual_s201 :: str where
  "manual_s201 =
     [128306]"

definition manual_s202 :: str where
  "manual_s202 =
     [26368, 22823, 21270, 47, 36824, 21407, 31383, 21475]"

definition manual_s203 :: str where
  "manual_s203 =
     [128682]"

definition manual_s204 :: str where
  "manual_s204 =
     [36864, 20986, 31243, 24207, 65288, 20250, 24377, 20986, 30830, 35748, 26694, 65289]"

definition manual_s207 :: str where
  "manual_s207 =
     [19971, 12289, 27880, 24847, 20107, 39033]"

definition manual_s208 :: str where
  "manual_s208 =
     [10060, 32, 35831, 21247, 38543, 24847, 20462, 25913, 35774, 32622, 65306, 35774, 32622,
      30028, 38754, 38656, 35201, 31649, 29702, 21592, 23494, 30721, 65292, 26222, 36890, 25805,
      20316, 26080, 38656, 36827, 20837]"

definition manual_s209 :: str where
  "manual_s209 =
     [10060, 32, 35831, 21247, 36974, 25377, 30456, 26426, 65306, 30830, 20445, 30456, 26426,
      33021, 27491, 24120, 25293, 21040, 20135, 21697]"

definition manual_s210 :: str where
  "manual_s210 =
     [10060, 32, 35831, 21247, 20851, 38381, 36719, 20214, 65306, 29983, 20135, 26399, 38388,
      35831, 20445, 25345, 36719, 20214, 36816, 34892]"

definition manual_s211 :: str where
  "manual_s211 =
     [9989, 32, 23450, 26399, 28165, 27905, 38236, 22836, 65306, 27599, 29677, 27425, 24320,
      22987, 21069, 65292, 29992, 24178, 20928, 36719, 24067, 36731, 25830, 30456, 26426, 38236,
      22836]"

definition manual_s212 :: str where
  "manual_s212 =
     [9989, 32, 24322, 24120, 21450, 26102, 19978, 25253, 65306, 21457, 29616, 20219, 20309,
      24322, 24120, 24773, 20917, 65292, 35831, 21450, 26102, 36890, 30693, 25216, 26415, 20154,
      21592]"

definition manual_s215 :: str where
  "manual_s215 =
     [20843, 12289, 32039, 24613, 32852, 31995]"

definition manual_s216 :: str where
  "manual_s216 =
     [22914, 36935, 26080, 27861, 35299, 20915, 30340, 38382, 39064, 65292, 35831, 32852, 31995,
      65306]"

definition manual_s217 :: str where
  "manual_s217 =
     [8226, 32, 29616, 22330, 25216, 26415, 21592, 65306, 91, 22635, 20889, 22995, 21517, 47,
      30005, 35805, 93]"

definition manual_s218 :: str where
  "manual_s218 =
     [8226, 32, 31995, 32479, 32500, 25252, 65306, 91, 22635, 20889, 22995, 21517, 47, 30005,
      35805, 93]"

definition manual_s222 :: str where
  "manual_s222 =
     [25991, 26723, 29256, 26412, 65306, 86, 49, 46, 48, 32, 124, 32, 26356, 26032, 26085,
      26399, 65306, 50, 48, 50, 53, 45, 49, 50, 45, 50, 51]"

definition manual_s228 :: str where
  "manual_s228 =
     [99, 58, 92, 85, 115, 101, 114, 115, 92, 49, 49, 50, 51, 52, 92, 68, 101, 115, 107, 116,
      111, 112, 92, 87, 53, 30005, 26426, 34746, 38025, 26816, 27979, 32, 45, 82, 101, 98, 105,
      114, 116, 104, 92, 35270, 35273, 26816, 27979, 31995, 32479, 25805, 20316, 25163, 20876,
      46, 100, 111, 99, 120]"

definition manual_s230 :: str where
  "manual_s230 =
     [87, 111, 114, 100, 25991, 26723, 24050, 29983, 25104, 58, 32]"

text \<open>The body of \<^verbatim>\<open>create_manual()\<close>, statement by statement, in runs of source lines:
  \<open>manual_lines_\<close>\<^emph>\<open>a\<close>\<open>_\<close>\<^emph>\<open>b\<close> is lines \<^emph>\<open>a\<close> to \<^emph>\<open>b\<close>. The only variable a run
  shares with the next is \<^verbatim>\<open>doc\<close>.\<close>

definition manual_lines_18_21 :: "doc_ref \<Rightarrow> unit py" where
  "manual_lines_18_21 doc =
     bind (styles_getitem doc (u ''Normal'')) (\<lambda>style.
     bind (style_font_name_set style (u ''Microsoft YaHei UI'')) (\<lambda>_.
     bind (style_font_size_set style (Pt 11)) (\<lambda>_.
     bind (bind (style_element_rPr_rFonts style) (\<lambda>rFonts. bind (lift (qn (u ''w:eastAsia''))) (\<lambda>k. rFonts_set rFonts k (u ''Microsoft YaHei UI'')))) (\<lambda>_.
     return ()))))"

definition manual_lines_24_30 :: "doc_ref \<Rightarrow> unit py" where
  "manual_lines_24_30 doc =
     bind (add_heading doc manual_s24 0) (\<lambda>title.
     bind (alignment_set title CENTER) (\<lambda>_.
     bind (add_paragraph doc manual_s27 None) (\<lambda>subtitle.
     bind (alignment_set subtitle CENTER) (\<lambda>_.
     bind (bind (runs_getitem subtitle 0) (\<lambda>r. run_font_size_set r (Pt 14))) (\<lambda>_.
     bind (bind (lift (RGBColor 100 116 139)) (\<lambda>rgb. bind (runs_getitem subtitle 0) (\<lambda>r. run_font_color_rgb_set r rgb))) (\<lambda>_.
     return ()))))))"

definition manual_lines_32_36 :: "doc_ref \<Rightarrow> unit py" where
  "manual_lines_32_36 doc =
     bind (add_paragraph doc [] None) (\<lambda>_.
     bind (add_heading doc manual_s35 1) (\<lambda>_.
     bind (add_paragraph doc manual_s36 None) (\<lambda>p.
     return ())))"

definition manual_lines_39_56 :: "doc_ref \<Rightarrow> unit py" where
  "manual_lines_39_56 doc =
     bind (add_table doc 3 3) (\<lambda>table.
     bind (table_style_set table (u ''Table Grid'')) (\<lambda>_.
     bind (table_cell table 0 0) (\<lambda>cell.
     bind (bind (table_cell table 0 2) (\<lambda>other. merge cell other)) (\<lambda>_.
     bind (cell_text_set cell manual_s45) (\<lambda>_.
     bind (set_cell_shading cell (u ''E2E8F0'')) (\<lambda>_.
     bind (bind (table_cell table 1 0) (\<lambda>c. cell_text_set c manual_s49)) (\<lambda>_.
     bind (bind (table_cell table 1 1) (\<lambda>c. cell_text_set c manual_s50)) (\<lambda>_.
     bind (bind (table_cell table 1 2) (\<lambda>c. cell_text_set c manual_s51)) (\<lambda>_.
     bind (bind (table_cell table 2 0) (\<lambda>c. cell_text_set c [])) (\<lambda>_.
     bind (bind (table_cell table 2 1) (\<lambda>c. cell_text_set c [])) (\<lambda>_.
     bind (bind (table_cell table 2 2) (\<lambda>c. cell_text_set c manual_s56)) (\<lambda>_.
     return ()))))))))))))"

definition manual_lines_58_64 :: "doc_ref \<Rightarrow> unit py" where
  "manual_lines_58_64 doc =
     bind (add_paragraph doc [] None) (\<lambda>_.
     bind (add_heading doc manual_s61 1) (\<lambda>_.
     bind (add_heading doc manual_s63 2) (\<lambda>_.
     bind (add_paragraph doc manual_s64 None) (\<lambda>_.
     return ()))))"

definition manual_lines_66_85 :: "doc_ref \<Rightarrow> unit py" where
  "manual_lines_66_85 doc =
     bind (add_heading doc manual_s66 2) (\<lambda>_.
     bind (add_paragraph doc manual_s67 None) (\<lambda>_.
     bind (add_table doc 3 3) (\<lambda>table.
     bind (table_style_set table (u ''Table Grid'')) (\<lambda>_.
     bind (bind (table_cell table 0 0) (\<lambda>c. cell_text_set c manual_s72)) (\<lambda>_.
     bind (bind (table_cell table 0 1) (\<lambda>c. cell_text_set c manual_s73)) (\<lambda>_.
     bind (bind (table_cell table 0 2) (\<lambda>c. cell_text_set c manual_s74)) (\<lambda>_.
     bind (bind (table_cell table 0 0) (\<lambda>c. set_cell_shading c (u ''E2E8F0''))) (\<lambda>_.
     bind (bind (table_cell table 0 1) (\<lambda>c. set_cell_shading c (u ''E2E8F0''))) (\<lambda>_.
     bind (bind (table_cell table 0 2) (\<lambda>c. set_cell_shading c (u ''E2E8F0''))) (\<lambda>_.
     bind (bind (table_cell table 1 0) (\<lambda>c. cell_text_set c manual_s79)) (\<lambda>_.
     bind (bind (table_cell table 1 1) (\<lambda>c. cell_text_set c manual_s80)) (\<lambda>_.
     bind (bind (table_cell table 1 2) (\<lambda>c. cell_text_set c manual_s81)) (\<lambda>_.
     bind (bind (table_cell table 2 0) (\<lambda>c. cell_text_set c manual_s83)) (\<lambda>_.
     bind (bind (table_cell table 2 1) (\<lambda>c. cell_text_set c manual_s84)) (\<lambda>_.
     bind (bind (table_cell table 2 2) (\<lambda>c. cell_text_set c manual_s85)) (\<lambda>_.
     return ()))))))))))))))))"

definition manual_lines_87_92 :: "doc_ref \<Rightarrow> unit py" where
  "manual_lines_87_92 doc =
     bind (add_paragraph doc [] None) (\<lambda>_.
     bind (add_paragraph doc manual_s88 None) (\<lambda>p.
     bind (add_paragraph doc manual_s89 (Some (u ''List Number''))) (\<lambda>_.
     bind (add_paragraph doc manual_s90 (Some (u ''List Number''))) (\<lambda>_.
     bind (add_paragraph doc manual_s91 (Some (u ''List Number''))) (\<lambda>_.
     bind (add_paragraph doc manual_s92 (Some (u ''List Number''))) (\<lambda>_.
     return ()))))))"

definition manual_lines_94_98 :: "doc_ref \<Rightarrow> unit py" where
  "manual_lines_94_98 doc =
     bind (add_heading doc manual_s94 2) (\<lambda>_.
     bind (add_paragraph doc manual_s95 None) (\<lambda>_.
     bind (add_heading doc manual_s98 1) (\<lambda>_.
     return ())))"

definition manual_lines_100_106 :: "doc_ref \<Rightarrow> unit py" where
  "manual_lines_100_106 doc =
     bind (add_heading doc manual_s100 2) (\<lambda>_.
     bind (add_paragraph doc manual_s101 None) (\<lambda>_.
     bind (add_paragraph doc manual_s102 (Some (u ''List Number''))) (\<lambda>_.
     bind (add_paragraph doc manual_s103 (Some (u ''List Number''))) (\<lambda>_.
     bind (add_paragraph doc manual_s104 (Some (u ''List Number''))) (\<lambda>_.
     bind (add_paragraph doc manual_s105 (Some (u ''List Number''))) (\<lambda>_.
     bind (add_paragraph doc manual_s106 (Some (u ''List Number''))) (\<lambda>_.
     return ())))))))"

definition manual_lines_108_110 :: "doc_ref \<Rightarrow> unit py" where
  "manual_lines_108_110 doc =
     bind (add_paragraph doc [] None) (\<lambda>tip.
     bind (bind (add_run tip manual_s109) (\<lambda>r. run_bold_set r True)) (\<lambda>_.
     bind (add_run tip manual_s110) (\<lambda>_.
     return ())))"

definition manual_lines_112_119 :: "doc_ref \<Rightarrow> unit py" where
  "manual_lines_112_119 doc =
     bind (add_heading doc manual_s112 2) (\<lambda>_.
     bind (add_paragraph doc manual_s113 None) (\<lambda>_.
     bind (add_heading doc manual_s115 2) (\<lambda>_.
     bind (add_paragraph doc manual_s116 None) (\<lambda>_.
     bind (add_paragraph doc [] None) (\<lambda>warn.
     bind (bind (add_run warn manual_s118) (\<lambda>r. run_bold_set r True)) (\<lambda>_.
     bind (add_run warn manual_s119) (\<lambda>_.
     return ())))))))"

definition manual_lines_121_125 :: "doc_ref \<Rightarrow> unit py" where
  "manual_lines_121_125 doc =
     bind (add_heading doc manual_s121 2) (\<lambda>_.
     bind (add_paragraph doc manual_s122 None) (\<lambda>_.
     bind (add_paragraph doc manual_s123 None) (\<lambda>_.
     bind (add_paragraph doc manual_s124 None) (\<lambda>_.
     bind (add_paragraph doc manual_s125 None) (\<lambda>_.
     return ())))))"

definition manual_lines_128_134 :: "doc_ref \<Rightarrow> unit py" where
  "manual_lines_128_134 doc =
     bind (add_heading doc manual_s128 1) (\<lambda>_.
     bind (add_heading doc manual_s130 2) (\<lambda>_.
     bind (add_paragraph doc manual_s131 (Some (u ''List Number''))) (\<lambda>_.
     bind (add_paragraph doc manual_s132 (Some (u ''List Number''))) (\<lambda>_.
     bind (add_paragraph doc manual_s133 (Some (u ''List Number''))) (\<lambda>_.
     bind (add_paragraph doc manual_s134 (Some (u ''List Number''))) (\<lambda>_.
     return ()))))))"

definition manual_lines_136_140 :: "doc_ref \<Rightarrow> unit py" where
  "manual_lines_136_140 doc =
     bind (add_heading doc manual_s136 2) (\<lambda>_.
     bind (add_paragraph doc manual_s137 (Some (u ''List Number''))) (\<lambda>_.
     bind (add_paragraph doc manual_s138 (Some (u ''List Number''))) (\<lambda>_.
     bind (add_paragraph doc manual_s139 (Some (u ''List Number''))) (\<lambda>_.
     bind (add_paragraph doc manual_s140 (Some (u ''List Number''))) (\<lambda>_.
     return ())))))"

definition manual_lines_143_157 :: "doc_ref \<Rightarrow> unit py" where
  "manual_lines_143_157 doc =
     bind (add_heading doc manual_s143 1) (\<lambda>_.
     bind (add_heading doc manual_s145 2) (\<lambda>_.
     bind (add_table doc 4 2) (\<lambda>table.
     bind (table_style_set table (u ''Table Grid'')) (\<lambda>_.
     bind (bind (table_cell table 0 0) (\<lambda>c. cell_text_set c manual_s148)) (\<lambda>_.
     bind (bind (table_cell table 0 1) (\<lambda>c. cell_text_set c manual_s149)) (\<lambda>_.
     bind (bind (table_cell table 0 0) (\<lambda>c. set_cell_shading c (u ''E2E8F0''))) (\<lambda>_.
     bind (bind (table_cell table 0 1) (\<lambda>c. set_cell_shading c (u ''E2E8F0''))) (\<lambda>_.
     bind (bind (table_cell table 1 0) (\<lambda>c. cell_text_set c manual_s152)) (\<lambda>_.
     bind (bind (table_cell table 1 1) (\<lambda>c. cell_text_set c manual_s153)) (\<lambda>_.
     bind (bind (table_cell table 2 0) (\<lambda>c. cell_text_set c manual_s154)) (\<lambda>_.
     bind (bind (table_cell table 2 1) (\<lambda>c. cell_text_set c manual_s155)) (\<lambda>_.
     bind (bind (table_cell table 3 0) (\<lambda>c. cell_text_set c manual_s156)) (\<lambda>_.
     bind (bind (table_cell table 3 1) (\<lambda>c. cell_text_set c manual_s157)) (\<lambda>_.
     return ()))))))))))))))"

definition manual_lines_159_173 :: "doc_ref \<Rightarrow> unit py" where
  "manual_lines_159_173 doc =
     bind (add_paragraph doc [] None) (\<lambda>_.
     bind (add_heading doc manual_s161 2) (\<lambda>_.
     bind (add_table doc 4 2) (\<lambda>table.
     bind (table_style_set table (u ''Table Grid'')) (\<lambda>_.
     bind (bind (table_cell table 0 0) (\<lambda>c. cell_text_set c manual_s164)) (\<lambda>_.
     bind (bind (table_cell table 0 1) (\<lambda>c. cell_text_set c manual_s165)) (\<lambda>_.
     bind (bind (table_cell table 0 0) (\<lambda>c. set_cell_shading c (u ''E2E8F0''))) (\<lambda>_.
     bind (bind (table_cell table 0 1) (\<lambda>c. set_cell_shading c (u ''E2E8F0''))) (\<lambda>_.
     bind (bind (table_cell table 1 0) (\<lambda>c. cell_text_set c manual_s168)) (\<lambda>_.
     bind (bind (table_cell table 1 1) (\<lambda>c. cell_text_set c manual_s169)) (\<lambda>_.
     bind (bind (table_cell table 2 0) (\<lambda>c. cell_text_set c manual_s170)) (\<lambda>_.
     bind (bind (table_cell table 2 1) (\<lambda>c. cell_text_set c manual_s171)) (\<lambda>_.
     bind (bind (table_cell table 3 0) (\<lambda>c. cell_text_set c manual_s172)) (\<lambda>_.
     bind (bind (table_cell table 3 1) (\<lambda>c. cell_text_set c manual_s173)) (\<lambda>_.
     return ()))))))))))))))"

definition manual_lines_175_182 :: "doc_ref \<Rightarrow> unit py" where
  "manual_lines_175_182 doc =
     bind (add_paragraph doc [] None) (\<lambda>_.
     bind (add_heading doc manual_s177 2) (\<lambda>_.
     bind (add_paragraph doc manual_s178 None) (\<lambda>_.
     bind (add_paragraph doc manual_s179 (Some (u ''List Number''))) (\<lambda>_.
     bind (add_paragraph doc manual_s180 (Some (u ''List Number''))) (\<lambda>_.
     bind (add_paragraph doc manual_s181 (Some (u ''List Number''))) (\<lambda>_.
     bind (add_paragraph doc manual_s182 (Some (u ''List Number''))) (\<lambda>_.
     return ())))))))"

definition manual_lines_184_188 :: "doc_ref \<Rightarrow> unit py" where
  "manual_lines_184_188 doc =
     bind (add_heading doc manual_s184 2) (\<lambda>_.
     bind (add_paragraph doc manual_s185 (Some (u ''List Number''))) (\<lambda>_.
     bind (add_paragraph doc manual_s186 (Some (u ''List Number''))) (\<lambda>_.
     bind (add_paragraph doc manual_s187 (Some (u ''List Number''))) (\<lambda>_.
     bind (add_paragraph doc manual_s188 (Some (u ''List Number''))) (\<lambda>_.
     return ())))))"

definition manual_lines_191_204 :: "doc_ref \<Rightarrow> unit py" where
  "manual_lines_191_204 doc =
     bind (add_heading doc manual_s191 1) (\<lambda>_.
     bind (add_paragraph doc manual_s192 None) (\<lambda>_.
     bind (add_table doc 4 2) (\<lambda>table.
     bind (table_style_set table (u ''Table Grid'')) (\<lambda>_.
     bind (bind (table_cell table 0 0) (\<lambda>c. cell_text_set c manual_s195)) (\<lambda>_.
     bind (bind (table_cell table 0 1) (\<lambda>c. cell_text_set c manual_s196)) (\<lambda>_.
     bind (bind (table_cell table 0 0) (\<lambda>c. set_cell_shading c (u ''E2E8F0''))) (\<lambda>_.
     bind (bind (table_cell table 0 1) (\<lambda>c. set_cell_shading c (u ''E2E8F0''))) (\<lambda>_.
     bind (bind (table_cell table 1 0) (\<lambda>c. cell_text_set c manual_s199)) (\<lambda>_.
     bind (bind (table_cell table 1 1) (\<lambda>c. cell_text_set c manual_s200)) (\<lambda>_.
     bind (bind (table_cell table 2 0) (\<lambda>c. cell_text_set c manual_s201)) (\<lambda>_.
     bind (bind (table_cell table 2 1) (\<lambda>c. cell_text_set c manual_s202)) (\<lambda>_.
     bind (bind (table_cell table 3 0) (\<lambda>c. cell_text_set c manual_s203)) (\<lambda>_.
     bind (bind (table_cell table 3 1) (\<lambda>c. cell_text_set c manual_s204)) (\<lambda>_.
     return ()))))))))))))))"

definition manual_lines_207_212 :: "doc_ref \<Rightarrow> unit py" where
  "manual_lines_207_212 doc =
     bind (add_heading doc manual_s207 1) (\<lambda>_.
     bind (add_paragraph doc manual_s208 None) (\<lambda>_.
     bind (add_paragraph doc manual_s209 None) (\<lambda>_.
     bind (add_paragraph doc manual_s210 None) (\<lambda>_.
     bind (add_paragraph doc manual_s211 None) (\<lambda>_.
     bind (add_paragraph doc manual_s212 None) (\<lambda>_.
     return ()))))))"

definition manual_lines_215_218 :: "doc_ref \<Rightarrow> unit py" where
  "manual_lines_215_218 doc =
     bind (add_heading doc manual_s215 1) (\<lambda>_.
     bind (add_paragraph doc manual_s216 None) (\<lambda>_.
     bind (add_paragraph doc manual_s217 None) (\<lambda>_.
     bind (add_paragraph doc manual_s218 None) (\<lambda>_.
     return ()))))"

definition manual_lines_221_225 :: "doc_ref \<Rightarrow> unit py" where
  "manual_lines_221_225 doc =
     bind (add_paragraph doc [] None) (\<lambda>_.
     bind (add_paragraph doc manual_s222 None) (\<lambda>footer.
     bind (alignment_set footer CENTER) (\<lambda>_.
     bind (bind (runs_getitem footer 0) (\<lambda>r. run_font_size_set r (Pt 9))) (\<lambda>_.
     bind (bind (lift (RGBColor 148 163 184)) (\<lambda>rgb. bind (runs_getitem footer 0) (\<lambda>r. run_font_color_rgb_set r rgb))) (\<lambda>_.
     return ())))))"

definition manual_lines_228_230 :: "doc_ref \<Rightarrow> unit py" where
  "manual_lines_228_230 doc =
     bind (return manual_s228) (\<lambda>output_path.
     bind (save doc output_path) (\<lambda>_.
     bind (print (manual_s230 @ output_path)) (\<lambda>_.
     return ())))"

text \<open>\<^verbatim>\<open>create_manual()\<close>: \<^verbatim>\<open>doc = Document()\<close>, the default font (the first run of
  lines), then all the runs that follow it, in order.\<close>

definition manual_lines_24_230 :: "doc_ref \<Rightarrow> unit py" where
  "manual_lines_24_230 doc =
     bind (manual_lines_24_30 doc) (\<lambda>_.
     bind (manual_lines_32_36 doc) (\<lambda>_.
     bind (manual_lines_39_56 doc) (\<lambda>_.
     bind (manual_lines_58_64 doc) (\<lambda>_.
     bind (manual_lines_66_85 doc) (\<lambda>_.
     bind (manual_lines_87_92 doc) (\<lambda>_.
     bind (manual_lines_94_98 doc) (\<lambda>_.
     bind (manual_lines_100_106 doc) (\<lambda>_.
     bind (manual_lines_108_110 doc) (\<lambda>_.
     bind (manual_lines_112_119 doc) (\<lambda>_.
     bind (manual_lines_121_125 doc) (\<lambda>_.
     bind (manual_lines_128_134 doc) (\<lambda>_.
     bind (manual_lines_136_140 doc) (\<lambda>_.
     bind (manual_lines_143_157 doc) (\<lambda>_.
     bind (manual_lines_159_173 doc) (\<lambda>_.
     bind (manual_lines_175_182 doc) (\<lambda>_.
     bind (manual_lines_184_188 doc) (\<lambda>_.
     bind (manual_lines_191_204 doc) (\<lambda>_.
     bind (manual_lines_207_212 doc) (\<lambda>_.
     bind (manual_lines_215_218 doc) (\<lambda>_.
     bind (manual_lines_221_225 doc) (\<lambda>_.
     bind (manual_lines_228_230 doc) (\<lambda>_.
     return ()))))))))))))))))))))))"


subsection \<open>\<^verbatim>\<open>generate_admin_manual.py\<close>\<close>

text \<open>The string literals of the script that are not plain ASCII, as code points;
  \<open>admin_s\<close>\<^emph>\<open>n\<close> is the literal on line \<^emph>\<open>n\<close> of the file.\<close>

definition admin_s22 :: str where
  "admin_s22 =
     [35270, 35273, 26816, 27979, 31995, 32479, 31649, 29702, 21592, 25163, 20876]"

definition admin_s25 :: str where
  "admin_s25 =
     [71, 114, 101, 101, 86, 105, 115, 105, 111, 110, 32, 82, 101, 98, 105, 114, 116, 104, 32,
      86, 49, 46, 48, 32, 124, 32, 21518, 21488, 37197, 32622, 25351, 21335]"

definition admin_s33 :: str where
  "admin_s33 =
     [19968, 12289, 36827, 20837, 21518, 21488, 35774, 32622]"

definition admin_s35 :: str where
  "admin_s35 =
     [49, 46, 49, 32, 20837, 21475, 20301, 32622]"

definition admin_s36 :: str where
  "admin_s36 =
     [28857, 20987, 36719, 20214, 30028, 38754, 21491, 19978, 35282, 30340, 32, 9881, 65039, 32,
      40831, 36718, 22270, 26631, 65292, 21363, 21487, 36827, 20837, 21518, 21488, 35774, 32622,
      12290]"

definition admin_s38 :: str where
  "admin_s38 =
     [49, 46, 50, 32, 23494, 30721, 39564, 35777]"

definition admin_s39 :: str where
  "admin_s39 =
     [20026, 38450, 27490, 29616, 22330, 25805, 20316, 21592, 35823, 25805, 20316, 65292, 21518,
      21488, 35774, 32622, 38656, 35201, 36755, 20837, 31649, 29702, 21592, 23494, 30721, 12290]"

definition admin_s42 :: str where
  "admin_s42 =
     [40664, 35748, 23494, 30721, 65306]"

definition admin_s46 :: str where
  "admin_s46 =
     [9888, 65039, 32, 23433, 20840, 25552, 37266, 65306]"

definition admin_s47 :: str where
  "admin_s47 =
     [22914, 38656, 20462, 25913, 23494, 30721, 65292, 35831, 32852, 31995, 36719, 20214, 24320,
      21457, 20154, 21592, 22312, 20195, 30721, 20013, 36827, 34892, 26356, 25913, 12290, 24314,
      35758, 22312, 27491, 24335, 25237, 20135, 21069, 26356, 25442, 20026, 33258, 23450, 20041,
      23494, 30721, 12290]"

definition admin_s50 :: str where
  "admin_s50 =
     [20108, 12289, 21518, 21488, 21442, 25968, 35828, 26126]"

definition admin_s52 :: str where
  "admin_s52 =
     [21518, 21488, 35774, 32622, 30028, 38754, 20998, 20026, 20197, 19979, 20960, 20010, 37197,
      32622, 21306, 22495, 65306]"

definition admin_s55 :: str where
  "admin_s55 =
     [50, 46, 49, 32, 23384, 20648, 36335, 24452]"

definition admin_s58 :: str where
  "admin_s58 =
     [21442, 25968, 21517, 31216, 65306]"

definition admin_s59 :: str where
  "admin_s59 =
     [23384, 20648, 36335, 24452]"

definition admin_s63 :: str where
  "admin_s63 =
     [20316, 29992, 65306]"

definition admin_s64 :: str where
  "admin_s64 =
     [25351, 23450, 26816, 27979, 22270, 29255, 21644, 26085, 24535, 25991, 20214, 30340, 20445,
      23384, 20301, 32622, 12290]"

definition admin_s68 :: str where
  "admin_s68 =
     [20462, 25913, 21518, 24433, 21709, 65306]"

definition admin_s69 :: str where
  "admin_s69 =
     [8226, 32, 25152, 26377, 26032, 20135, 29983, 30340, 78, 71, 22270, 29255, 23558, 20445,
      23384, 21040, 26032, 36335, 24452, 19979]"

definition admin_s70 :: str where
  "admin_s70 =
     [8226, 32, 26085, 24535, 25991, 20214, 20063, 20250, 20889, 20837, 26032, 36335, 24452]"

definition admin_s71 :: str where
  "admin_s71 =
     [8226, 32, 26087, 36335, 24452, 19979, 30340, 21382, 21490, 25968, 25454, 19981, 20250,
      33258, 21160, 36801, 31227, 65292, 22914, 38656, 20445, 30041, 35831, 25163, 21160, 22797,
      21046]"

definition admin_s75 :: str where
  "admin_s75 =
     [24314, 35758, 65306]"

definition admin_s76 :: str where
  "admin_s76 =
     [36873, 25321, 30913, 30424, 31354, 38388, 20805, 36275, 30340, 20998, 21306, 65288, 22914,
      68, 30424, 65289, 65292, 36991, 20813, 67, 30424, 31354, 38388, 19981, 36275, 24433,
      21709, 31995, 32479, 36816, 34892, 12290]"

definition admin_s79 :: str where
  "admin_s79 =
     [50, 46, 50, 32, 80, 76, 67, 37197, 32622]"

definition admin_s81 :: str where
  "admin_s81 =
     [27492, 21306, 22495, 29992, 20110, 37197, 32622, 19982, 80, 76, 67, 30340, 36890, 35759,
      21442, 25968, 12290]"

definition admin_s85 :: str where
  "admin_s85 =
     [73, 80, 22320, 22336, 65306]"

definition admin_s86 :: str where
  "admin_s86 =
     [80, 76, 67, 30340, 32593, 32476, 22320, 22336, 65292, 20363, 22914, 32, 49, 57, 50, 46,
      49, 54, 56, 46, 49, 46, 49, 48, 48]"

definition admin_s90 :: str where
  "admin_s90 =
     [31471, 21475, 65306]"

definition admin_s91 :: str where
  "admin_s91 =
     [80, 76, 67, 30340, 36890, 35759, 31471, 21475, 21495, 65292, 24120, 35265, 20026, 32, 53,
      48, 50, 65288, 77, 111, 100, 98, 117, 115, 32, 84, 67, 80, 65289]"

definition admin_s95 :: str where
  "admin_s95 =
     [35302, 21457, 22320, 22336, 65306]"

definition admin_s96 :: str where
  "admin_s96 =
     [80, 76, 67, 21457, 36865, 34, 24320, 22987, 26816, 27979, 34, 20449, 21495, 30340, 23492,
      23384, 22120, 22320, 22336]"

definition admin_s100 :: str where
  "admin_s100 =
     [32467, 26524, 22320, 22336, 65306]"

definition admin_s101 :: str where
  "admin_s101 =
     [36719, 20214, 21521, 80, 76, 67, 21453, 39304, 26816, 27979, 32467, 26524, 30340, 23492,
      23384, 22120, 22320, 22336]"

definition admin_s105 :: str where
  "admin_s105 =
     [20462, 25913, 21518, 24433, 21709, 65306]"

definition admin_s106 :: str where
  "admin_s106 =
     [8226, 32, 20462, 25913, 73, 80, 47, 31471, 21475, 21518, 65292, 38656, 28857, 20987, 32,
      91, 36830, 25509, 80, 76, 67, 93, 32, 25353, 38062, 37325, 26032, 24314, 31435, 36830,
      25509]"

definition admin_s107 :: str where
  "admin_s107 =
     [8226, 32, 22320, 22336, 37197, 32622, 38169, 35823, 20250, 23548, 33268, 80, 76, 67,
      26080, 27861, 35302, 21457, 26816, 27979, 25110, 26080, 27861, 25509, 25910, 32467, 26524]"

definition admin_s108 :: str where
  "admin_s108 =
     [8226, 32, 20462, 25913, 21069, 21153, 24517, 19982, 30005, 27668, 24037, 31243, 24072,
      30830, 35748, 27491, 30830, 30340, 28857, 20301, 20449, 24687]"

definition admin_s111 :: str where
  "admin_s111 =
     [50, 46, 51, 32, 30456, 26426, 37197, 32622]"

definition admin_s113 :: str where
  "admin_s113 =
     [27492, 21306, 22495, 29992, 20110, 37197, 32622, 24037, 19994, 30456, 26426, 21442, 25968,
      12290]"

definition admin_s117 :: str where
  "admin_s117 =
     [26174, 31034, 21517, 31216, 65306]"

definition admin_s118 :: str where
  "admin_s118 =
     [30456, 26426, 22312, 30028, 38754, 19978, 26174, 31034, 30340, 21517, 31216, 65292, 20165,
      29992, 20110, 26631, 35782, 65292, 19981, 24433, 21709, 23454, 38469, 21151, 33021]"

definition admin_s122 :: str where
  "admin_s122 =
     [24207, 21015, 21495, 65306]"

definition admin_s123 :: str where
  "admin_s123 =
     [30456, 26426, 30340, 21807, 19968, 24207, 21015, 21495, 65288, 83, 78, 65289, 65292,
      29992, 20110, 25351, 23450, 36830, 25509, 21738, 21488, 30456, 26426, 12290, 21487, 22312,
      30456, 26426, 26426, 36523, 26631, 31614, 25110, 28023, 24247, 77, 86, 83, 36719, 20214,
      20013, 26597, 30475]"

definition admin_s127 :: str where
  "admin_s127 =
     [26333, 20809, 32, 40, 109, 115, 41, 65306]"

definition admin_s128 :: str where
  "admin_s128 =
     [30456, 26426, 26333, 20809, 26102, 38388, 65292, 21333, 20301, 20026, 27627, 31186, 12290,
      25968, 20540, 36234, 22823, 30011, 38754, 36234, 20142, 65292, 20294, 21487, 33021, 20135,
      29983, 36816, 21160, 27169, 31946]"

definition admin_s132 :: str where
  "admin_s132 =
     [22686, 30410, 65306]"

definition admin_s133 :: str where
  "admin_s133 =
     [20449, 21495, 25918, 22823, 20493, 25968, 12290, 22686, 30410, 36234, 39640, 30011, 38754,
      36234, 20142, 65292, 20294, 22122, 28857, 20063, 20250, 22686, 21152]"

definition admin_s137 :: str where
  "admin_s137 =
     [20462, 25913, 21518, 24433, 21709, 65306]"

definition admin_s138 :: str where
  "admin_s138 =
     [8226, 32, 26333, 20809, 47, 22686, 30410, 30340, 35843, 25972, 20250, 31435, 21363, 24433,
      21709, 30011, 38754, 20142, 24230]"

definition admin_s139 :: str where
  "admin_s139 =
     [8226, 32, 30011, 38754, 36807, 20142, 25110, 36807, 26263, 37117, 20250, 24433, 21709, 65,
      73, 35782, 21035, 20934, 30830, 29575]"

definition admin_s140 :: str where
  "admin_s140 =
     [8226, 32, 24314, 35758, 22312, 29616, 22330, 20809, 29031, 31283, 23450, 21518, 65292,
      36890, 36807, 23454, 38469, 27979, 35797, 30830, 23450, 26368, 20339, 21442, 25968]"

definition admin_s143 :: str where
  "admin_s143 =
     [50, 46, 52, 32, 39640, 32423, 35774, 32622, 65288, 26816, 27979, 36923, 36753, 65289]"

definition admin_s145 :: str where
  "admin_s145 =
     [27492, 21306, 22495, 29992, 20110, 37197, 32622, 65, 73, 26816, 27979, 30340, 21028,
      23450, 36923, 36753, 12290]"

definition admin_s149 :: str where
  "admin_s149 =
     [30446, 26631, 26631, 31614, 65306]"

definition admin_s150 :: str where
  "admin_s150 =
     [38656, 35201, 26816, 27979, 30340, 30446, 26631, 21517, 31216, 65292, 20363, 22914, 32,
      34, 115, 99, 114, 101, 119, 34, 65288, 34746, 38025, 65289, 12289, 34, 114, 101, 109, 111,
      116, 101, 34, 65288, 36965, 25511, 22120, 65289, 31561, 12290, 24517, 39035, 19982, 65,
      73, 27169, 22411, 35757, 32451, 26102, 30340, 31867, 21035, 21517, 31216, 19968, 33268]"

definition admin_s154 :: str where
  "admin_s154 =
     [30446, 26631, 25968, 37327, 65306]"

definition admin_s155 :: str where
  "admin_s155 =
     [21028, 23450, 20026, 34, 21512, 26684, 34, 25152, 38656, 30340, 30446, 26631, 25968,
      37327, 12290, 20363, 22914, 35774, 32622, 20026, 52, 65292, 21017, 26816, 27979, 21040,
      52, 20010, 25110, 20197, 19978, 30446, 26631, 26102, 21028, 23450, 20026, 21512, 26684]"

definition admin_s159 :: str where
  "admin_s159 =
     [21551, 29992, 71, 80, 85, 21152, 36895, 65306]"

definition admin_s160 :: str where
  "admin_s160 =
     [26159, 21542, 20351, 29992, 26174, 21345, 36827, 34892, 65, 73, 25512, 29702, 12290,
      21551, 29992, 21518, 36895, 24230, 26356, 24555, 65292, 20294, 38656, 35201, 30005, 33041,
      37197, 22791, 78, 86, 73, 68, 73, 65, 26174, 21345, 24182, 23433, 35013, 67, 85, 68, 65,
      39537, 21160]"

definition admin_s164 :: str where
  "admin_s164 =
     [20462, 25913, 21518, 24433, 21709, 65306]"

definition admin_s165 :: str where
  "admin_s165 =
     [8226, 32, 30446, 26631, 26631, 31614, 37197, 32622, 38169, 35823, 20250, 23548, 33268,
      26816, 27979, 22833, 36133, 25110, 22987, 32456, 21028, 23450, 19981, 21512, 26684]"

definition admin_s166 :: str where
  "admin_s166 =
     [8226, 32, 30446, 26631, 25968, 37327, 35774, 32622, 19981, 24403, 20250, 24433, 21709,
      33391, 29575, 32479, 35745, 65288, 35774, 22826, 20302, 21017, 28431, 26816, 65292, 35774,
      22826, 39640, 21017, 35823, 21028, 65289]"

definition admin_s167 :: str where
  "admin_s167 =
     [8226, 32, 71, 80, 85, 21152, 36895, 24320, 20851, 20462, 25913, 21518, 38656, 37325,
      21551, 36719, 20214, 29983, 25928]"

definition admin_s170 :: str where
  "admin_s170 =
     [19977, 12289, 30028, 38754, 19978, 30340, 38408, 20540, 28369, 22359]"

definition admin_s172 :: str where
  "admin_s172 =
     [38500, 20102, 21518, 21488, 35774, 32622, 22806, 65292, 20027, 30028, 38754, 19978, 36824,
      26377, 20004, 20010, 21487, 23454, 26102, 35843, 25972, 30340, 28369, 22359, 65306]"

definition admin_s176 :: str where
  "admin_s176 =
     [32622, 20449, 24230, 32, 40, 67, 111, 110, 102, 105, 100, 101, 110, 99, 101, 41, 65306]"

definition admin_s177 :: str where
  "admin_s177 =
     [65, 73, 35782, 21035, 32467, 26524, 30340, 21487, 20449, 31243, 24230, 38408, 20540,
      65292, 33539, 22260, 48, 46, 49, 48, 126, 48, 46, 57, 53, 12290, 25968, 20540, 36234,
      39640, 35201, 27714, 36234, 20005, 26684, 65292, 21487, 33021, 28431, 26816, 65307, 25968,
      20540, 36234, 20302, 35201, 27714, 36234, 23485, 26494, 65292, 21487, 33021, 35823, 26816]"

definition admin_s181 :: str where
  "admin_s181 =
     [73, 79, 85, 38408, 20540, 65306]"

definition admin_s182 :: str where
  "admin_s182 =
     [29992, 20110, 36807, 28388, 37325, 21472, 26816, 27979, 26694, 30340, 38408, 20540, 12290,
      19968, 33324, 20445, 25345, 40664, 35748, 48, 46, 51, 48, 21363, 21487, 65292, 38750,
      19987, 19994, 20154, 21592, 19981, 24314, 35758, 20462, 25913]"

definition admin_s186 :: str where
  "admin_s186 =
     [35843, 25972, 24314, 35758, 65306]"

definition admin_s187 :: str where
  "admin_s187 =
     [8226, 32, 22914, 26524, 39057, 32321, 20986, 29616, 28431, 26816, 65288, 26126, 26126,
      26377, 34746, 38025, 21364, 21028, 19981, 21512, 26684, 65289, 65292, 21487, 23581, 35797,
      38477, 20302, 32622, 20449, 24230]"

definition admin_s188 :: str where
  "admin_s188 =
     [8226, 32, 22914, 26524, 39057, 32321, 20986, 29616, 35823, 26816, 65288, 27809, 26377,
      34746, 38025, 21364, 21028, 21512, 26684, 65289, 65292, 21487, 23581, 35797, 25552, 39640,
      32622, 20449, 24230]"

definition admin_s189 :: str where
  "admin_s189 =
     [8226, 32, 27599, 27425, 35843, 25972, 21518, 35831, 35266, 23519, 22810, 20010, 20135,
      21697, 30340, 26816, 27979, 24773, 20917, 65292, 19981, 35201, 39057, 32321, 22823, 24133,
      20462, 25913]"

definition admin_s192 :: str where
  "admin_s192 =
     [22235, 12289, 37197, 32622, 20462, 25913, 27969, 31243, 65288, 25512, 33616, 65289]"

definition admin_s194 :: str where
  "admin_s194 =
     [20026, 30830, 20445, 37197, 32622, 20462, 25913, 19981, 24433, 21709, 27491, 24120, 29983,
      20135, 65292, 24314, 35758, 25353, 20197, 19979, 27493, 39588, 25805, 20316, 65306]"

definition admin_s197 :: str where
  "admin_s197 =
     [49, 46, 32, 22312, 38750, 29983, 20135, 26102, 27573, 65288, 22914, 25442, 29677, 38388,
      38553, 65289, 36827, 34892, 20462, 25913]"

definition admin_s198 :: str where
  "admin_s198 =
     [50, 46, 32, 20462, 25913, 21069, 35760, 24405, 24403, 21069, 21442, 25968, 20540, 65288,
      25293, 29031, 25110, 31508, 35760, 65289]"

definition admin_s199 :: str where
  "admin_s199 =
     [51, 46, 32, 19968, 27425, 21482, 20462, 25913, 19968, 20010, 21442, 25968, 65292, 20415,
      20110, 23450, 20301, 38382, 39064]"

definition admin_s200 :: str where
  "admin_s200 =
     [52, 46, 32, 20462, 25913, 21518, 36827, 34892, 33267, 23569, 53, 27425, 25163, 21160,
      26816, 27979, 39564, 35777]"

definition admin_s201 :: str where
  "admin_s201 =
     [53, 46, 32, 30830, 35748, 26080, 35823, 21518, 20877, 24674, 22797, 33258, 21160, 29983,
      20135, 27169, 24335]"

definition admin_s202 :: str where
  "admin_s202 =
     [54, 46, 32, 22914, 20986, 29616, 24322, 24120, 65292, 31435, 21363, 24674, 22797, 21407,
      21442, 25968, 20540]"

definition admin_s205 :: str where
  "admin_s205 =
     [20116, 12289, 24120, 35265, 37197, 32622, 38382, 39064]"

definition admin_s207 :: str where
  "admin_s207 =
     [81, 49, 65306, 20462, 25913, 21442, 25968, 21518, 26816, 27979, 19968, 30452, 19981,
      21512, 26684]"

definition admin_s208 :: str where
  "admin_s208 =
     [39318, 20808, 26816, 26597, 34, 30446, 26631, 26631, 31614, 34, 26159, 21542, 22635,
      20889, 27491, 30830, 65288, 21306, 20998, 22823, 23567, 20889, 65289, 12290, 20854, 27425,
      26816, 26597, 34, 30446, 26631, 25968, 37327, 34, 26159, 21542, 35774, 32622, 36807,
      39640, 12290, 26368, 21518, 23581, 35797, 38477, 20302, 34, 32622, 20449, 24230, 34,
      28369, 22359, 12290]"

definition admin_s210 :: str where
  "admin_s210 =
     [81, 50, 65306, 80, 76, 67, 26080, 27861, 36830, 25509]"

definition admin_s211 :: str where
  "admin_s211 =
     [30830, 35748, 73, 80, 22320, 22336, 21644, 31471, 21475, 22635, 20889, 27491, 30830,
      12290, 26816, 26597, 32593, 32447, 26159, 21542, 36830, 25509, 27491, 24120, 12290, 22312,
      30005, 33041, 19978, 112, 105, 110, 103, 19968, 19979, 80, 76, 67, 30340, 73, 80, 65292,
      30475, 26159, 21542, 33021, 36890, 12290, 22914, 20173, 26080, 27861, 35299, 20915, 65292,
      32852, 31995, 30005, 27668, 24037, 31243, 24072, 12290]"

definition admin_s213 :: str where
  "admin_s213 =
     [81, 51, 65306, 30456, 26426, 30011, 38754, 36807, 20142, 47, 36807, 26263]"

definition admin_s214 :: str where
  "admin_s214 =
     [35843, 25972, 34, 26333, 20809, 34, 21644, 34, 22686, 30410, 34, 21442, 25968, 12290,
      26333, 20809, 24433, 21709, 25972, 20307, 20142, 24230, 65292, 22686, 30410, 24433, 21709,
      20449, 21495, 25918, 22823, 12290, 24314, 35758, 20808, 35843, 26333, 20809, 65292, 19981,
      22815, 20877, 35843, 22686, 30410, 12290, 36991, 20813, 22686, 30410, 35774, 32622, 36807,
      39640, 23548, 33268, 22122, 28857, 12290]"

definition admin_s216 :: str where
  "admin_s216 =
     [81, 52, 65306, 22914, 20309, 37096, 32626, 21040, 26032, 24037, 20301]"

definition admin_s217 :: str where
  "admin_s217 =
     [23558, 25972, 20010, 36719, 20214, 25991, 20214, 22841, 22797, 21046, 21040, 26032, 30005,
      33041, 12290, 26681, 25454, 26032, 24037, 20301, 30340, 30828, 20214, 65292, 20462, 25913,
      30456, 26426, 24207, 21015, 21495, 12289, 80, 76, 67, 22320, 22336, 31561, 21442, 25968,
      12290, 22914, 26816, 27979, 30446, 26631, 19981, 21516, 65292, 38656, 26356, 25442, 65,
      73, 27169, 22411, 25991, 20214, 24182, 20462, 25913, 30446, 26631, 26631, 31614, 12290]"

definition admin_s222 :: str where
  "admin_s222 =
     [25991, 26723, 29256, 26412, 65306, 86, 49, 46, 48, 32, 124, 32, 26356, 26032, 26085,
      26399, 65306, 50, 48, 50, 53, 45, 49, 50, 45, 50, 51, 32, 124, 32, 20165, 38480, 20869,
      37096, 20351, 29992]"

definition admin_s228 :: str where
  "admin_s228 =
     [99, 58, 92, 85, 115, 101, 114, 115, 92, 49, 49, 50, 51, 52, 92, 68, 101, 115, 107, 116,
      111, 112, 92, 87, 53, 30005, 26426, 34746, 38025, 26816, 27979, 32, 45, 82, 101, 98, 105,
      114, 116, 104, 92, 35270, 35273, 26816, 27979, 31995, 32479, 31649, 29702, 21592, 25163,
      20876, 46, 100, 111, 99, 120]"

definition admin_s230 :: str where
  "admin_s230 =
     [87, 111, 114, 100, 25991, 26723, 24050, 29983, 25104, 58, 32]"

text \<open>The body of \<^verbatim>\<open>create_admin_manual()\<close>, statement by statement, in runs of source lines:
  \<open>admin_lines_\<close>\<^emph>\<open>a\<close>\<open>_\<close>\<^emph>\<open>b\<close> is lines \<^emph>\<open>a\<close> to \<^emph>\<open>b\<close>. The only variable a run
  shares with the next is \<^verbatim>\<open>doc\<close>.\<close>

definition admin_lines_16_19 :: "doc_ref \<Rightarrow> unit py" where
  "admin_lines_16_19 doc =
     bind (styles_getitem doc (u ''Normal'')) (\<lambda>style.
     bind (style_font_name_set style (u ''Microsoft YaHei UI'')) (\<lambda>_.
     bind (style_font_size_set style (Pt 11)) (\<lambda>_.
     bind (bind (style_element_rPr_rFonts style) (\<lambda>rFonts. bind (lift (qn (u ''w:eastAsia''))) (\<lambda>k. rFonts_set rFonts k (u ''Microsoft YaHei UI'')))) (\<lambda>_.
     return ()))))"

definition admin_lines_22_28 :: "doc_ref \<Rightarrow> unit py" where
  "admin_lines_22_28 doc =
     bind (add_heading doc admin_s22 0) (\<lambda>title.
     bind (alignment_set title CENTER) (\<lambda>_.
     bind (add_paragraph doc admin_s25 None) (\<lambda>subtitle.
     bind (alignment_set subtitle CENTER) (\<lambda>_.
     bind (bind (runs_getitem subtitle 0) (\<lambda>r. run_font_size_set r (Pt 14))) (\<lambda>_.
     bind (bind (lift (RGBColor 100 116 139)) (\<lambda>rgb. bind (runs_getitem subtitle 0) (\<lambda>r. run_font_color_rgb_set r rgb))) (\<lambda>_.
     return ()))))))"

definition admin_lines_30_36 :: "doc_ref \<Rightarrow> unit py" where
  "admin_lines_30_36 doc =
     bind (add_paragraph doc [] None) (\<lambda>_.
     bind (add_heading doc admin_s33 1) (\<lambda>_.
     bind (add_heading doc admin_s35 2) (\<lambda>_.
     bind (add_paragraph doc admin_s36 None) (\<lambda>_.
     return ()))))"

definition admin_lines_38_47 :: "doc_ref \<Rightarrow> unit py" where
  "admin_lines_38_47 doc =
     bind (add_heading doc admin_s38 2) (\<lambda>_.
     bind (add_paragraph doc admin_s39 None) (\<lambda>_.
     bind (add_paragraph doc [] None) (\<lambda>_.
     bind (add_paragraph doc [] None) (\<lambda>p.
     bind (bind (add_run p admin_s42) (\<lambda>r. run_bold_set r True)) (\<lambda>_.
     bind (add_run p (u ''888888'')) (\<lambda>_.
     bind (add_paragraph doc [] None) (\<lambda>_.
     bind (add_paragraph doc [] None) (\<lambda>warn.
     bind (bind (add_run warn admin_s46) (\<lambda>r. run_bold_set r True)) (\<lambda>_.
     bind (add_run warn admin_s47) (\<lambda>_.
     return ()))))))))))"

definition admin_lines_50_55 :: "doc_ref \<Rightarrow> unit py" where
  "admin_lines_50_55 doc =
     bind (add_heading doc admin_s50 1) (\<lambda>_.
     bind (add_paragraph doc admin_s52 None) (\<lambda>_.
     bind (add_heading doc admin_s55 2) (\<lambda>_.
     return ())))"

definition admin_lines_57_60 :: "doc_ref \<Rightarrow> unit py" where
  "admin_lines_57_60 doc =
     bind (add_paragraph doc [] None) (\<lambda>p.
     bind (bind (add_run p admin_s58) (\<lambda>r. run_bold_set r True)) (\<lambda>_.
     bind (add_run p admin_s59) (\<lambda>_.
     bind (add_paragraph doc [] None) (\<lambda>_.
     return ()))))"

definition admin_lines_62_65 :: "doc_ref \<Rightarrow> unit py" where
  "admin_lines_62_65 doc =
     bind (add_paragraph doc [] None) (\<lambda>p.
     bind (bind (add_run p admin_s63) (\<lambda>r. run_bold_set r True)) (\<lambda>_.
     bind (add_run p admin_s64) (\<lambda>_.
     bind (add_paragraph doc [] None) (\<lambda>_.
     return ()))))"

definition admin_lines_67_72 :: "doc_ref \<Rightarrow> unit py" where
  "admin_lines_67_72 doc =
     bind (add_paragraph doc [] None) (\<lambda>p.
     bind (bind (add_run p admin_s68) (\<lambda>r. run_bold_set r True)) (\<lambda>_.
     bind (add_paragraph doc admin_s69 None) (\<lambda>_.
     bind (add_paragraph doc admin_s70 None) (\<lambda>_.
     bind (add_paragraph doc admin_s71 None) (\<lambda>_.
     bind (add_paragraph doc [] None) (\<lambda>_.
     return ()))))))"

definition admin_lines_74_76 :: "doc_ref \<Rightarrow> unit py" where
  "admin_lines_74_76 doc =
     bind (add_paragraph doc [] None) (\<lambda>p.
     bind (bind (add_run p admin_s75) (\<lambda>r. run_bold_set r True)) (\<lambda>_.
     bind (add_run p admin_s76) (\<lambda>_.
     return ())))"

definition admin_lines_79_82 :: "doc_ref \<Rightarrow> unit py" where
  "admin_lines_79_82 doc =
     bind (add_heading doc admin_s79 2) (\<lambda>_.
     bind (add_paragraph doc admin_s81 None) (\<lambda>_.
     bind (add_paragraph doc [] None) (\<lambda>_.
     return ())))"

definition admin_lines_84_87 :: "doc_ref \<Rightarrow> unit py" where
  "admin_lines_84_87 doc =
     bind (add_paragraph doc [] None) (\<lambda>p.
     bind (bind (add_run p admin_s85) (\<lambda>r. run_bold_set r True)) (\<lambda>_.
     bind (add_run p admin_s86) (\<lambda>_.
     bind (add_paragraph doc [] None) (\<lambda>_.
     return ()))))"

definition admin_lines_89_92 :: "doc_ref \<Rightarrow> unit py" where
  "admin_lines_89_92 doc =
     bind (add_paragraph doc [] None) (\<lambda>p.
     bind (bind (add_run p admin_s90) (\<lambda>r. run_bold_set r True)) (\<lambda>_.
     bind (add_run p admin_s91) (\<lambda>_.
     bind (add_paragraph doc [] None) (\<lambda>_.
     return ()))))"

definition admin_lines_94_97 :: "doc_ref \<Rightarrow> unit py" where
  "admin_lines_94_97 doc =
     bind (add_paragraph doc [] None) (\<lambda>p.
     bind (bind (add_run p admin_s95) (\<lambda>r. run_bold_set r True)) (\<lambda>_.
     bind (add_run p admin_s96) (\<lambda>_.
     bind (add_paragraph doc [] None) (\<lambda>_.
     return ()))))"

definition admin_lines_99_102 :: "doc_ref \<Rightarrow> unit py" where
  "admin_lines_99_102 doc =
     bind (add_paragraph doc [] None) (\<lambda>p.
     bind (bind (add_run p admin_s100) (\<lambda>r. run_bold_set r True)) (\<lambda>_.
     bind (add_run p admin_s101) (\<lambda>_.
     bind (add_paragraph doc [] None) (\<lambda>_.
     return ()))))"

definition admin_lines_104_108 :: "doc_ref \<Rightarrow> unit py" where
  "admin_lines_104_108 doc =
     bind (add_paragraph doc [] None) (\<lambda>p.
     bind (bind (add_run p admin_s105) (\<lambda>r. run_bold_set r True)) (\<lambda>_.
     bind (add_paragraph doc admin_s106 None) (\<lambda>_.
     bind (add_paragraph doc admin_s107 None) (\<lambda>_.
     bind (add_paragraph doc admin_s108 None) (\<lambda>_.
     return ())))))"

definition admin_lines_111_114 :: "doc_ref \<Rightarrow> unit py" where
  "admin_lines_111_114 doc =
     bind (add_heading doc admin_s111 2) (\<lambda>_.
     bind (add_paragraph doc admin_s113 None) (\<lambda>_.
     bind (add_paragraph doc [] None) (\<lambda>_.
     return ())))"

definition admin_lines_116_119 :: "doc_ref \<Rightarrow> unit py" where
  "admin_lines_116_119 doc =
     bind (add_paragraph doc [] None) (\<lambda>p.
     bind (bind (add_run p admin_s117) (\<lambda>r. run_bold_set r True)) (\<lambda>_.
     bind (add_run p admin_s118) (\<lambda>_.
     bind (add_paragraph doc [] None) (\<lambda>_.
     return ()))))"

definition admin_lines_121_124 :: "doc_ref \<Rightarrow> unit py" where
  "admin_lines_121_124 doc =
     bind (add_paragraph doc [] None) (\<lambda>p.
     bind (bind (add_run p admin_s122) (\<lambda>r. run_bold_set r True)) (\<lambda>_.
     bind (add_run p admin_s123) (\<lambda>_.
     bind (add_paragraph doc [] None) (\<lambda>_.
     return ()))))"

definition admin_lines_126_129 :: "doc_ref \<Rightarrow> unit py" where
  "admin_lines_126_129 doc =
     bind (add_paragraph doc [] None) (\<lambda>p.
     bind (bind (add_run p admin_s127) (\<lambda>r. run_bold_set r True)) (\<lambda>_.
     bind (add_run p admin_s128) (\<lambda>_.
     bind (add_paragraph doc [] None) (\<lambda>_.
     return ()))))"

definition admin_lines_131_134 :: "doc_ref \<Rightarrow> unit py" where
  "admin_lines_131_134 doc =
     bind (add_paragraph doc [] None) (\<lambda>p.
     bind (bind (add_run p admin_s132) (\<lambda>r. run_bold_set r True)) (\<lambda>_.
     bind (add_run p admin_s133) (\<lambda>_.
     bind (add_paragraph doc [] None) (\<lambda>_.
     return ()))))"

definition admin_lines_136_140 :: "doc_ref \<Rightarrow> unit py" where
  "admin_lines_136_140 doc =
     bind (add_paragraph doc [] None) (\<lambda>p.
     bind (bind (add_run p admin_s137) (\<lambda>r. run_bold_set r True)) (\<lambda>_.
     bind (add_paragraph doc admin_s138 None) (\<lambda>_.
     bind (add_paragraph doc admin_s139 None) (\<lambda>_.
     bind (add_paragraph doc admin_s140 None) (\<lambda>_.
     return ())))))"

definition admin_lines_143_146 :: "doc_ref \<Rightarrow> unit py" where
  "admin_lines_143_146 doc =
     bind (add_heading doc admin_s143 2) (\<lambda>_.
     bind (add_paragraph doc admin_s145 None) (\<lambda>_.
     bind (add_paragraph doc [] None) (\<lambda>_.
     return ())))"

definition admin_lines_148_151 :: "doc_ref \<Rightarrow> unit py" where
  "admin_lines_148_151 doc =
     bind (add_paragraph doc [] None) (\<lambda>p.
     bind (bind (add_run p admin_s149) (\<lambda>r. run_bold_set r True)) (\<lambda>_.
     bind (add_run p admin_s150) (\<lambda>_.
     bind (add_paragraph doc [] None) (\<lambda>_.
     return ()))))"

definition admin_lines_153_156 :: "doc_ref \<Rightarrow> unit py" where
  "admin_lines_153_156 doc =
     bind (add_paragraph doc [] None) (\<lambda>p.
     bind (bind (add_run p admin_s154) (\<lambda>r. run_bold_set r True)) (\<lambda>_.
     bind (add_run p admin_s155) (\<lambda>_.
     bind (add_paragraph doc [] None) (\<lambda>_.
     return ()))))"

definition admin_lines_158_161 :: "doc_ref \<Rightarrow> unit py" where
  "admin_lines_158_161 doc =
     bind (add_paragraph doc [] None) (\<lambda>p.
     bind (bind (add_run p admin_s159) (\<lambda>r. run_bold_set r True)) (\<lambda>_.
     bind (add_run p admin_s160) (\<lambda>_.
     bind (add_paragraph doc [] None) (\<lambda>_.
     return ()))))"

definition admin_lines_163_167 :: "doc_ref \<Rightarrow> unit py" where
  "admin_lines_163_167 doc =
     bind (add_paragraph doc [] None) (\<lambda>p.
     bind (bind (add_run p admin_s164) (\<lambda>r. run_bold_set r True)) (\<lambda>_.
     bind (add_paragraph doc admin_s165 None) (\<lambda>_.
     bind (add_paragraph doc admin_s166 None) (\<lambda>_.
     bind (add_paragraph doc admin_s167 None) (\<lambda>_.
     return ())))))"

definition admin_lines_170_173 :: "doc_ref \<Rightarrow> unit py" where
  "admin_lines_170_173 doc =
     bind (add_heading doc admin_s170 1) (\<lambda>_.
     bind (add_paragraph doc admin_s172 None) (\<lambda>_.
     bind (add_paragraph doc [] None) (\<lambda>_.
     return ())))"

definition admin_lines_175_178 :: "doc_ref \<Rightarrow> unit py" where
  "admin_lines_175_178 doc =
     bind (add_paragraph doc [] None) (\<lambda>p.
     bind (bind (add_run p admin_s176) (\<lambda>r. run_bold_set r True)) (\<lambda>_.
     bind (add_run p admin_s177) (\<lambda>_.
     bind (add_paragraph doc [] None) (\<lambda>_.
     return ()))))"

definition admin_lines_180_183 :: "doc_ref \<Rightarrow> unit py" where
  "admin_lines_180_183 doc =
     bind (add_paragraph doc [] None) (\<lambda>p.
     bind (bind (add_run p admin_s181) (\<lambda>r. run_bold_set r True)) (\<lambda>_.
     bind (add_run p admin_s182) (\<lambda>_.
     bind (add_paragraph doc [] None) (\<lambda>_.
     return ()))))"

definition admin_lines_185_189 :: "doc_ref \<Rightarrow> unit py" where
  "admin_lines_185_189 doc =
     bind (add_paragraph doc [] None) (\<lambda>p.
     bind (bind (add_run p admin_s186) (\<lambda>r. run_bold_set r True)) (\<lambda>_.
     bind (add_paragraph doc admin_s187 None) (\<lambda>_.
     bind (add_paragraph doc admin_s188 None) (\<lambda>_.
     bind (add_paragraph doc admin_s189 None) (\<lambda>_.
     return ())))))"

definition admin_lines_192_195 :: "doc_ref \<Rightarrow> unit py" where
  "admin_lines_192_195 doc =
     bind (add_heading doc admin_s192 1) (\<lambda>_.
     bind (add_paragraph doc admin_s194 None) (\<lambda>_.
     bind (add_paragraph doc [] None) (\<lambda>_.
     return ())))"

definition admin_lines_197_202 :: "doc_ref \<Rightarrow> unit py" where
  "admin_lines_197_202 doc =
     bind (add_paragraph doc admin_s197 (Some (u ''List Number''))) (\<lambda>_.
     bind (add_paragraph doc admin_s198 (Some (u ''List Number''))) (\<lambda>_.
     bind (add_paragraph doc admin_s199 (Some (u ''List Number''))) (\<lambda>_.
     bind (add_paragraph doc admin_s200 (Some (u ''List Number''))) (\<lambda>_.
     bind (add_paragraph doc admin_s201 (Some (u ''List Number''))) (\<lambda>_.
     bind (add_paragraph doc admin_s202 (Some (u ''List Number''))) (\<lambda>_.
     return ()))))))"

definition admin_lines_205_208 :: "doc_ref \<Rightarrow> unit py" where
  "admin_lines_205_208 doc =
     bind (add_heading doc admin_s205 1) (\<lambda>_.
     bind (add_heading doc admin_s207 2) (\<lambda>_.
     bind (add_paragraph doc admin_s208 None) (\<lambda>_.
     return ())))"

definition admin_lines_210_214 :: "doc_ref \<Rightarrow> unit py" where
  "admin_lines_210_214 doc =
     bind (add_heading doc admin_s210 2) (\<lambda>_.
     bind (add_paragraph doc admin_s211 None) (\<lambda>_.
     bind (add_heading doc admin_s213 2) (\<lambda>_.
     bind (add_paragraph doc admin_s214 None) (\<lambda>_.
     return ()))))"

definition admin_lines_216_225 :: "doc_ref \<Rightarrow> unit py" where
  "admin_lines_216_225 doc =
     bind (add_heading doc admin_s216 2) (\<lambda>_.
     bind (add_paragraph doc admin_s217 None) (\<lambda>_.
     bind (add_paragraph doc [] None) (\<lambda>_.
     bind (add_paragraph doc [] None) (\<lambda>_.
     bind (add_paragraph doc admin_s222 None) (\<lambda>footer.
     bind (alignment_set footer CENTER) (\<lambda>_.
     bind (bind (runs_getitem footer 0) (\<lambda>r. run_font_size_set r (Pt 9))) (\<lambda>_.
     bind (bind (lift (RGBColor 148 163 184)) (\<lambda>rgb. bind (runs_getitem footer 0) (\<lambda>r. run_font_color_rgb_set r rgb))) (\<lambda>_.
     return ()))))))))"

definition admin_lines_228_230 :: "doc_ref \<Rightarrow> unit py" where
  "admin_lines_228_230 doc =
     bind (return admin_s228) (\<lambda>output_path.
     bind (save doc output_path) (\<lambda>_.
     bind (print (admin_s230 @ output_path)) (\<lambda>_.
     return ())))"

text \<open>\<^verbatim>\<open>create_admin_manual()\<close>: \<^verbatim>\<open>doc = Document()\<close>, the default font (the first run of
  lines), then all the runs that follow it, in order.\<close>

definition admin_lines_22_230 :: "doc_ref \<Rightarrow> unit py" where
  "admin_lines_22_230 doc =
     bind (admin_lines_22_28 doc) (\<lambda>_.
     bind (admin_lines_30_36 doc) (\<lambda>_.
     bind (admin_lines_38_47 doc) (\<lambda>_.
     bind (admin_lines_50_55 doc) (\<lambda>_.
     bind (admin_lines_57_60 doc) (\<lambda>_.
     bind (admin_lines_62_65 doc) (\<lambda>_.
     bind (admin_lines_67_72 doc) (\<lambda>_.
     bind (admin_lines_74_76 doc) (\<lambda>_.
     bind (admin_lines_79_82 doc) (\<lambda>_.
     bind (admin_lines_84_87 doc) (\<lambda>_.
     bind (admin_lines_89_92 doc) (\<lambda>_.
     bind (admin_lines_94_97 doc) (\<lambda>_.
     bind (admin_lines_99_102 doc) (\<lambda>_.
     bind (admin_lines_104_108 doc) (\<lambda>_.
     bind (admin_lines_111_114 doc) (\<lambda>_.
     bind (admin_lines_116_119 doc) (\<lambda>_.
     bind (admin_lines_121_124 doc) (\<lambda>_.
     bind (admin_lines_126_129 doc) (\<lambda>_.
     bind (admin_lines_131_134 doc) (\<lambda>_.
     bind (admin_lines_136_140 doc) (\<lambda>_.
     bind (admin_lines_143_146 doc) (\<lambda>_.
     bind (admin_lines_148_151 doc) (\<lambda>_.
     bind (admin_lines_153_156 doc) (\<lambda>_.
     bind (admin_lines_158_161 doc) (\<lambda>_.
     bind (admin_lines_163_167 doc) (\<lambda>_.
     bind (admin_lines_170_173 doc) (\<lambda>_.
     bind (admin_lines_175_178 doc) (\<lambda>_.
     bind (admin_lines_180_183 doc) (\<lambda>_.
     bind (admin_lines_185_189 doc) (\<lambda>_.
     bind (admin_lines_192_195 doc) (\<lambda>_.
     bind (admin_lines_197_202 doc) (\<lambda>_.
     bind (admin_lines_205_208 doc) (\<lambda>_.
     bind (admin_lines_210_214 doc) (\<lambda>_.
     bind (admin_lines_216_225 doc) (\<lambda>_.
     bind (admin_lines_228_230 doc) (\<lambda>_.
     return ())))))))))))))))))))))))))))))))))))"


subsection \<open>\<^verbatim>\<open>generate_full_manual.py\<close>\<close>

text \<open>The string literals of the script that are not plain ASCII, as code points;
  \<open>full_s\<close>\<^emph>\<open>n\<close> is the literal on line \<^emph>\<open>n\<close> of the file.\<close>

definition full_s24 :: str where
  "full_s24 =
     [35270, 35273, 26816, 27979, 31995, 32479, 10, 29992, 25143, 20351, 29992, 19982, 32500,
      25252, 25163, 20876]"

definition full_s28 :: str where
  "full_s28 =
     [71, 114, 101, 101, 86, 105, 115, 105, 111, 110, 32, 82, 101, 98, 105, 114, 116, 104, 32,
      86, 49, 46, 48, 32, 124, 32, 31350, 26497, 35814, 23613, 29256]"

definition full_s35 :: str where
  "full_s35 =
     [36866, 29992, 23545, 35937, 65306, 29616, 22330, 25805, 20316, 21592, 12289, 35774, 22791,
      31649, 29702, 21592, 12289, 30005, 27668, 24037, 31243, 24072, 10, 21457, 24067, 26085,
      26399, 65306, 50, 48, 50, 53, 24180, 49, 50, 26376, 50, 51, 26085]"

definition full_s43 :: str where
  "full_s43 =
     [30446, 24405]"

definition full_s44 :: str where
  "full_s44 =
     [31532, 19968, 37096, 20998, 65306, 29616, 22330, 25805, 20316, 25351, 21335, 32, 46, 46,
      46, 46, 46, 46, 46, 46, 46, 46, 46, 46, 46, 46, 46, 46, 46, 46, 46, 46, 46, 46, 46, 46,
      46, 46, 46, 46, 46, 46, 46, 46, 46, 46, 46, 46, 46, 46, 46, 46, 46, 46, 46, 46, 46, 46,
      46, 46, 46, 46, 46, 46, 46, 46, 46, 46, 46, 46, 46, 32, 51]"

definition full_s45 :: str where
  "full_s45 =
     [32, 32, 32, 32, 49, 46, 49, 32, 30028, 38754, 24635, 35272, 32, 46, 46, 46, 46, 46, 46,
      46, 46, 46, 46, 46, 46, 46, 46, 46, 46, 46, 46, 46, 46, 46, 46, 46, 46, 46, 46, 46, 46,
      46, 46, 46, 46, 46, 46, 46, 46, 46, 46, 46, 46, 46, 46, 46, 46, 46, 46, 46, 46, 46, 46,
      46, 46, 46, 46, 46, 46, 46, 46, 46, 46, 46, 46, 46, 46, 46, 46, 46, 46, 46, 46, 46, 46,
      46, 46, 46, 46, 32, 51]"

definition full_s46 :: str where
  "full_s46 =
     [32, 32, 32, 32, 49, 46, 50, 32, 24320, 26426, 19982, 21551, 21160, 32, 46, 46, 46, 46, 46,
      46, 46, 46, 46, 46, 46, 46, 46, 46, 46, 46, 46, 46, 46, 46, 46, 46, 46, 46, 46, 46, 46,
      46, 46, 46, 46, 46, 46, 46, 46, 46, 46, 46, 46, 46, 46, 46, 46, 46, 46, 46, 46, 46, 46,
      46, 46, 46, 46, 46, 46, 46, 46, 46, 46, 46, 46, 46, 46, 46, 46, 46, 46, 46, 46, 46, 46,
      46, 32, 52]"

definition full_s47 :: str where
  "full_s47 =
     [32, 32, 32, 32, 49, 46, 51, 26085, 24120, 25805, 20316, 27969, 31243, 32, 46, 46, 46, 46,
      46, 46, 46, 46, 46, 46, 46, 46, 46, 46, 46, 46, 46, 46, 46, 46, 46, 46, 46, 46, 46, 46,
      46, 46, 46, 46, 46, 46, 46, 46, 46, 46, 46, 46, 46, 46, 46, 46, 46, 46, 46, 46, 46, 46,
      46, 46, 46, 46, 46, 46, 46, 46, 46, 46, 46, 46, 46, 46, 46, 46, 46, 46, 46, 46, 46, 46,
      32, 53]"

definition full_s48 :: str where
  "full_s48 =
     [32, 32, 32, 32, 49, 46, 52, 32, 24322, 24120, 22788, 29702, 19982, 27880, 24847, 20107,
      39033, 32, 46, 46, 46, 46, 46, 46, 46, 46, 46, 46, 46, 46, 46, 46, 46, 46, 46, 46, 46, 46,
      46, 46, 46, 46, 46, 46, 46, 46, 46, 46, 46, 46, 46, 46, 46, 46, 46, 46, 46, 46, 46, 46,
      46, 46, 46, 46, 46, 46, 46, 46, 46, 46, 46, 46, 46, 46, 46, 32, 54]"

definition full_s49 :: str where
  "full_s49 =
     [31532, 20108, 37096, 20998, 65306, 21518, 21488, 37197, 32622, 19982, 31649, 29702, 32,
      46, 46, 46, 46, 46, 46, 46, 46, 46, 46, 46, 46, 46, 46, 46, 46, 46, 46, 46, 46, 46, 46,
      46, 46, 46, 46, 46, 46, 46, 46, 46, 46, 46, 46, 46, 46, 46, 46, 46, 46, 46, 46, 46, 46,
      46, 46, 46, 46, 46, 46, 46, 46, 46, 32, 55]"

definition full_s50 :: str where
  "full_s50 =
     [32, 32, 32, 32, 50, 46, 49, 32, 36827, 20837, 21518, 21488, 19982, 26435, 38480, 32, 46,
      46, 46, 46, 46, 46, 46, 46, 46, 46, 46, 46, 46, 46, 46, 46, 46, 46, 46, 46, 46, 46, 46,
      46, 46, 46, 46, 46, 46, 46, 46, 46, 46, 46, 46, 46, 46, 46, 46, 46, 46, 46, 46, 46, 46,
      46, 46, 46, 46, 46, 46, 46, 46, 46, 46, 46, 46, 46, 46, 46, 46, 46, 46, 46, 46, 32, 55]"

definition full_s51 :: str where
  "full_s51 =
     [32, 32, 32, 32, 50, 46, 50, 32, 26680, 24515, 21442, 25968, 35814, 35299, 32, 46, 46, 46,
      46, 46, 46, 46, 46, 46, 46, 46, 46, 46, 46, 46, 46, 46, 46, 46, 46, 46, 46, 46, 46, 46,
      46, 46, 46, 46, 46, 46, 46, 46, 46, 46, 46, 46, 46, 46, 46, 46, 46, 46, 46, 46, 46, 46,
      46, 46, 46, 46, 46, 46, 46, 46, 46, 46, 46, 46, 46, 46, 46, 46, 46, 46, 46, 46, 46, 46,
      32, 56]"

definition full_s52 :: str where
  "full_s52 =
     [32, 32, 32, 32, 50, 46, 51, 32, 65, 73, 21028, 23450, 36923, 36753, 35843, 25972, 32, 46,
      46, 46, 46, 46, 46, 46, 46, 46, 46, 46, 46, 46, 46, 46, 46, 46, 46, 46, 46, 46, 46, 46,
      46, 46, 46, 46, 46, 46, 46, 46, 46, 46, 46, 46, 46, 46, 46, 46, 46, 46, 46, 46, 46, 46,
      46, 46, 46, 46, 46, 46, 46, 46, 46, 46, 46, 46, 46, 46, 46, 46, 46, 46, 46, 46, 32, 49, 48]"

definition full_s53 :: str where
  "full_s53 =
     [32, 32, 32, 32, 50, 46, 52, 32, 31995, 32479, 32500, 25252, 24314, 35758, 32, 46, 46, 46,
      46, 46, 46, 46, 46, 46, 46, 46, 46, 46, 46, 46, 46, 46, 46, 46, 46, 46, 46, 46, 46, 46,
      46, 46, 46, 46, 46, 46, 46, 46, 46, 46, 46, 46, 46, 46, 46, 46, 46, 46, 46, 46, 46, 46,
      46, 46, 46, 46, 46, 46, 46, 46, 46, 46, 46, 46, 46, 46, 46, 46, 46, 46, 46, 46, 46, 46,
      32, 49, 49]"

definition full_s58 :: str where
  "full_s58 =
     [31532, 19968, 37096, 20998, 65306, 29616, 22330, 25805, 20316, 25351, 21335]"

definition full_s62 :: str where
  "full_s62 =
     [49, 46, 49, 32, 30028, 38754, 24635, 35272]"

definition full_s63 :: str where
  "full_s63 =
     [36719, 20214, 20027, 30028, 38754, 35774, 35745, 31616, 27905, 30452, 35266, 65292, 20998,
      20026, 22235, 22823, 21151, 33021, 21306, 65306]"

definition full_s67 :: str where
  "full_s67 =
     [49, 46, 32, 30417, 25511, 26174, 31034, 21306, 65288, 24038, 20391, 65289]"

definition full_s68 :: str where
  "full_s68 =
     [50, 46, 32, 29366, 24577, 19982, 25511, 21046, 21306, 65288, 20013, 19978, 65289]"

definition full_s69 :: str where
  "full_s69 =
     [51, 46, 32, 25968, 25454, 32479, 35745, 21306, 65288, 20013, 19979, 65289]"

definition full_s70 :: str where
  "full_s70 =
     [52, 46, 32, 26085, 24535, 35760, 24405, 21306, 65288, 21491, 20391, 65289]"

definition full_s77 :: str where
  "full_s77 =
     [8226, 32, 30417, 25511, 26174, 31034, 21306, 65306, 23454, 26102, 26174, 31034, 32463,
      36807, 65, 73, 22788, 29702, 30340, 30011, 38754, 65292, 21253, 21547, 26816, 27979,
      26694, 21644, 32467, 26524, 26631, 31614, 12290]"

definition full_s78 :: str where
  "full_s78 =
     [8226, 32, 29366, 24577, 25351, 31034, 28783, 65306, 32511, 33394, 20195, 34920, 27491,
      24120, 36830, 25509, 65292, 28784, 33394, 20195, 34920, 26029, 24320, 12290]"

definition full_s79 :: str where
  "full_s79 =
     [8226, 32, 32479, 35745, 25968, 25454, 65306, 23454, 26102, 32479, 35745, 24403, 29677,
      27425, 30340, 21512, 26684, 47, 19981, 21512, 26684, 25968, 37327, 65292, 37325, 21551,
      36719, 20214, 21518, 28165, 38646, 12290]"

definition full_s81 :: str where
  "full_s81 =
     [49, 46, 50, 32, 24320, 26426, 19982, 21551, 21160]"

definition full_s82 :: str where
  "full_s82 =
     [26631, 20934, 24320, 26426, 27969, 31243, 65306]"

definition full_s83 :: str where
  "full_s83 =
     [49, 46, 32, 24320, 21551, 24037, 25511, 26426, 30005, 28304, 65292, 36827, 20837, 87, 105,
      110, 100, 111, 119, 115, 26700, 38754, 12290]"

definition full_s84 :: str where
  "full_s84 =
     [50, 46, 32, 21452, 20987, 26700, 38754, 22270, 26631, 32, 34, 35270, 35273, 26816, 27979,
      31995, 32479, 34, 12290]"

definition full_s85 :: str where
  "full_s85 =
     [51, 46, 32, 31561, 24453, 32422, 53, 45, 49, 48, 31186, 65292, 36719, 20214, 30028, 38754,
      23436, 20840, 26174, 31034, 12290]"

definition full_s86 :: str where
  "full_s86 =
     [52, 46, 32, 26816, 26597, 39030, 37096, 25351, 31034, 28783, 65306]"

definition full_s90 :: str where
  "full_s90 =
     [25351, 31034, 28783]"

definition full_s91 :: str where
  "full_s91 =
     [27491, 24120, 29366, 24577]"

definition full_s92 :: str where
  "full_s92 =
     [24322, 24120, 29366, 24577]"

definition full_s95 :: str where
  "full_s95 =
     [30456, 26426, 36890, 35759]"

definition full_s96 :: str where
  "full_s96 =
     [128994, 32, 32511, 33394]"

definition full_s97 :: str where
  "full_s97 =
     [9898, 32, 28784, 33394, 65288, 38656, 28857, 20987, 34, 25171, 24320, 30456, 26426, 34,
      65289]"

definition full_s99 :: str where
  "full_s99 =
     [80, 76, 67, 36890, 35759]"

definition full_s100 :: str where
  "full_s100 =
     [128994, 32, 32511, 33394]"

definition full_s101 :: str where
  "full_s101 =
     [9898, 32, 28784, 33394, 65288, 38656, 28857, 20987, 34, 36830, 25509, 80, 76, 67, 34,
      65289]"

definition full_s103 :: str where
  "full_s103 =
     [49, 46, 51, 32, 26085, 24120, 25805, 20316, 27969, 31243]"

definition full_s104 :: str where
  "full_s104 =
     [65, 46, 32, 33258, 21160, 27169, 24335, 65288, 25512, 33616, 65289]"

definition full_s105 :: str where
  "full_s105 =
     [8226, 32, 31995, 32479, 40664, 35748, 22788, 20110, 33258, 21160, 27169, 24335, 12290]"

definition full_s106 :: str where
  "full_s106 =
     [8226, 32, 24403, 27969, 27700, 32447, 20256, 24863, 22120, 35302, 21457, 20449, 21495,
      26102, 65292, 31995, 32479, 33258, 21160, 25293, 29031, 24182, 21028, 26029, 12290]"

definition full_s107 :: str where
  "full_s107 =
     [8226, 32, 25805, 20316, 21592, 21482, 38656, 20851, 27880, 23631, 24149, 19978, 30340,
      22823, 23383, 32467, 26524, 65306]"

definition full_s108 :: str where
  "full_s108 =
     [32, 32, 32, 32, 9989, 32, 80, 65, 83, 83, 32, 40, 32511, 33394, 41, 65306, 21512, 26684,
      65292, 27969, 27700, 32447, 32487, 32493, 36816, 34892, 12290]"

definition full_s109 :: str where
  "full_s109 =
     [32, 32, 32, 32, 10060, 32, 70, 65, 73, 76, 32, 40, 32418, 33394, 41, 65306, 19981, 21512,
      26684, 65292, 27969, 27700, 32447, 25253, 35686, 47, 20572, 26426, 12290]"

definition full_s111 :: str where
  "full_s111 =
     [66, 46, 32, 25163, 21160, 24178, 39044]"

definition full_s112 :: str where
  "full_s112 =
     [8226, 32, 25163, 21160, 26816, 27979, 65306, 22312, 26080, 26009, 25110, 35843, 35797,
      26102, 65292, 28857, 20987, 32, 91, 25163, 21160, 26816, 27979, 93, 32, 27169, 25311,
      19968, 27425, 35302, 21457, 12290]"

definition full_s113 :: str where
  "full_s113 =
     [8226, 32, 25163, 21160, 25918, 34892, 65306, 33509, 31995, 32479, 35823, 21028, 65288,
      23454, 38469, 20135, 21697, 21512, 26684, 65289, 65292, 28857, 20987, 32, 91, 25163,
      21160, 25918, 34892, 93, 32, 21457, 36865, 79, 75, 20449, 21495, 32473, 80, 76, 67, 12290]"

definition full_s115 :: str where
  "full_s115 =
     [49, 46, 52, 32, 24322, 24120, 22788, 29702]"

definition full_s116 :: str where
  "full_s116 =
     [81, 58, 32, 30011, 38754, 20840, 40657, 65311]"

definition full_s117 :: str where
  "full_s117 =
     [65, 58, 32, 26816, 26597, 30456, 26426, 38236, 22836, 30422, 26159, 21542, 21462, 19979,
      65292, 20809, 28304, 26159, 21542, 24320, 21551, 12290, 28857, 20987, 32, 91, 26597,
      25214, 30456, 26426, 93, 32, 23581, 35797, 37325, 36830, 12290]"

definition full_s119 :: str where
  "full_s119 =
     [81, 58, 32, 19968, 30452, 21028, 23450, 19981, 21512, 26684, 65311]"

definition full_s120 :: str where
  "full_s120 =
     [65, 58, 32, 26816, 26597, 38236, 22836, 26159, 21542, 33039, 27745, 12290, 22914, 26524,
      20135, 21697, 27809, 38382, 39064, 65292, 21487, 33021, 26159, 20174, 21518, 21488, 35774,
      32622, 30340, 38408, 20540, 36807, 39640, 65292, 38656, 36890, 30693, 31649, 29702, 21592,
      35843, 25972, 12290]"

definition full_s125 :: str where
  "full_s125 =
     [31532, 20108, 37096, 20998, 65306, 21518, 21488, 37197, 32622, 19982, 31649, 29702]"

definition full_s129 :: str where
  "full_s129 =
     [26412, 37096, 20998, 20869, 23481, 20165, 38480, 31649, 29702, 21592, 25110, 25216, 26415,
      20154, 21592, 25805, 20316, 12290]"

definition full_s131 :: str where
  "full_s131 =
     [50, 46, 49, 32, 36827, 20837, 21518, 21488]"

definition full_s132 :: str where
  "full_s132 =
     [20837, 21475, 65306, 28857, 20987, 36719, 20214, 21491, 19978, 35282, 30340, 32, 9881,
      65039, 32, 22270, 26631, 12290]"

definition full_s133 :: str where
  "full_s133 =
     [23494, 30721, 65306, 40664, 35748, 23494, 30721, 20026, 32, 56, 56, 56, 56, 56, 56, 12290]"

definition full_s135 :: str where
  "full_s135 =
     [50, 46, 50, 32, 26680, 24515, 21442, 25968, 35814, 35299]"

definition full_s137 :: str where
  "full_s137 =
     [65, 46, 32, 23384, 20648, 37197, 32622]"

definition full_s138 :: str where
  "full_s138 =
     [8226, 32, 23384, 20648, 36335, 24452, 65306, 24314, 35758, 35774, 32622, 22312, 38750,
      31995, 32479, 30424, 65288, 22914, 32, 68, 58, 92, 68, 97, 116, 97, 65289, 65292, 38450,
      27490, 21344, 28385, 67, 30424, 23548, 33268, 31995, 32479, 23849, 28291, 12290]"

definition full_s139 :: str where
  "full_s139 =
     [8226, 32, 27880, 24847, 65306, 20462, 25913, 36335, 24452, 21518, 65292, 20043, 21069,
      30340, 21382, 21490, 22270, 29255, 19981, 20250, 33258, 21160, 36801, 31227, 12290]"

definition full_s141 :: str where
  "full_s141 =
     [66, 46, 32, 80, 76, 67, 36890, 35759, 37197, 32622]"

definition full_s144 :: str where
  "full_s144 =
     [21442, 25968]"

definition full_s145 :: str where
  "full_s145 =
     [35828, 26126]"

definition full_s148 :: str where
  "full_s148 =
     [73, 80, 22320, 22336]"

definition full_s149 :: str where
  "full_s149 =
     [80, 76, 67, 30340, 22266, 23450, 73, 80, 65292, 38656, 19982, 24037, 25511, 26426, 22312,
      21516, 19968, 32593, 27573, 12290]"

definition full_s150 :: str where
  "full_s150 =
     [31471, 21475]"

definition full_s151 :: str where
  "full_s151 =
     [36890, 24120, 20026, 32, 53, 48, 50, 32, 40, 77, 111, 100, 98, 117, 115, 32, 84, 67, 80,
      41, 32, 25110, 33258, 23450, 20041, 31471, 21475, 12290]"

definition full_s152 :: str where
  "full_s152 =
     [35302, 21457, 22320, 22336]"

definition full_s153 :: str where
  "full_s153 =
     [80, 76, 67, 20889, 20837, 34, 49, 34, 35302, 21457, 25293, 29031, 30340, 23492, 23384,
      22120, 22320, 22336, 12290]"

definition full_s154 :: str where
  "full_s154 =
     [32467, 26524, 22320, 22336]"

definition full_s155 :: str where
  "full_s155 =
     [36719, 20214, 20889, 20837, 32467, 26524, 65288, 49, 61, 79, 75, 44, 32, 50, 61, 78, 71,
      65289, 30340, 23492, 23384, 22120, 22320, 22336, 12290]"

definition full_s157 :: str where
  "full_s157 =
     [67, 46, 32, 30456, 26426, 21442, 25968, 37197, 32622]"

definition full_s158 :: str where
  "full_s158 =
     [8226, 32, 24207, 21015, 21495, 32, 40, 83, 78, 41, 65306, 24517, 39035, 19982, 23454,
      38469, 36830, 25509, 30340, 30456, 26426, 19968, 33268, 65292, 21542, 21017, 26080, 27861,
      25171, 24320, 30456, 26426, 12290]"

definition full_s159 :: str where
  "full_s159 =
     [8226, 32, 26333, 20809, 32, 40, 69, 120, 112, 111, 115, 117, 114, 101, 41, 65306, 25511,
      21046, 30011, 38754, 20142, 24230, 12290, 26333, 20809, 36807, 20302, 30011, 38754, 40657,
      65292, 36807, 39640, 30011, 38754, 30333, 19988, 26377, 25302, 24433, 12290]"

definition full_s160 :: str where
  "full_s160 =
     [8226, 32, 22686, 30410, 32, 40, 71, 97, 105, 110, 41, 65306, 36741, 21161, 25552, 20142,
      12290, 24314, 35758, 20248, 20808, 35843, 26333, 20809, 65292, 26368, 21518, 35843, 22686,
      30410, 20197, 20943, 23569, 22122, 28857, 12290]"

definition full_s162 :: str where
  "full_s162 =
     [50, 46, 51, 32, 65, 73, 21028, 23450, 36923, 36753, 35843, 25972]"

definition full_s163 :: str where
  "full_s163 =
     [36825, 26159, 86, 49, 46, 48, 29256, 26412, 30340, 26680, 24515, 21319, 32423, 21151,
      33021, 65292, 25903, 25345, 36923, 36753, 28909, 26356, 12290]"

definition full_s165 :: str where
  "full_s165 =
     [49, 46, 32, 30446, 26631, 26631, 31614, 32, 40, 84, 97, 114, 103, 101, 116, 32, 76, 97,
      98, 101, 108, 41, 65306]"

definition full_s166 :: str where
  "full_s166 =
     [32, 32, 32, 24517, 39035, 19982, 27169, 22411, 35757, 32451, 26102, 30340, 26631, 31614,
      19968, 33268, 65288, 22914, 32, 34, 115, 99, 114, 101, 119, 34, 65289, 12290, 22635,
      38169, 23558, 23548, 33268, 31995, 32479, 34, 35270, 32780, 19981, 35265, 34, 12290]"

definition full_s168 :: str where
  "full_s168 =
     [50, 46, 32, 30446, 26631, 25968, 37327, 32, 40, 84, 97, 114, 103, 101, 116, 32, 67, 111,
      117, 110, 116, 41, 65306]"

definition full_s169 :: str where
  "full_s169 =
     [32, 32, 32, 21028, 23450, 21512, 26684, 25152, 38656, 30340, 26368, 23569, 25968, 37327,
      12290]"

definition full_s170 :: str where
  "full_s170 =
     [32, 32, 32, 31034, 20363, 65306, 19968, 20010, 30005, 26426, 19978, 38656, 35201, 52,
      39063, 34746, 38025, 65292, 21017, 35774, 20026, 52, 12290, 23569, 20110, 52, 39063,
      21028, 78, 71, 65292, 22810, 20110, 52, 39063, 21028, 79, 75, 12290]"

definition full_s172 :: str where
  "full_s172 =
     [51, 46, 32, 32622, 20449, 24230, 38408, 20540, 32, 40, 30028, 38754, 28369, 22359, 41,
      65306]"

definition full_s173 :: str where
  "full_s173 =
     [32, 32, 32, 8226, 32, 24314, 35758, 20540, 65306, 48, 46, 53, 48, 32, 45, 32, 48, 46, 55,
      48]"

definition full_s174 :: str where
  "full_s174 =
     [32, 32, 32, 8226, 32, 29616, 35937, 65306, 22914, 26524, 32463, 24120, 28431, 26816,
      65288, 26377, 34746, 38025, 27809, 35748, 20986, 65289, 65292, 35843, 20302, 35813, 20540,
      12290]"

definition full_s175 :: str where
  "full_s175 =
     [32, 32, 32, 8226, 32, 29616, 35937, 65306, 22914, 26524, 32463, 24120, 35823, 26816,
      65288, 25226, 24433, 23376, 35748, 25104, 34746, 38025, 65289, 65292, 35843, 39640, 35813,
      20540, 12290]"

definition full_s177 :: str where
  "full_s177 =
     [50, 46, 52, 32, 31995, 32479, 32500, 25252, 24314, 35758]"

definition full_s178 :: str where
  "full_s178 =
     [49, 46, 32, 23450, 26399, 28165, 29702, 30913, 30424, 65306, 34429, 28982, 36719, 20214,
      20250, 33258, 21160, 20998, 31867, 23384, 20648, 65292, 20294, 24314, 35758, 27599, 23395,
      24230, 25163, 21160, 22791, 20221, 24182, 28165, 29702, 19968, 27425, 32, 68, 58, 92, 68,
      97, 116, 97, 32, 19979, 30340, 26087, 22270, 29255, 12290]"

definition full_s179 :: str where
  "full_s179 =
     [50, 46, 32, 22791, 20221, 37197, 32622, 25991, 20214, 65306, 36719, 20214, 26681, 30446,
      24405, 19979, 30340, 32, 65, 112, 112, 67, 111, 110, 102, 105, 103, 46, 106, 115, 111,
      110, 32, 23384, 20648, 20102, 25152, 26377, 35774, 32622, 65292, 24314, 35758, 22791,
      20221, 35813, 25991, 20214, 12290]"

definition full_s180 :: str where
  "full_s180 =
     [51, 46, 32, 20005, 31105, 38543, 24847, 20462, 25913, 25991, 20214, 21517, 65306, 19981,
      35201, 25163, 21160, 20462, 25913, 32, 101, 120, 101, 32, 25991, 20214, 21517, 25110,
      31227, 21160, 32, 104, 116, 109, 108, 32, 25991, 20214, 22841, 20301, 32622, 65292, 21542,
      21017, 20250, 23548, 33268, 31243, 24207, 26080, 27861, 36816, 34892, 12290]"

definition full_s185 :: str where
  "full_s185 =
     [26412, 25991, 26723, 30001, 31995, 32479, 33258, 21160, 29983, 25104, 32, 124, 32, 26368,
      32456, 35299, 37322, 26435, 24402, 30740, 21457, 37096, 38376, 25152, 26377]"

definition full_s191 :: str where
  "full_s191 =
     [99, 58, 92, 85, 115, 101, 114, 115, 92, 49, 49, 50, 51, 52, 92, 68, 101, 115, 107, 116,
      111, 112, 92, 87, 53, 30005, 26426, 34746, 38025, 26816, 27979, 32, 45, 82, 101, 98, 105,
      114, 116, 104, 92, 35270, 35273, 26816, 27979, 31995, 32479, 23436, 25972, 25163, 20876,
      46, 100, 111, 99, 120]"

definition full_s193 :: str where
  "full_s193 =
     [23436, 25972, 29256, 25163, 20876, 24050, 29983, 25104, 58, 32]"

text \<open>The body of \<^verbatim>\<open>create_full_manual()\<close>, statement by statement, in runs of source lines:
  \<open>full_lines_\<close>\<^emph>\<open>a\<close>\<open>_\<close>\<^emph>\<open>b\<close> is lines \<^emph>\<open>a\<close> to \<^emph>\<open>b\<close>. The only variable a run
  shares with the next is \<^verbatim>\<open>doc\<close>.\<close>

definition full_lines_16_19 :: "doc_ref \<Rightarrow> unit py" where
  "full_lines_16_19 doc =
     bind (styles_getitem doc (u ''Normal'')) (\<lambda>style.
     bind (style_font_name_set style (u ''Microsoft YaHei UI'')) (\<lambda>_.
     bind (style_font_size_set style (Pt 11)) (\<lambda>_.
     bind (bind (style_element_rPr_rFonts style) (\<lambda>rFonts. bind (lift (qn (u ''w:eastAsia''))) (\<lambda>k. rFonts_set rFonts k (u ''Microsoft YaHei UI'')))) (\<lambda>_.
     return ()))))"

definition full_lines_22_25 :: "doc_ref \<Rightarrow> unit py" where
  "full_lines_22_25 doc =
     bind (for_range 5 (\<lambda>i. bind (add_paragraph doc [] None) (\<lambda>_. return ()))) (\<lambda>_.
     bind (add_heading doc full_s24 0) (\<lambda>title.
     bind (alignment_set title CENTER) (\<lambda>_.
     return ())))"

definition full_lines_27_31 :: "doc_ref \<Rightarrow> unit py" where
  "full_lines_27_31 doc =
     bind (add_paragraph doc [] None) (\<lambda>_.
     bind (add_paragraph doc full_s28 None) (\<lambda>subtitle.
     bind (alignment_set subtitle CENTER) (\<lambda>_.
     bind (bind (runs_getitem subtitle 0) (\<lambda>r. run_font_size_set r (Pt 16))) (\<lambda>_.
     bind (bind (lift (RGBColor 71 85 105)) (\<lambda>rgb. bind (runs_getitem subtitle 0) (\<lambda>r. run_font_color_rgb_set r rgb))) (\<lambda>_.
     return ())))))"

definition full_lines_33_38 :: "doc_ref \<Rightarrow> unit py" where
  "full_lines_33_38 doc =
     bind (for_range 8 (\<lambda>i. bind (add_paragraph doc [] None) (\<lambda>_. return ()))) (\<lambda>_.
     bind (add_paragraph doc full_s35 None) (\<lambda>info.
     bind (alignment_set info CENTER) (\<lambda>_.
     bind (bind (runs_getitem info 0) (\<lambda>r. run_font_size_set r (Pt 12))) (\<lambda>_.
     bind (bind (lift (RGBColor 148 163 184)) (\<lambda>rgb. bind (runs_getitem info 0) (\<lambda>r. run_font_color_rgb_set r rgb))) (\<lambda>_.
     return ())))))"

definition full_lines_40_53 :: "doc_ref \<Rightarrow> unit py" where
  "full_lines_40_53 doc =
     bind (add_page_break doc) (\<lambda>_.
     bind (add_heading doc full_s43 1) (\<lambda>_.
     bind (add_paragraph doc full_s44 None) (\<lambda>_.
     bind (add_paragraph doc full_s45 None) (\<lambda>_.
     bind (add_paragraph doc full_s46 None) (\<lambda>_.
     bind (add_paragraph doc full_s47 None) (\<lambda>_.
     bind (add_paragraph doc full_s48 None) (\<lambda>_.
     bind (add_paragraph doc full_s49 None) (\<lambda>_.
     bind (add_paragraph doc full_s50 None) (\<lambda>_.
     bind (add_paragraph doc full_s51 None) (\<lambda>_.
     bind (add_paragraph doc full_s52 None) (\<lambda>_.
     bind (add_paragraph doc full_s53 None) (\<lambda>_.
     return ()))))))))))))"

definition full_lines_55_60 :: "doc_ref \<Rightarrow> unit py" where
  "full_lines_55_60 doc =
     bind (add_page_break doc) (\<lambda>_.
     bind (add_heading doc full_s58 1) (\<lambda>part1.
     bind (alignment_set part1 CENTER) (\<lambda>_.
     bind (add_paragraph doc [] None) (\<lambda>_.
     return ()))))"

definition full_lines_62_74 :: "doc_ref \<Rightarrow> unit py" where
  "full_lines_62_74 doc =
     bind (add_heading doc full_s62 2) (\<lambda>_.
     bind (add_paragraph doc full_s63 None) (\<lambda>p.
     bind (add_table doc 2 2) (\<lambda>table.
     bind (table_style_set table (u ''Table Grid'')) (\<lambda>_.
     bind (bind (table_cell table 0 0) (\<lambda>c. cell_text_set c full_s67)) (\<lambda>_.
     bind (bind (table_cell table 0 1) (\<lambda>c. cell_text_set c full_s68)) (\<lambda>_.
     bind (bind (table_cell table 1 0) (\<lambda>c. cell_text_set c full_s69)) (\<lambda>_.
     bind (bind (table_cell table 1 1) (\<lambda>c. cell_text_set c full_s70)) (\<lambda>_.
     bind (bind (table_cell table 0 0) (\<lambda>c. set_cell_shading c (u ''F1F5F9''))) (\<lambda>_.
     bind (bind (table_cell table 0 1) (\<lambda>c. set_cell_shading c (u ''F1F5F9''))) (\<lambda>_.
     bind (bind (table_cell table 1 0) (\<lambda>c. set_cell_shading c (u ''F1F5F9''))) (\<lambda>_.
     bind (bind (table_cell table 1 1) (\<lambda>c. set_cell_shading c (u ''F1F5F9''))) (\<lambda>_.
     return ()))))))))))))"

definition full_lines_76_79 :: "doc_ref \<Rightarrow> unit py" where
  "full_lines_76_79 doc =
     bind (add_paragraph doc [] None) (\<lambda>_.
     bind (add_paragraph doc full_s77 None) (\<lambda>_.
     bind (add_paragraph doc full_s78 None) (\<lambda>_.
     bind (add_paragraph doc full_s79 None) (\<lambda>_.
     return ()))))"

definition full_lines_81_86 :: "doc_ref \<Rightarrow> unit py" where
  "full_lines_81_86 doc =
     bind (add_heading doc full_s81 2) (\<lambda>_.
     bind (add_paragraph doc full_s82 None) (\<lambda>_.
     bind (add_paragraph doc full_s83 (Some (u ''List Number''))) (\<lambda>_.
     bind (add_paragraph doc full_s84 (Some (u ''List Number''))) (\<lambda>_.
     bind (add_paragraph doc full_s85 (Some (u ''List Number''))) (\<lambda>_.
     bind (add_paragraph doc full_s86 (Some (u ''List Number''))) (\<lambda>_.
     return ()))))))"

definition full_lines_88_101 :: "doc_ref \<Rightarrow> unit py" where
  "full_lines_88_101 doc =
     bind (add_table doc 3 3) (\<lambda>table.
     bind (table_style_set table (u ''Table Grid'')) (\<lambda>_.
     bind (bind (table_cell table 0 0) (\<lambda>c. cell_text_set c full_s90)) (\<lambda>_.
     bind (bind (table_cell table 0 1) (\<lambda>c. cell_text_set c full_s91)) (\<lambda>_.
     bind (bind (table_cell table 0 2) (\<lambda>c. cell_text_set c full_s92)) (\<lambda>_.
     bind (bind (table_cell table 0 0) (\<lambda>c. set_cell_shading c (u ''E2E8F0''))) (\<lambda>_.
     bind (bind (table_cell table 1 0) (\<lambda>c. cell_text_set c full_s95)) (\<lambda>_.
     bind (bind (table_cell table 1 1) (\<lambda>c. cell_text_set c full_s96)) (\<lambda>_.
     bind (bind (table_cell table 1 2) (\<lambda>c. cell_text_set c full_s97)) (\<lambda>_.
     bind (bind (table_cell table 2 0) (\<lambda>c. cell_text_set c full_s99)) (\<lambda>_.
     bind (bind (table_cell table 2 1) (\<lambda>c. cell_text_set c full_s100)) (\<lambda>_.
     bind (bind (table_cell table 2 2) (\<lambda>c. cell_text_set c full_s101)) (\<lambda>_.
     return ()))))))))))))"

definition full_lines_103_109 :: "doc_ref \<Rightarrow> unit py" where
  "full_lines_103_109 doc =
     bind (add_heading doc full_s103 2) (\<lambda>_.
     bind (add_paragraph doc full_s104 (Some (u ''Heading 3''))) (\<lambda>_.
     bind (add_paragraph doc full_s105 None) (\<lambda>_.
     bind (add_paragraph doc full_s106 None) (\<lambda>_.
     bind (add_paragraph doc full_s107 None) (\<lambda>_.
     bind (add_paragraph doc full_s108 None) (\<lambda>_.
     bind (add_paragraph doc full_s109 None) (\<lambda>_.
     return ())))))))"

definition full_lines_111_113 :: "doc_ref \<Rightarrow> unit py" where
  "full_lines_111_113 doc =
     bind (add_paragraph doc full_s111 (Some (u ''Heading 3''))) (\<lambda>_.
     bind (add_paragraph doc full_s112 None) (\<lambda>_.
     bind (add_paragraph doc full_s113 None) (\<lambda>_.
     return ())))"

definition full_lines_115_120 :: "doc_ref \<Rightarrow> unit py" where
  "full_lines_115_120 doc =
     bind (add_heading doc full_s115 2) (\<lambda>_.
     bind (add_paragraph doc full_s116 None) (\<lambda>_.
     bind (add_paragraph doc full_s117 None) (\<lambda>_.
     bind (add_paragraph doc [] None) (\<lambda>_.
     bind (add_paragraph doc full_s119 None) (\<lambda>_.
     bind (add_paragraph doc full_s120 None) (\<lambda>_.
     return ()))))))"

definition full_lines_122_127 :: "doc_ref \<Rightarrow> unit py" where
  "full_lines_122_127 doc =
     bind (add_page_break doc) (\<lambda>_.
     bind (add_heading doc full_s125 1) (\<lambda>part2.
     bind (alignment_set part2 CENTER) (\<lambda>_.
     bind (add_paragraph doc [] None) (\<lambda>_.
     return ()))))"

definition full_lines_129_133 :: "doc_ref \<Rightarrow> unit py" where
  "full_lines_129_133 doc =
     bind (add_paragraph doc full_s129 None) (\<lambda>_.
     bind (add_heading doc full_s131 2) (\<lambda>_.
     bind (add_paragraph doc full_s132 None) (\<lambda>_.
     bind (add_paragraph doc full_s133 None) (\<lambda>_.
     return ()))))"

definition full_lines_135_139 :: "doc_ref \<Rightarrow> unit py" where
  "full_lines_135_139 doc =
     bind (add_heading doc full_s135 2) (\<lambda>_.
     bind (add_paragraph doc full_s137 (Some (u ''Heading 3''))) (\<lambda>_.
     bind (add_paragraph doc full_s138 None) (\<lambda>_.
     bind (add_paragraph doc full_s139 None) (\<lambda>_.
     return ()))))"

definition full_lines_141_155 :: "doc_ref \<Rightarrow> unit py" where
  "full_lines_141_155 doc =
     bind (add_paragraph doc full_s141 (Some (u ''Heading 3''))) (\<lambda>_.
     bind (add_table doc 5 2) (\<lambda>table.
     bind (table_style_set table (u ''Table Grid'')) (\<lambda>_.
     bind (bind (table_cell table 0 0) (\<lambda>c. cell_text_set c full_s144)) (\<lambda>_.
     bind (bind (table_cell table 0 1) (\<lambda>c. cell_text_set c full_s145)) (\<lambda>_.
     bind (bind (table_cell table 0 0) (\<lambda>c. set_cell_shading c (u ''E2E8F0''))) (\<lambda>_.
     bind (bind (table_cell table 1 0) (\<lambda>c. cell_text_set c full_s148)) (\<lambda>_.
     bind (bind (table_cell table 1 1) (\<lambda>c. cell_text_set c full_s149)) (\<lambda>_.
     bind (bind (table_cell table 2 0) (\<lambda>c. cell_text_set c full_s150)) (\<lambda>_.
     bind (bind (table_cell table 2 1) (\<lambda>c. cell_text_set c full_s151)) (\<lambda>_.
     bind (bind (table_cell table 3 0) (\<lambda>c. cell_text_set c full_s152)) (\<lambda>_.
     bind (bind (table_cell table 3 1) (\<lambda>c. cell_text_set c full_s153)) (\<lambda>_.
     bind (bind (table_cell table 4 0) (\<lambda>c. cell_text_set c full_s154)) (\<lambda>_.
     bind (bind (table_cell table 4 1) (\<lambda>c. cell_text_set c full_s155)) (\<lambda>_.
     return ()))))))))))))))"

definition full_lines_157_160 :: "doc_ref \<Rightarrow> unit py" where
  "full_lines_157_160 doc =
     bind (add_paragraph doc full_s157 (Some (u ''Heading 3''))) (\<lambda>_.
     bind (add_paragraph doc full_s158 None) (\<lambda>_.
     bind (add_paragraph doc full_s159 None) (\<lambda>_.
     bind (add_paragraph doc full_s160 None) (\<lambda>_.
     return ()))))"

definition full_lines_162_173 :: "doc_ref \<Rightarrow> unit py" where
  "full_lines_162_173 doc =
     bind (add_heading doc full_s162 2) (\<lambda>_.
     bind (add_paragraph doc full_s163 None) (\<lambda>_.
     bind (add_paragraph doc [] None) (\<lambda>_.
     bind (add_paragraph doc full_s165 None) (\<lambda>_.
     bind (add_paragraph doc full_s166 None) (\<lambda>_.
     bind (add_paragraph doc [] None) (\<lambda>_.
     bind (add_paragraph doc full_s168 None) (\<lambda>_.
     bind (add_paragraph doc full_s169 None) (\<lambda>_.
     bind (add_paragraph doc full_s170 None) (\<lambda>_.
     bind (add_paragraph doc [] None) (\<lambda>_.
     bind (add_paragraph doc full_s172 None) (\<lambda>_.
     bind (add_paragraph doc full_s173 None) (\<lambda>_.
     return ()))))))))))))"

definition full_lines_174_180 :: "doc_ref \<Rightarrow> unit py" where
  "full_lines_174_180 doc =
     bind (add_paragraph doc full_s174 None) (\<lambda>_.
     bind (add_paragraph doc full_s175 None) (\<lambda>_.
     bind (add_heading doc full_s177 2) (\<lambda>_.
     bind (add_paragraph doc full_s178 (Some (u ''List Bullet''))) (\<lambda>_.
     bind (add_paragraph doc full_s179 (Some (u ''List Bullet''))) (\<lambda>_.
     bind (add_paragraph doc full_s180 (Some (u ''List Bullet''))) (\<lambda>_.
     return ()))))))"

definition full_lines_183_188 :: "doc_ref \<Rightarrow> unit py" where
  "full_lines_183_188 doc =
     bind (add_paragraph doc [] None) (\<lambda>_.
     bind (add_paragraph doc [] None) (\<lambda>_.
     bind (add_paragraph doc full_s185 None) (\<lambda>footer.
     bind (alignment_set footer CENTER) (\<lambda>_.
     bind (bind (runs_getitem footer 0) (\<lambda>r. run_font_size_set r (Pt 9))) (\<lambda>_.
     bind (bind (lift (RGBColor 148 163 184)) (\<lambda>rgb. bind (runs_getitem footer 0) (\<lambda>r. run_font_color_rgb_set r rgb))) (\<lambda>_.
     return ()))))))"

definition full_lines_191_193 :: "doc_ref \<Rightarrow> unit py" where
  "full_lines_191_193 doc =
     bind (return full_s191) (\<lambda>output_path.
     bind (save doc output_path) (\<lambda>_.
     bind (print (full_s193 @ output_path)) (\<lambda>_.
     return ())))"

text \<open>\<^verbatim>\<open>create_full_manual()\<close>: \<^verbatim>\<open>doc = Document()\<close>, the default font (the first run of
  lines), then all the runs that follow it, in order.\<close>

definition full_lines_22_193 :: "doc_ref \<Rightarrow> unit py" where
  "full_lines_22_193 doc =
     bind (full_lines_22_25 doc) (\<lambda>_.
     bind (full_lines_27_31 doc) (\<lambda>_.
     bind (full_lines_33_38 doc) (\<lambda>_.
     bind (full_lines_40_53 doc) (\<lambda>_.
     bind (full_lines_55_60 doc) (\<lambda>_.
     bind (full_lines_62_74 doc) (\<lambda>_.
     bind (full_lines_76_79 doc) (\<lambda>_.
     bind (full_lines_81_86 doc) (\<lambda>_.
     bind (full_lines_88_101 doc) (\<lambda>_.
     bind (full_lines_103_109 doc) (\<lambda>_.
     bind (full_lines_111_113 doc) (\<lambda>_.
     bind (full_lines_115_120 doc) (\<lambda>_.
     bind (full_lines_122_127 doc) (\<lambda>_.
     bind (full_lines_129_133 doc) (\<lambda>_.
     bind (full_lines_135_139 doc) (\<lambda>_.
     bind (full_lines_141_155 doc) (\<lambda>_.
     bind (full_lines_157_160 doc) (\<lambda>_.
     bind (full_lines_162_173 doc) (\<lambda>_.
     bind (full_lines_174_180 doc) (\<lambda>_.
     bind (full_lines_183_188 doc) (\<lambda>_.
     bind (full_lines_191_193 doc) (\<lambda>_.
     return ())))))))))))))))))))))"

section \<open>A blank document to run the scripts on\<close>

text \<open>A stand-in for the library's default template: an empty body, a text area of six
  inches and the styles the three scripts refer to by name. It is the concrete input of
  the examples below; the theorems themselves hold for every template.\<close>

definition mk_style :: "string \<Rightarrow> string \<Rightarrow> style_type \<Rightarrow> bool \<Rightarrow> style" where
  "mk_style sid nm ty dflt =
     \<lparr>style_id = u sid, style_name = u nm, style_type = ty, is_default = dflt, style_rPr = None\<rparr>"

definition blank_template :: document where
  "blank_template =
     \<lparr>styles =
        [mk_style ''Normal'' ''Normal'' PARAGRAPH True,
         mk_style ''Title'' ''Title'' PARAGRAPH False,
         mk_style ''Heading1'' ''Heading 1'' PARAGRAPH False,
         mk_style ''Heading2'' ''Heading 2'' PARAGRAPH False,
         mk_style ''Heading3'' ''Heading 3'' PARAGRAPH False,
         mk_style ''ListBullet'' ''List Bullet'' PARAGRAPH False,
         mk_style ''ListNumber'' ''List Number'' PARAGRAPH False,
         mk_style ''TableNormal'' ''Normal Table'' TABLE True,
         mk_style ''TableGrid'' ''Table Grid'' TABLE False],
      block_width = 5486400,
      body = []\<rparr>"

definition fresh_state :: py_state where
  "fresh_state = \<lparr>docx = blank_template, saved = [], stdout = []\<rparr>"

text \<open>The blank document after \<^verbatim>\<open>doc.add_table(rows=3, cols=3)\<close>.\<close>

definition three_by_three :: py_state where
  "three_by_three =
     fresh_state\<lparr>docx := blank_template\<lparr>body := [Tbl (new_tbl 3 3 (block_width blank_template))]\<rparr>\<rparr>"


section \<open>What a call may change\<close>

text \<open>A call keeps the styles when, wherever it returns, the document's style list is
  the one it started with.\<close>

definition keeps_styles :: "'a py \<Rightarrow> bool" where
  "keeps_styles m =
     (\<forall>s. case m s of Inl e \<Rightarrow> True | Inr (x, s') \<Rightarrow> styles (docx s') = styles (docx s))"







text \<open>The default styling of a document, read from its style \<^verbatim>\<open>Normal\<close>: the font
  family (\<^verbatim>\<open>w:ascii\<close>), the East Asian font (\<^verbatim>\<open>w:eastAsia\<close>) and the font size, each when
  it is set; nothing when the document has no such style.\<close>

definition default_font :: "document \<Rightarrow> (str option \<times> str option \<times> int option) option" where
  "default_font d =
     (case style_index (styles d) (u ''Normal'') of
        None \<Rightarrow> None
      | Some i \<Rightarrow>
          (case style_rPr (styles d ! i) of
             None \<Rightarrow> Some (None, None, None)
           | Some pr \<Rightarrow>
               Some (case rFonts pr of None \<Rightarrow> None | Some a \<Rightarrow> map_of a (w_name ''ascii''),
                     case rFonts pr of None \<Rightarrow> None | Some a \<Rightarrow> map_of a (w_name ''eastAsia''),
                     sz pr)))"

section \<open>Sequences of block-append calls\<close>








section \<open>Running a call on a state\<close>

text \<open>Each definition applied to a state, so that the simplifier runs a script statement
  by statement and never rewrites the statements still to come.\<close>

lemma bind_apply: "bind m f s = (case m s of Inl e \<Rightarrow> Inl e | Inr (x, s') \<Rightarrow> f x s')"
  by (simp add: bind_def)

lemma return_apply: "return x s = Inr (x, s)"
  by (simp add: return_def)

lemma raise_apply: "raise e s = Inl e"
  by (simp add: raise_def)

lemma lift_apply: "lift (Inr x) s = Inr (x, s)" "lift (Inl e) s = Inl e"
  by (simp_all add: lift_def return_def raise_def)

lemma if_apply: "(if c then m else m') s = (if c then m s else m' s)"
  by simp

lemma get_doc_apply: "get_doc s = Inr (docx s, s)"
  by (simp add: get_doc_def)

lemma put_doc_apply: "put_doc d s = Inr ((), s\<lparr>docx := d\<rparr>)"
  by (simp add: put_doc_def)

lemmas state_apply =
  bind_apply return_apply raise_apply lift_apply if_apply get_doc_apply put_doc_apply

lemmas calls_apply =
  for_range_def [THEN fun_cong] get_para_def [THEN fun_cong] put_para_def [THEN fun_cong]
  get_table_def [THEN fun_cong] put_table_def [THEN fun_cong] get_tc_def [THEN fun_cong]
  put_tc_def [THEN fun_cong] get_run_def [THEN fun_cong] put_run_def [THEN fun_cong]
  get_style_def [THEN fun_cong] put_style_def [THEN fun_cong] Document_def [THEN fun_cong]
  styles_getitem_def [THEN fun_cong] style_font_name_set_def [THEN fun_cong]
  style_font_size_set_def [THEN fun_cong] style_element_rPr_rFonts_def [THEN fun_cong]
  rFonts_set_def [THEN fun_cong] get_style_id_def [THEN fun_cong] body_append_def [THEN fun_cong]
  add_run_def [THEN fun_cong] runs_getitem_def [THEN fun_cong] run_bold_set_def [THEN fun_cong]
  run_font_size_set_def [THEN fun_cong] run_font_color_rgb_set_def [THEN fun_cong]
  add_break_def [THEN fun_cong] alignment_set_def [THEN fun_cong]
  paragraph_style_set_def [THEN fun_cong] add_paragraph_def [THEN fun_cong]
  add_heading_def [THEN fun_cong] add_page_break_def [THEN fun_cong] add_table_def [THEN fun_cong]
  table_style_set_def [THEN fun_cong] table_cell_def [THEN fun_cong]
  cell_text_set_def [THEN fun_cong] get_or_add_tcPr_def [THEN fun_cong]
  tcPr_append_def [THEN fun_cong] merge_def [THEN fun_cong] set_cell_shading_def [THEN fun_cong]
  save_def [THEN fun_cong] print_def [THEN fun_cong]

section \<open>The runs of lines of each script\<close>

lemmas manual_runs =
  manual_lines_24_230_def manual_lines_24_30_def manual_lines_32_36_def manual_lines_39_56_def
  manual_lines_58_64_def manual_lines_66_85_def manual_lines_87_92_def manual_lines_94_98_def
  manual_lines_100_106_def manual_lines_108_110_def manual_lines_112_119_def
  manual_lines_121_125_def manual_lines_128_134_def manual_lines_136_140_def
  manual_lines_143_157_def manual_lines_159_173_def manual_lines_175_182_def
  manual_lines_184_188_def manual_lines_191_204_def manual_lines_207_212_def
  manual_lines_215_218_def manual_lines_221_225_def manual_lines_228_230_def

lemmas admin_runs =
  admin_lines_22_230_def admin_lines_22_28_def admin_lines_30_36_def admin_lines_38_47_def
  admin_lines_50_55_def admin_lines_57_60_def admin_lines_62_65_def admin_lines_67_72_def
  admin_lines_74_76_def admin_lines_79_82_def admin_lines_84_87_def admin_lines_89_92_def
  admin_lines_94_97_def admin_lines_99_102_def admin_lines_104_108_def admin_lines_111_114_def
  admin_lines_116_119_def admin_lines_121_124_def admin_lines_126_129_def
  admin_lines_131_134_def admin_lines_136_140_def admin_lines_143_146_def
  admin_lines_148_151_def admin_lines_153_156_def admin_lines_158_161_def
  admin_lines_163_167_def admin_lines_170_173_def admin_lines_175_178_def
  admin_lines_180_183_def admin_lines_185_189_def admin_lines_192_195_def
  admin_lines_197_202_def admin_lines_205_208_def admin_lines_210_214_def
  admin_lines_216_225_def admin_lines_228_230_def

lemmas full_runs =
  full_lines_22_193_def full_lines_22_25_def full_lines_27_31_def full_lines_33_38_def
  full_lines_40_53_def full_lines_55_60_def full_lines_62_74_def full_lines_76_79_def
  full_lines_81_86_def full_lines_88_101_def full_lines_103_109_def full_lines_111_113_def
  full_lines_115_120_def full_lines_122_127_def full_lines_129_133_def full_lines_135_139_def
  full_lines_141_155_def full_lines_157_160_def full_lines_162_173_def full_lines_174_180_def
  full_lines_183_188_def full_lines_191_193_def

section \<open>Evaluating pure parts\<close>

lemma replicate_numeral: "replicate (numeral k) x = x # replicate (pred_numeral k) x"
  by (simp add: numeral_eq_Suc)

lemmas pure_defs = Let_def get_or_add_def new_rPr_def new_p_def u_def w_name_def clark_def qn_def
  nsmap_def OxmlElement_def xml_set_def Pt_def RGBColor_def py_index_def run_items_def
  heading_style_def new_tbl_def new_tc_def grid_span_def new_tcPr_def tc_get_or_add_tcPr_def
  is_empty_def remove_trailing_empty_p_def move_content_to_def width_def add_width_of_def
  grid_span_set_def swallow_next_tc_def grid_offset_def replicate_numeral



section \<open>Cells read and written through a reference\<close>

lemma get_tc_state: "get_tc c s = Inr (x, s0) \<Longrightarrow> s0 = s"
  by (cases c) (auto simp: get_tc_def get_table_def state_apply split: if_splits block.splits)

lemma get_tc_cases:
  "get_tc (CellRef t i j) s = Inr (x, s0) \<Longrightarrow>
     \<exists>tbl. t < length (body (docx s)) \<and> body (docx s) ! t = Tbl tbl \<and> i < length (trs tbl)
       \<and> j < length (trs tbl ! i) \<and> x = trs tbl ! i ! j"
  by (auto simp: get_tc_def get_table_def state_apply split: if_splits block.splits)

lemma put_tc_get_tc:
  assumes "get_tc c s = Inr (x, s0)"
  shows "\<exists>s'. put_tc c v s = Inr ((), s') \<and> get_tc c s' = Inr (v, s')
     \<and> styles (docx s') = styles (docx s) \<and> saved s' = saved s \<and> stdout s' = stdout s
     \<and> length (body (docx s')) = length (body (docx s))"
proof (cases c)
  case (CellRef t i j)
  from get_tc_cases [OF assms [unfolded CellRef]] obtain tbl where
    h: "t < length (body (docx s))" "body (docx s) ! t = Tbl tbl" "i < length (trs tbl)"
       "j < length (trs tbl ! i)" by blast
  show ?thesis unfolding CellRef using h
    by (simp add: put_tc_def get_tc_def get_table_def put_table_def state_apply)
qed


section \<open>Addressing the cells of a new table\<close>

lemma grid_span_new_tc: "grid_span (new_tc w) = 1"
  by (simp add: grid_span_def new_tc_def)

lemma row_cells_replicate:
  "grid_span x = 1 \<Longrightarrow> row_cells t i j (replicate C x) = map (CellRef t i) [j..<j + C]"
proof (induction C arbitrary: j)
  case 0
  then show ?case by simp
next
  case (Suc C)
  then show ?case by (simp add: upt_rec [of j])
qed

lemma table_cells_length:
  "grid_span x = 1 \<Longrightarrow> length (table_cells t i (replicate R (replicate C x))) = R * C"
  by (induction R arbitrary: i) (simp_all add: row_cells_replicate)

lemma table_cells_nth:
  "grid_span x = 1 \<Longrightarrow> k < R * C \<Longrightarrow>
     table_cells t i (replicate R (replicate C x)) ! k = CellRef t (i + k div C) (k mod C)"
proof (induction R arbitrary: i k)
  case 0
  then show ?case by simp
next
  case (Suc R)
  show ?case
  proof (cases "k < C")
    case True
    with Suc.prems show ?thesis by (simp add: row_cells_replicate nth_append)
  next
    case False
    then have kc: "C \<le> k" by simp
    with Suc.prems have lt: "k - C < R * C" by simp
    have pos: "0 < C" using Suc.prems(2) by (cases C) simp_all
    have d: "k div C = Suc ((k - C) div C)" "k mod C = (k - C) mod C"
      using kc pos by (simp_all add: le_div_geq le_mod_geq)
    from Suc.IH [OF Suc.prems(1) lt, of "Suc i"] False d Suc.prems(1) show ?thesis
      by (simp add: row_cells_replicate nth_append)
  qed
qed


lemma py_index_less: "py_index n i = Inr k \<Longrightarrow> k < n"
  by (auto simp: py_index_def split: if_splits)

lemma add_table_result:
  "add_table d r c s =
     Inr (TableRef (length (body (docx s))),
          s\<lparr>docx := (docx s)\<lparr>body := body (docx s) @ [Tbl (new_tbl r c (block_width (docx s)))]\<rparr>\<rparr>)"
  by (simp add: add_table_def body_append_def state_apply)

lemma table_cell_new_tbl:
  assumes "body (docx s) = B @ [Tbl (new_tbl r c w)]"
  shows "table_cell (TableRef (length B)) row col s =
     (case py_index (nat r * nat c) (col + row * int (nat c)) of
        Inl e \<Rightarrow> Inl e
      | Inr k \<Rightarrow> Inr (CellRef (length B) (k div nat c) (k mod nat c), s))"
proof -
  have g: "get_table (TableRef (length B)) s = Inr (new_tbl r c w, s)"
    using assms by (simp add: get_table_def state_apply)
  have len: "length (table_cells (length B) 0 (trs (new_tbl r c w))) = nat r * nat c"
    by (simp add: new_tbl_def Let_def table_cells_length grid_span_new_tc)
  have gc: "length (gridCols (new_tbl r c w)) = nat c"
    by (simp add: new_tbl_def Let_def)
  show ?thesis
  proof (cases "py_index (nat r * nat c) (col + row * int (nat c))")
    case (Inl e)
    then show ?thesis by (simp add: table_cell_def state_apply g len gc Let_def)
  next
    case (Inr k)
    then have "k < nat r * nat c" by (rule py_index_less)
    then have "table_cells (length B) 0 (trs (new_tbl r c w)) ! k
        = CellRef (length B) (k div nat c) (k mod nat c)"
      by (simp add: new_tbl_def Let_def table_cells_nth grid_span_new_tc)
    with Inr show ?thesis by (simp add: table_cell_def state_apply g len gc Let_def)
  qed
qed


lemma get_tc_new_tbl:
  assumes "body (docx s) = B @ [Tbl (new_tbl r c w)]" "i < nat r" "j < nat c"
  shows "\<exists>x. get_tc (CellRef (length B) i j) s = Inr (x, s)"
  using assms by (simp add: get_tc_def get_table_def state_apply new_tbl_def Let_def)

lemma tc_text_set: "tc_text (x\<lparr>content := [new_p\<lparr>runs := [\<lparr>run_rPr = None, items = run_items t\<rparr>]\<rparr>]\<rparr>) = t"
  by (simp add: tc_text_def paragraph_text_def run_items_def)

lemma cell_text_set_reads_back:
  assumes "get_tc cl s = Inr (x, s0)"
  shows "\<exists>s' x'. cell_text_set cl t s = Inr ((), s') \<and> get_tc cl s' = Inr (x', s') \<and> tc_text x' = t
     \<and> tc_tcPr x' = tc_tcPr x"
proof -
  have s0: "s0 = s" using assms by (rule get_tc_state)
  from put_tc_get_tc [OF assms, of "x\<lparr>content := [new_p\<lparr>runs := [\<lparr>run_rPr = None, items = run_items t\<rparr>]\<rparr>]\<rparr>"]
  obtain s' where "put_tc cl (x\<lparr>content := [new_p\<lparr>runs := [\<lparr>run_rPr = None, items = run_items t\<rparr>]\<rparr>]\<rparr>) s = Inr ((), s')"
    "get_tc cl s' = Inr (x\<lparr>content := [new_p\<lparr>runs := [\<lparr>run_rPr = None, items = run_items t\<rparr>]\<rparr>]\<rparr>, s')" by blast
  then show ?thesis using assms s0
    by (intro exI [of _ s'] exI [of _ "x\<lparr>content := [new_p\<lparr>runs := [\<lparr>run_rPr = None, items = run_items t\<rparr>]\<rparr>]\<rparr>"])
       (simp add: cell_text_set_def state_apply tc_text_set)
qed

lemma py_index_nonneg: "0 \<le> i \<Longrightarrow> i < int n \<Longrightarrow> py_index n i = Inr (nat i)"
  by (simp add: py_index_def)

lemma flat_index_in_bounds:
  assumes "0 \<le> row" "row < r" "0 \<le> col" "col < c"
  shows "py_index (nat r * nat c) (col + row * c) = Inr (nat col + nat row * nat c)"
proof -
  have "col + row * c < c + row * c" using assms by simp
  also have "\<dots> = (row + 1) * c" by (simp add: algebra_simps)
  also have "\<dots> \<le> r * c" using assms by (intro mult_right_mono) simp_all
  finally have up: "col + row * c < r * c" .
  have "r * c = int (nat r) * int (nat c)" using assms by simp
  then have rc: "r * c = int (nat r * nat c)" by simp
  have lo: "0 \<le> col + row * c" using assms by simp
  have n: "nat (col + row * c) = nat col + nat row * nat c"
    using assms by (simp add: nat_add_distrib nat_mult_distrib)
  from py_index_nonneg [OF lo up [unfolded rc]] n show ?thesis by simp
qed

lemma py_index_succeeds_iff: "(\<exists>k. py_index n i = Inr k) \<longleftrightarrow> - int n \<le> i \<and> i < int n"
  by (auto simp: py_index_def)

lemma py_index_fails_iff: "py_index n i = Inl IndexError \<longleftrightarrow> i < - int n \<or> int n \<le> i"
  by (auto simp: py_index_def)

lemma div_mod_flat: "b < C \<Longrightarrow> (b + a * C) div C = a \<and> (b + a * C) mod C = (b::nat)"
  by simp

section \<open>Merging cells of one row of a new table\<close>


















section \<open>Calls that keep the styles\<close>

lemma keeps_stylesI:
  "(\<And>s x s'. m s = Inr (x, s') \<Longrightarrow> styles (docx s') = styles (docx s)) \<Longrightarrow> keeps_styles m"
  by (auto simp: keeps_styles_def split: sum.splits)

lemma keeps_stylesD:
  "keeps_styles m \<Longrightarrow> m s = Inr (x, s') \<Longrightarrow> styles (docx s') = styles (docx s)"
  by (auto simp: keeps_styles_def split: sum.splits dest!: spec [of _ s])

lemma ks_return: "keeps_styles (return x)"
  by (rule keeps_stylesI) (simp add: return_apply)

lemma ks_raise: "keeps_styles (raise e)"
  by (rule keeps_stylesI) (simp add: raise_apply)

lemma ks_lift: "keeps_styles (lift r)"
  by (cases r) (simp_all add: lift_def ks_return ks_raise)

lemma ks_get_doc: "keeps_styles get_doc"
  by (rule keeps_stylesI) (auto simp: get_doc_apply)

lemma ks_bind:
  assumes "keeps_styles m" and "\<And>x. keeps_styles (f x)"
  shows "keeps_styles (bind m f)"
proof (rule keeps_stylesI)
  fix s y s'
  assume "bind m f s = Inr (y, s')"
  then obtain x s1 where 1: "m s = Inr (x, s1)" and 2: "f x s1 = Inr (y, s')"
    by (auto simp: bind_apply split: sum.splits)
  from keeps_stylesD [OF assms(1) 1] keeps_stylesD [OF assms(2) 2]
  show "styles (docx s') = styles (docx s)" by simp
qed

lemma ks_if: "keeps_styles m \<Longrightarrow> keeps_styles m' \<Longrightarrow> keeps_styles (if c then m else m')"
  by simp

lemma ks_option: "keeps_styles m \<Longrightarrow> (\<And>y. keeps_styles (f y)) \<Longrightarrow>
    keeps_styles (case x of None \<Rightarrow> m | Some y \<Rightarrow> f y)"
  by (cases x) simp_all

lemma ks_block: "(\<And>p. keeps_styles (f p)) \<Longrightarrow> (\<And>t. keeps_styles (g t)) \<Longrightarrow>
    keeps_styles (case b of Para p \<Rightarrow> f p | Tbl t \<Rightarrow> g t)"
  by (cases b) simp_all


lemma ks_get_para: "keeps_styles (get_para r)"
  by (cases r) (auto simp: get_para_def intro!: ks_bind ks_get_doc ks_if ks_block ks_return ks_raise)

lemma ks_get_table: "keeps_styles (get_table r)"
  by (cases r) (auto simp: get_table_def intro!: ks_bind ks_get_doc ks_if ks_block ks_return ks_raise)

lemma ks_put_body: "keeps_styles (bind get_doc (\<lambda>d. put_doc (d\<lparr>body := f d\<rparr>)))"
  by (rule keeps_stylesI) (auto simp: state_apply)

lemma ks_body_append: "keeps_styles (body_append b)"
  by (rule keeps_stylesI) (auto simp: body_append_def state_apply)

lemma ks_put_para: "keeps_styles (put_para r p)"
  by (cases r) (auto simp: put_para_def intro!: ks_bind ks_get_para ks_put_body)

lemma ks_put_table: "keeps_styles (put_table r t)"
  by (cases r) (auto simp: put_table_def intro!: ks_bind ks_get_table ks_put_body)

lemma ks_get_tc: "keeps_styles (get_tc r)"
  by (cases r) (auto simp: get_tc_def intro!: ks_bind ks_get_table ks_if ks_return ks_raise)

lemma ks_put_tc: "keeps_styles (put_tc r c)"
  by (cases r) (auto simp: put_tc_def intro!: ks_bind ks_get_tc ks_get_table ks_put_table)

lemma ks_get_run: "keeps_styles (get_run r)"
  by (cases r) (auto simp: get_run_def intro!: ks_bind ks_get_para ks_if ks_return ks_raise)

lemma ks_put_run: "keeps_styles (put_run r x)"
  by (cases r) (auto simp: put_run_def intro!: ks_bind ks_get_run ks_get_para ks_put_para)

lemma ks_get_style: "keeps_styles (get_style r)"
  by (cases r) (auto simp: get_style_def intro!: ks_bind ks_get_doc ks_if ks_return ks_raise)

lemma ks_styles_getitem: "keeps_styles (styles_getitem d key)"
  unfolding styles_getitem_def by (intro ks_bind ks_get_doc ks_option ks_return ks_raise)

lemma ks_get_style_id: "keeps_styles (get_style_id nm ty)"
  unfolding get_style_id_def
  by (intro ks_bind ks_styles_getitem ks_get_style ks_if ks_return ks_raise)

lemmas ks_base = ks_return ks_raise ks_lift ks_get_doc ks_bind ks_if ks_option ks_block
  ks_get_para ks_put_para ks_get_table ks_put_table ks_get_tc ks_put_tc ks_get_run ks_put_run
  ks_get_style ks_styles_getitem ks_get_style_id ks_body_append

lemma ks_add_run: "keeps_styles (add_run r t)"
  by (cases r) (auto simp: add_run_def intro!: ks_base)

lemma ks_runs_getitem: "keeps_styles (runs_getitem r i)"
  by (cases r) (auto simp: runs_getitem_def intro!: ks_base)

lemma ks_run_sets: "keeps_styles (run_bold_set r b)" "keeps_styles (run_font_size_set r n)"
  "keeps_styles (run_font_color_rgb_set r c)" "keeps_styles (add_break r k)"
  unfolding run_bold_set_def run_font_size_set_def run_font_color_rgb_set_def add_break_def
  by (intro ks_base)+

lemma ks_para_sets: "keeps_styles (alignment_set p a)" "keeps_styles (paragraph_style_set p nm)"
  unfolding alignment_set_def paragraph_style_set_def by (intro ks_base)+

lemma ks_add_paragraph: "keeps_styles (add_paragraph d t sty)"
  unfolding add_paragraph_def by (intro ks_base ks_add_run ks_para_sets)

lemma ks_add_heading: "keeps_styles (add_heading d t l)"
  unfolding add_heading_def by (intro ks_base ks_add_paragraph)

lemma ks_add_page_break: "keeps_styles (add_page_break d)"
  unfolding add_page_break_def by (intro ks_base ks_add_paragraph ks_add_run ks_run_sets)

lemma ks_add_table: "keeps_styles (add_table d r c)"
  unfolding add_table_def by (intro ks_base)

lemma ks_table_style_set: "keeps_styles (table_style_set r nm)"
  unfolding table_style_set_def by (intro ks_base)

lemma ks_table_cell: "keeps_styles (table_cell r i j)"
  by (cases r) (auto simp: table_cell_def Let_def intro!: ks_base)

lemma ks_cell_sets: "keeps_styles (cell_text_set c t)" "keeps_styles (get_or_add_tcPr c)"
  "keeps_styles (tcPr_append c e)"
  unfolding cell_text_set_def get_or_add_tcPr_def tcPr_append_def by (intro ks_base)+

lemma ks_merge: "keeps_styles (merge a b)"
  by (cases a; cases b) (auto simp: merge_def Let_def intro!: ks_base)

lemma ks_set_cell_shading: "keeps_styles (set_cell_shading c v)"
  unfolding set_cell_shading_def by (intro ks_base ks_cell_sets)

lemma ks_save: "keeps_styles (save d p)" and ks_print: "keeps_styles (print l)"
  by (rule keeps_stylesI, simp add: save_def print_def)+

lemma ks_for_from: "(\<And>i. keeps_styles (f i)) \<Longrightarrow> keeps_styles (for_from i f n)"
  by (induction n arbitrary: i) (auto intro!: ks_base)

lemma ks_for_range: "(\<And>i. keeps_styles (f i)) \<Longrightarrow> keeps_styles (for_range n f)"
  unfolding for_range_def by (rule ks_for_from)

lemmas ks_calls = ks_base ks_add_run ks_runs_getitem ks_run_sets ks_para_sets ks_add_paragraph
  ks_add_heading ks_add_page_break ks_add_table ks_table_style_set ks_table_cell ks_cell_sets
  ks_merge ks_set_cell_shading ks_save ks_print ks_for_range

section \<open>Calls that keep the blocks\<close>













































section \<open>Calls that depend on the document only\<close>








































section \<open>Setting the default font\<close>

lemma style_index_Some:
  "style_index sts key = Some i \<Longrightarrow> i < length sts \<and> style_name (sts ! i) = key"
  by (induction sts arbitrary: i) (auto split: if_splits option.splits)

lemma style_index_update:
  "style_index sts key = Some i \<Longrightarrow> style_name st = key \<Longrightarrow>
     style_index (sts[i := st]) key = Some i"
proof (induction sts arbitrary: i)
  case Nil
  then show ?case by simp
next
  case (Cons a sts)
  then show ?case by (cases i) (auto split: if_splits option.splits)
qed

lemma map_of_set_attrib: "map_of (set_attrib a k v) k' = (if k' = k then Some v else map_of a k')"
  by (induction a k v rule: set_attrib.induct) auto

lemma w_names_differ: "w_name ''ascii'' \<noteq> w_name ''eastAsia''" "w_name ''ascii'' \<noteq> w_name ''hAnsi''"
  "w_name ''eastAsia'' \<noteq> w_name ''hAnsi''"
  by (simp_all add: w_name_def clark_def u_def)

lemma qn_eastAsia: "qn (u ''w:eastAsia'') = Inr (w_name ''eastAsia'')"
  by (simp add: qn_def u_def nsmap_def w_name_def clark_def)

lemma get_or_add_Some: "get_or_add (Some p) = p"
  by (simp add: get_or_add_def)

lemma default_font_set:
  assumes "bind (Document template) (\<lambda>doc.
      bind (styles_getitem doc (u ''Normal'')) (\<lambda>style.
      bind (style_font_name_set style nm) (\<lambda>_.
      bind (style_font_size_set style pts) (\<lambda>_.
      bind (bind (style_element_rPr_rFonts style) (\<lambda>rFonts.
            bind (lift (qn (u ''w:eastAsia''))) (\<lambda>k. rFonts_set rFonts k nm))) (\<lambda>_.
      return ()))))) s = Inr (x, s1)"
  shows "body (docx s1) = body template \<and> default_font (docx s1) = Some (Some nm, Some nm, Some pts)"
proof (cases "style_index (styles template) (u ''Normal'')")
  case None
  with assms show ?thesis
    by (simp add: bind_apply Document_def put_doc_apply return_apply styles_getitem_def
        get_doc_apply raise_apply)
next
  case (Some i)
  from style_index_Some [OF Some] have i: "i < length (styles template)"
    and n: "style_name (styles template ! i) = u ''Normal''" by simp_all
  define st where "st = styles template ! i"
  define fonts where "fonts = set_attrib (set_attrib (set_attrib
      (case rFonts (get_or_add (style_rPr st)) of None \<Rightarrow> [] | Some a \<Rightarrow> a)
      (w_name ''ascii'') nm) (w_name ''hAnsi'') nm) (w_name ''eastAsia'') nm"
  define st' where "st' = st\<lparr>style_rPr := Some ((get_or_add (style_rPr st))\<lparr>sz := Some pts, rFonts := Some fonts\<rparr>)\<rparr>"
  have r: "s1 = s\<lparr>docx := template\<lparr>styles := (styles template)[i := st']\<rparr>\<rparr>"
    using assms i Some
    by (simp add: bind_apply Document_def put_doc_apply return_apply styles_getitem_def
        get_doc_apply raise_apply style_font_name_set_def style_font_size_set_def
        style_element_rPr_rFonts_def rFonts_set_def get_style_def put_style_def Let_def
        lift_apply qn_eastAsia st_def [symmetric] st'_def fonts_def if_apply get_or_add_Some)
  have "style_name st' = u ''Normal''" by (simp add: st'_def st_def n)
  from style_index_update [OF Some this]
  have ix: "style_index ((styles template)[i := st']) (u ''Normal'') = Some i" .
  have "map_of fonts (w_name ''ascii'') = Some nm" "map_of fonts (w_name ''eastAsia'') = Some nm"
    using w_names_differ by (simp_all add: fonts_def map_of_set_attrib)
  moreover have "style_rPr st' = Some ((get_or_add (style_rPr st))\<lparr>sz := Some pts, rFonts := Some fonts\<rparr>)"
    by (simp add: st'_def)
  ultimately show ?thesis
    using i by (simp add: r default_font_def ix)
qed

section \<open>What a sequence of block-append calls builds\<close>







section \<open>The claims of the specification\<close>




text \<open>
  C2, as the code has it. The scripts address a cell with \<^verbatim>\<open>table.cell(row, col)\<close> and
  write it with \<^verbatim>\<open>.text = value\<close>; python-docx looks the cell up at the flat position
  \<^verbatim>\<open>col + row * c\<close> of the row-major list of the table's \<^verbatim>\<open>r * c\<close> cells. For a table
  just created with \<open>r\<close> rows and \<open>c\<close> columns, every pair with \<open>0 \<le> row < r\<close> and
  \<open>0 \<le> col < c\<close> addresses the cell of that row and column and the write succeeds and
  reads back; the write succeeds for every pair whose flat position lies in
  \<open>[- r * c, r * c)\<close>, inside the bounds or not; and it fails, with Python's IndexError,
  exactly for the pairs whose flat position lies outside that range.
\<close>

theorem table_cell_addresses_by_flat_index:
  assumes "add_table d r c s = Inr (table, s1)" and "0 \<le> r" and "0 \<le> c"
  shows "(0 \<le> row \<and> row < r \<and> 0 \<le> col \<and> col < c \<longrightarrow>
            table_cell table row col s1 = Inr (CellRef (length (body (docx s))) (nat row) (nat col), s1)
          \<and> (\<exists>s2 x. bind (table_cell table row col) (\<lambda>cl. cell_text_set cl t) s1 = Inr ((), s2)
               \<and> get_tc (CellRef (length (body (docx s))) (nat row) (nat col)) s2 = Inr (x, s2)
               \<and> tc_text x = t))
       \<and> (- (r * c) \<le> col + row * c \<and> col + row * c < r * c \<longrightarrow>
            (\<exists>s2. bind (table_cell table row col) (\<lambda>cl. cell_text_set cl t) s1 = Inr ((), s2)))
       \<and> (col + row * c < - (r * c) \<or> r * c \<le> col + row * c \<longrightarrow>
            bind (table_cell table row col) (\<lambda>cl. cell_text_set cl t) s1 = Inl IndexError)"
proof -
  let ?B = "body (docx s)"
  from assms(1) have tab: "table = TableRef (length ?B)"
    and s1: "s1 = s\<lparr>docx := (docx s)\<lparr>body := ?B @ [Tbl (new_tbl r c (block_width (docx s)))]\<rparr>\<rparr>"
    by (simp_all add: add_table_result)
  have b: "body (docx s1) = ?B @ [Tbl (new_tbl r c (block_width (docx s)))]" by (simp add: s1)
  note tc = table_cell_new_tbl [OF b, folded tab]
  have c0: "int (nat c) = c" and rc: "int (nat r * nat c) = r * c" using assms by simp_all
  have part1: "table_cell table row col s1 = Inr (CellRef (length ?B) (nat row) (nat col), s1)
          \<and> (\<exists>s2 x. bind (table_cell table row col) (\<lambda>cl. cell_text_set cl t) s1 = Inr ((), s2)
               \<and> get_tc (CellRef (length ?B) (nat row) (nat col)) s2 = Inr (x, s2) \<and> tc_text x = t)"
    if h: "0 \<le> row \<and> row < r \<and> 0 \<le> col \<and> col < c"
  proof -
    from h have lt: "nat row < nat r" "nat col < nat c" by simp_all
    from h have fi: "py_index (nat r * nat c) (col + row * int (nat c)) = Inr (nat col + nat row * nat c)"
      by (simp add: flat_index_in_bounds c0)
    have e: "table_cell table row col s1 = Inr (CellRef (length ?B) (nat row) (nat col), s1)"
      unfolding tc fi using div_mod_flat [OF lt(2), of "nat row"] by simp
    from get_tc_new_tbl [OF b lt] obtain x0 where
      "get_tc (CellRef (length ?B) (nat row) (nat col)) s1 = Inr (x0, s1)" by blast
    from cell_text_set_reads_back [OF this, of t] e show ?thesis
      by (auto simp: bind_apply)
  qed
  have part2: "\<exists>s2. bind (table_cell table row col) (\<lambda>cl. cell_text_set cl t) s1 = Inr ((), s2)"
    if h: "- (r * c) \<le> col + row * c \<and> col + row * c < r * c"
  proof -
    from h have "- int (nat r * nat c) \<le> col + row * int (nat c)
        \<and> col + row * int (nat c) < int (nat r * nat c)" by (simp only: rc c0)
    then obtain k where k: "py_index (nat r * nat c) (col + row * int (nat c)) = Inr k"
      using py_index_succeeds_iff by blast
    then have klt: "k < nat r * nat c" by (rule py_index_less)
    then have pos: "0 < nat c" by (cases "nat c") simp_all
    have lt: "k div nat c < nat r" "k mod nat c < nat c"
      using klt pos by (simp_all add: less_mult_imp_div_less)
    from get_tc_new_tbl [OF b lt] obtain x0 where
      "get_tc (CellRef (length ?B) (k div nat c) (k mod nat c)) s1 = Inr (x0, s1)" by blast
    from cell_text_set_reads_back [OF this, of t] k show ?thesis
      by (auto simp: bind_apply tc)
  qed
  have part3: "bind (table_cell table row col) (\<lambda>cl. cell_text_set cl t) s1 = Inl IndexError"
    if h: "col + row * c < - (r * c) \<or> r * c \<le> col + row * c"
  proof -
    from h have "col + row * int (nat c) < - int (nat r * nat c)
        \<or> int (nat r * nat c) \<le> col + row * int (nat c)" by (simp only: rc c0)
    then have "py_index (nat r * nat c) (col + row * int (nat c)) = Inl IndexError"
      by (simp only: py_index_fails_iff)
    then show ?thesis by (simp add: bind_apply tc)
  qed
  from part1 part2 part3 show ?thesis by blast
qed

text \<open>The theorem on the blank document with a table of three by three: (1, 2) is in
  bounds, (0, 3) is outside the bounds but inside the flat range, (3, 0) is outside
  both.\<close>

theorem table_cell_addresses_by_flat_index_witness:
  "table_cell (TableRef 0) 1 2 three_by_three = Inr (CellRef 0 1 2, three_by_three)
   \<and> (\<exists>s2. bind (table_cell (TableRef 0) 0 3) (\<lambda>cl. cell_text_set cl (u ''X'')) three_by_three
          = Inr ((), s2))
   \<and> bind (table_cell (TableRef 0) 3 0) (\<lambda>cl. cell_text_set cl (u ''X'')) three_by_three
        = Inl IndexError"
proof -
  have a: "add_table DocRef 3 3 fresh_state = Inr (TableRef 0, three_by_three)"
    by (simp add: add_table_result three_by_three_def fresh_state_def blank_template_def)
  have l: "length (body (docx fresh_state)) = 0"
    by (simp add: fresh_state_def blank_template_def)
  note t = table_cell_addresses_by_flat_index [OF a, simplified l]
  from t [of 1 2, THEN conjunct1] t [of 0 3 "u ''X''", THEN conjunct2, THEN conjunct1]
    t [of 3 0 "u ''X''", THEN conjunct2, THEN conjunct2]
  show ?thesis by simp
qed

text \<open>C2 as the specification states it fails: on the three by three table of the blank
  document, column 3 of row 0 and row -1 are outside the bounds, and the calls do not
  fail; they address cell (1, 0) and cell (2, 0).\<close>

theorem out_of_bounds_cell_is_addressed:
  "add_table DocRef 3 3 fresh_state = Inr (TableRef 0, three_by_three)
   \<and> table_cell (TableRef 0) 0 3 three_by_three = Inr (CellRef 0 1 0, three_by_three)
   \<and> table_cell (TableRef 0) (- 1) 0 three_by_three = Inr (CellRef 0 2 0, three_by_three)
   \<and> bind (table_cell (TableRef 0) 0 3) (\<lambda>cl. cell_text_set cl (u ''X'')) three_by_three
        \<noteq> Inl IndexError"
proof -
  have b: "body (docx three_by_three) = [] @ [Tbl (new_tbl 3 3 (block_width blank_template))]"
    by (simp add: three_by_three_def)
  have a: "add_table DocRef 3 3 fresh_state = Inr (TableRef 0, three_by_three)"
    by (simp add: add_table_result three_by_three_def fresh_state_def blank_template_def)
  have c1: "table_cell (TableRef 0) 0 3 three_by_three = Inr (CellRef 0 1 0, three_by_three)"
    using table_cell_new_tbl [OF b, of 0 3] by (simp add: py_index_def)
  have c2: "table_cell (TableRef 0) (- 1) 0 three_by_three = Inr (CellRef 0 2 0, three_by_three)"
    using table_cell_new_tbl [OF b, of "- 1" 0] by (simp add: py_index_def)
  from get_tc_new_tbl [OF b, of 1 0] obtain x where
    "get_tc (CellRef 0 1 0) three_by_three = Inr (x, three_by_three)" by auto
  from cell_text_set_reads_back [OF this, of "u ''X''"] c1
  have "bind (table_cell (TableRef 0) 0 3) (\<lambda>cl. cell_text_set cl (u ''X'')) three_by_three
        \<noteq> Inl IndexError"
    by (auto simp: bind_apply)
  with a c1 c2 show ?thesis by simp
qed






text \<open>
  C8. In each script the default styling is set by the statements that follow
  \<^verbatim>\<open>doc = Document()\<close>: when they have run, the body is still the template's (no block
  has been appended) and the document's default font family and East Asian font are
  \<^verbatim>\<open>Microsoft YaHei UI\<close>, its default size 11 points. All the statements after them keep
  the document's styles as they are, and so does every call that appends a block
  (\<^verbatim>\<open>add_heading\<close>, \<^verbatim>\<open>add_paragraph\<close>, \<^verbatim>\<open>add_table\<close>, \<^verbatim>\<open>add_page_break\<close>) or addresses
  and changes a cell (\<^verbatim>\<open>table.cell\<close>, \<^verbatim>\<open>cell.text\<close>, \<^verbatim>\<open>cell.merge\<close>,
  \<^verbatim>\<open>set_cell_shading\<close>), on any document.
\<close>

theorem default_styling_is_set_first_and_kept:
  "(\<forall>s x s1. bind (Document template) (\<lambda>doc. manual_lines_18_21 doc) s = Inr (x, s1) \<longrightarrow>
      body (docx s1) = body template \<and> default_font (docx s1) =
        Some (Some (u ''Microsoft YaHei UI''), Some (u ''Microsoft YaHei UI''), Some (Pt 11)))
   \<and> (\<forall>s x s1. bind (Document template) (\<lambda>doc. admin_lines_16_19 doc) s = Inr (x, s1) \<longrightarrow>
      body (docx s1) = body template \<and> default_font (docx s1) =
        Some (Some (u ''Microsoft YaHei UI''), Some (u ''Microsoft YaHei UI''), Some (Pt 11)))
   \<and> (\<forall>s x s1. bind (Document template) (\<lambda>doc. full_lines_16_19 doc) s = Inr (x, s1) \<longrightarrow>
      body (docx s1) = body template \<and> default_font (docx s1) =
        Some (Some (u ''Microsoft YaHei UI''), Some (u ''Microsoft YaHei UI''), Some (Pt 11)))
   \<and> keeps_styles (manual_lines_24_230 doc)
   \<and> keeps_styles (admin_lines_22_230 doc)
   \<and> keeps_styles (full_lines_22_193 doc)
   \<and> keeps_styles (add_heading d t level) \<and> keeps_styles (add_paragraph d t sty)
   \<and> keeps_styles (add_table d r c) \<and> keeps_styles (add_page_break d)
   \<and> keeps_styles (table_cell tr row col) \<and> keeps_styles (cell_text_set cr t)
   \<and> keeps_styles (merge cr cr') \<and> keeps_styles (set_cell_shading cr v)"
proof -
  have m: "keeps_styles (manual_lines_24_230 doc)" unfolding manual_runs by (intro ks_calls)
  have a: "keeps_styles (admin_lines_22_230 doc)" unfolding admin_runs by (intro ks_calls)
  have f: "keeps_styles (full_lines_22_193 doc)" unfolding full_runs by (intro ks_calls)
  note first = default_font_set [of template "u ''Microsoft YaHei UI''" "Pt 11"]
  from m a f first [folded manual_lines_18_21_def] first [folded admin_lines_16_19_def]
    first [folded full_lines_16_19_def]
  show ?thesis
    by (intro conjI allI impI ks_calls) blast+
qed

text \<open>The theorem on the blank document: the first statements of \<^verbatim>\<open>create_manual\<close> run,
  leave the body empty and set the default font; an empty paragraph (line 32) appended
  next leaves the styles as they are.\<close>

theorem default_styling_is_set_first_and_kept_witness:
  "\<exists>s1 p s2.
     bind (Document blank_template) (\<lambda>doc. manual_lines_18_21 doc) fresh_state = Inr ((), s1)
     \<and> body (docx s1) = []
     \<and> default_font (docx s1) =
         Some (Some (u ''Microsoft YaHei UI''), Some (u ''Microsoft YaHei UI''), Some (Pt 11))
     \<and> add_paragraph DocRef [] None s1 = Inr (p, s2)
     \<and> styles (docx s2) = styles (docx s1)"
proof -
  note t = default_styling_is_set_first_and_kept [of blank_template DocRef DocRef "[]" 0 None]
  obtain s1 where s1: "bind (Document blank_template) (\<lambda>doc. manual_lines_18_21 doc) fresh_state
      = Inr ((), s1)"
    by (simp add: manual_lines_18_21_def state_apply calls_apply pure_defs fresh_state_def
        blank_template_def mk_style_def)
  from t [THEN conjunct1, rule_format, OF s1]
  have b: "body (docx s1) = []" "default_font (docx s1) =
         Some (Some (u ''Microsoft YaHei UI''), Some (u ''Microsoft YaHei UI''), Some (Pt 11))"
    by (simp_all add: blank_template_def)
  obtain p s2 where p: "add_paragraph DocRef [] None s1 = Inr (p, s2)"
    by (simp add: state_apply add_paragraph_def [THEN fun_cong] body_append_def [THEN fun_cong])
  from t have "keeps_styles (add_paragraph DocRef [] None)" by simp
  from keeps_stylesD [OF this p] s1 b p show ?thesis by blast
qed



end
